theory Spec2Isabelle
  imports Main
begin

section \<open>Strings\<close>

text \<open>
  A JavaScript string is modelled as a \<^typ>\<open>string\<close> holding its UTF-8 bytes. Every
  character the program tests for (digits, \<open>/\<close>, \<open>:\<close>, space, the suffix \<open>@c.us\<close>, the
  keywords) is ASCII, and an ASCII byte never occurs inside a multi-byte sequence, so
  equality, \<open>split\<close>, \<open>startsWith\<close>, \<open>endsWith\<close> and \<open>includes\<close> agree with the
  UTF-16 original. Characters beyond ASCII in the bot's texts are written as their bytes.
\<close>

definition isDigit :: "char \<Rightarrow> bool" where
  "isDigit c = (c \<in> set ''0123456789'')"

definition digitVal :: "char \<Rightarrow> int" where
  "digitVal c = int (of_char c) - 48"

definition startsWith :: "string \<Rightarrow> string \<Rightarrow> bool" where
  "startsWith s p = (take (length p) s = p)"

definition endsWith :: "string \<Rightarrow> string \<Rightarrow> bool" where
  "endsWith s p = (length p \<le> length s \<and> drop (length s - length p) s = p)"

text \<open>\<open>s.split(c)\<close> for a one-character separator: always at least one piece.\<close>

fun split :: "char \<Rightarrow> string \<Rightarrow> string list" where
  "split c [] = [[]]"
| "split c (x # xs) =
     (if x = c then [] # split c xs
      else (case split c xs of [] \<Rightarrow> [[x]] | w # ws \<Rightarrow> (x # w) # ws))"

text \<open>\<open>xs.join(sep)\<close>.\<close>

fun join :: "string \<Rightarrow> string list \<Rightarrow> string" where
  "join sep [] = []"
| "join sep [x] = x"
| "join sep (x # y # ys) = x @ sep @ join sep (y # ys)"

definition padStart :: "nat \<Rightarrow> char \<Rightarrow> string \<Rightarrow> string" where
  "padStart n c s = replicate (n - length s) c @ s"

text \<open>The decimal text of a natural number (\<open>String(n)\<close>, template literals).\<close>

definition digitChar :: "nat \<Rightarrow> char" where
  "digitChar n = ''0123456789'' ! (n mod 10)"

fun toStr :: "nat \<Rightarrow> string" where
  "toStr n = (if n < 10 then [digitChar n] else toStr (n div 10) @ [digitChar (n mod 10)])"

declare toStr.simps [simp del]

definition numStr :: "int \<Rightarrow> string" where
  "numStr n = (if n < 0 then ''-'' @ toStr (nat (- n)) else toStr (nat n))"

text \<open>\<open>s.includes(p)\<close>: \<open>p\<close> occurs somewhere in \<open>s\<close>.\<close>

fun includes_str :: "string \<Rightarrow> string \<Rightarrow> bool" where
  "includes_str [] p = (p = [])"
| "includes_str (x # xs) p = (take (length p) (x # xs) = p \<or> includes_str xs p)"

text \<open>
  White space as \<open>trim\<close> and \<open>parseInt\<close> skip it: the ASCII blanks and the Unicode
  spaces and line terminators (U+00A0, U+1680, U+2000..U+200A, U+2028, U+2029, U+202F,
  U+205F, U+3000, U+FEFF), the latter as UTF-8 byte sequences.
\<close>

definition asciiSpace :: "char \<Rightarrow> bool" where
  "asciiSpace c = (of_char c \<in> {9, 10, 11, 12, 13, 32 :: nat})"

fun trimStart :: "string \<Rightarrow> string" where
  "trimStart (a # b # c # s) =
     (if asciiSpace a then trimStart (b # c # s)
      else if of_char a = (0xC2::nat) \<and> of_char b = (0xA0::nat) then trimStart (c # s)
      else if (of_char a = (0xE1::nat) \<and> of_char b = (0x9A::nat) \<and> of_char c = (0x80::nat))
           \<or> (of_char a = (0xE2::nat) \<and> of_char b = (0x80::nat)
               \<and> (of_char c :: nat) \<in> {0x80..0x8A} \<union> {0xA8, 0xA9, 0xAF})
           \<or> (of_char a = (0xE2::nat) \<and> of_char b = (0x81::nat) \<and> of_char c = (0x9F::nat))
           \<or> (of_char a = (0xE3::nat) \<and> of_char b = (0x80::nat) \<and> of_char c = (0x80::nat))
           \<or> (of_char a = (0xEF::nat) \<and> of_char b = (0xBB::nat) \<and> of_char c = (0xBF::nat))
      then trimStart s
      else a # b # c # s)"
| "trimStart [a, b] =
     (if asciiSpace a then trimStart [b]
      else if of_char a = (0xC2::nat) \<and> of_char b = (0xA0::nat) then []
      else [a, b])"
| "trimStart [a] = (if asciiSpace a then [] else [a])"
| "trimStart [] = []"

text \<open>
  \<open>trimEnd\<close> removes the same characters from the end; a multi-byte space is found by
  its last bytes.
\<close>

fun trimEndRev :: "string \<Rightarrow> string" where
  "trimEndRev (c # b # a # s) =
     (if asciiSpace c then trimEndRev (b # a # s)
      else if of_char b = (0xC2::nat) \<and> of_char c = (0xA0::nat) then trimEndRev (a # s)
      else if (of_char a = (0xE1::nat) \<and> of_char b = (0x9A::nat) \<and> of_char c = (0x80::nat))
           \<or> (of_char a = (0xE2::nat) \<and> of_char b = (0x80::nat)
               \<and> (of_char c :: nat) \<in> {0x80..0x8A} \<union> {0xA8, 0xA9, 0xAF})
           \<or> (of_char a = (0xE2::nat) \<and> of_char b = (0x81::nat) \<and> of_char c = (0x9F::nat))
           \<or> (of_char a = (0xE3::nat) \<and> of_char b = (0x80::nat) \<and> of_char c = (0x80::nat))
           \<or> (of_char a = (0xEF::nat) \<and> of_char b = (0xBB::nat) \<and> of_char c = (0xBF::nat))
      then trimEndRev s
      else c # b # a # s)"
| "trimEndRev [c, b] =
     (if asciiSpace c then trimEndRev [b]
      else if of_char b = (0xC2::nat) \<and> of_char c = (0xA0::nat) then []
      else [c, b])"
| "trimEndRev [c] = (if asciiSpace c then [] else [c])"
| "trimEndRev [] = []"

definition trim :: "string \<Rightarrow> string" where
  "trim s = rev (trimEndRev (rev (trimStart s)))"

text \<open>
  \<open>toLowerCase\<close> on every letter whose lower case lies in ASCII or Latin-1: the
  letters of ASCII, those of Latin-1 (the two-byte sequences \<open>C3 80\<close>..\<open>C3 9E\<close> without
  \<open>C3 97\<close>), and the five letters from beyond Latin-1 that fall into it, U+0130 (to
  \<open>i\<close> and U+0307), U+0178 (to U+00FF), U+1E9E (to U+00DF), the Kelvin sign U+212A (to
  \<open>k\<close>) and the Angstrom sign U+212B (to U+00E5). The program compares the result with
  texts of ASCII and Latin-1 only; the case mappings inside other scripts are not
  modelled and such characters are left as they are.
\<close>

definition minuscula :: "char \<Rightarrow> char" where
  "minuscula a = (if (of_char a :: nat) \<in> {65..90} then char_of (of_char a + (32::nat)) else a)"

fun toLowerCase :: "string \<Rightarrow> string" where
  "toLowerCase [] = []"
| "toLowerCase [a] = [minuscula a]"
| "toLowerCase [a, b] =
     (if of_char a = (0xC3::nat) \<and> (of_char b :: nat) \<in> {0x80..0x9E} - {0x97}
      then [a, char_of (of_char b + (32::nat))]
      else if of_char a = (0xC4::nat) \<and> of_char b = (0xB0::nat) then [CHR ''i'', CHR 0xCC, CHR 0x87]
      else if of_char a = (0xC5::nat) \<and> of_char b = (0xB8::nat) then [CHR 0xC3, CHR 0xBF]
      else minuscula a # toLowerCase [b])"
| "toLowerCase (a # b # c # s) =
     (if of_char a = (0xC3::nat) \<and> (of_char b :: nat) \<in> {0x80..0x9E} - {0x97}
      then a # char_of (of_char b + (32::nat)) # toLowerCase (c # s)
      else if of_char a = (0xC4::nat) \<and> of_char b = (0xB0::nat)
      then CHR ''i'' # CHR 0xCC # CHR 0x87 # toLowerCase (c # s)
      else if of_char a = (0xC5::nat) \<and> of_char b = (0xB8::nat)
      then CHR 0xC3 # CHR 0xBF # toLowerCase (c # s)
      else if of_char a = (0xE1::nat) \<and> of_char b = (0xBA::nat) \<and> of_char c = (0x9E::nat)
      then CHR 0xC3 # CHR 0x9F # toLowerCase s
      else if of_char a = (0xE2::nat) \<and> of_char b = (0x84::nat) \<and> of_char c = (0xAA::nat)
      then CHR ''k'' # toLowerCase s
      else if of_char a = (0xE2::nat) \<and> of_char b = (0x84::nat) \<and> of_char c = (0xAB::nat)
      then CHR 0xC3 # CHR 0xA5 # toLowerCase s
      else minuscula a # toLowerCase (b # c # s))"

text \<open>
  \<open>parseInt(s)\<close> without a radix: leading white space, an optional sign, an optional
  \<open>0x\<close> prefix, then the longest run of digits; \<open>None\<close> is \<open>NaN\<close>. Numbers are modelled
  as exact integers: the rounding of values beyond \<open>2^53\<close> to a double is not modelled.
\<close>

definition hexVal :: "char \<Rightarrow> int option" where
  "hexVal c =
     (let n = (of_char c :: nat) in
      if n \<in> {48..57} then Some (int n - 48)
      else if n \<in> {97..102} then Some (int n - 87)
      else if n \<in> {65..70} then Some (int n - 55)
      else None)"

fun parseDigits :: "int \<Rightarrow> int \<Rightarrow> string \<Rightarrow> int" where
  "parseDigits radix acc [] = acc"
| "parseDigits radix acc (c # s) =
     (case hexVal c of
        None \<Rightarrow> acc
      | Some v \<Rightarrow> if v < radix then parseDigits radix (acc * radix + v) s else acc)"

definition parseUnsigned :: "string \<Rightarrow> int option" where
  "parseUnsigned s =
     (let (radix, t) = (if startsWith s ''0x'' \<or> startsWith s ''0X'' then (16, drop 2 s) else (10, s))
      in case t of
           [] \<Rightarrow> None
         | c # _ \<Rightarrow> (case hexVal c of
                      None \<Rightarrow> None
                    | Some v \<Rightarrow> if v < radix then Some (parseDigits radix 0 t) else None))"

definition parseInt :: "string \<Rightarrow> int option" where
  "parseInt s =
     (case trimStart s of
        [] \<Rightarrow> None
      | c # t \<Rightarrow> if c = CHR ''-'' then map_option uminus (parseUnsigned t)
                else if c = CHR ''+'' then parseUnsigned t
                else parseUnsigned (c # t))"

section \<open>Numbers and strings as values\<close>

text \<open>
  The values a caller passes where the program expects a number: a number or a string.
  A finite number is written exactly, \<open>Numero m k\<close> being \<open>m / 10^k\<close>; every double
  is such a fraction. \<open>Infinito neg\<close> is \<open>-Infinity\<close> when \<open>neg\<close> holds and \<open>Infinity\<close>
  otherwise. Arithmetic is exact: the rounding of a decimal text of more than fifteen
  digits to the nearest double is not modelled, nor the values \<open>null\<close>, \<open>undefined\<close>,
  booleans and objects.
\<close>

datatype valor = Numero int nat | Infinito bool | NaN | Cadeia string

text \<open>What \<open>parseInt\<close> returns, as a value.\<close>

definition numero :: "int option \<Rightarrow> valor" where
  "numero a = (case a of None \<Rightarrow> NaN | Some n \<Rightarrow> Numero n 0)"

text \<open>
  \<open>Number::toString\<close> of the positive number \<open>m / 10^k\<close>, as ECMAScript defines it: with
  \<open>s\<close> the digits of the number without the zeros at their end and \<open>n\<close> the position of
  the decimal point, the digits are printed plainly when \<open>-6 < n \<le> 21\<close> and with an
  exponent otherwise.
\<close>

definition semZerosFinais :: "string \<Rightarrow> string" where
  "semZerosFinais s = rev (dropWhile (\<lambda>c. c = CHR ''0'') (rev s))"

definition decimalDe :: "string \<Rightarrow> int \<Rightarrow> string" where
  "decimalDe s n =
     (let kk = int (length s)
      in if kk \<le> n \<and> n \<le> 21 then s @ replicate (nat (n - kk)) (CHR ''0'')
         else if 0 < n \<and> n \<le> 21 then take (nat n) s @ ''.'' @ drop (nat n) s
         else if - 6 < n \<and> n \<le> 0 then ''0.'' @ replicate (nat (- n)) (CHR ''0'') @ s
         else (case s of [] \<Rightarrow> [] | c # r \<Rightarrow> c # (if r = [] then [] else ''.'' @ r))
              @ ''e'' @ (if 0 \<le> n - 1 then ''+'' else ''-'') @ toStr (nat \<bar>n - 1\<bar>))"

definition Number_toString :: "nat \<Rightarrow> nat \<Rightarrow> string" where
  "Number_toString m k =
     decimalDe (semZerosFinais (toStr m)) (int (length (toStr m)) - int k)"

definition ToString :: "valor \<Rightarrow> string" where
  "ToString v =
     (case v of
        Numero m k \<Rightarrow>
          if m = 0 then ''0''
          else (if m < 0 then ''-'' else []) @ Number_toString (nat \<bar>m\<bar>) k
      | Infinito neg \<Rightarrow> (if neg then ''-Infinity'' else ''Infinity'')
      | NaN \<Rightarrow> ''NaN''
      | Cadeia s \<Rightarrow> s)"

text \<open>
  \<open>StringToNumber\<close>: white space around the text is dropped and the empty text is 0; the
  text is a literal with the prefix \<open>0x\<close>, \<open>0o\<close> or \<open>0b\<close> and no sign, or an optional
  sign and then \<open>Infinity\<close> or decimal digits with an optional fraction and an optional
  exponent; every other text is \<open>NaN\<close>.
\<close>

definition digitosDe :: "int \<Rightarrow> string \<Rightarrow> bool" where
  "digitosDe radix s =
     (s \<noteq> [] \<and> list_all (\<lambda>c. case hexVal c of None \<Rightarrow> False | Some v \<Rightarrow> v < radix) s)"

definition strNaoDecimal :: "string \<Rightarrow> valor option" where
  "strNaoDecimal s =
     (case s of
        z # p # ds \<Rightarrow>
          if z \<noteq> CHR ''0'' then None
          else if p \<in> set ''xX'' \<and> digitosDe 16 ds then Some (Numero (parseDigits 16 0 ds) 0)
          else if p \<in> set ''oO'' \<and> digitosDe 8 ds then Some (Numero (parseDigits 8 0 ds) 0)
          else if p \<in> set ''bB'' \<and> digitosDe 2 ds then Some (Numero (parseDigits 2 0 ds) 0)
          else None
      | _ \<Rightarrow> None)"

definition strExpoente :: "string \<Rightarrow> int option" where
  "strExpoente s =
     (case s of
        [] \<Rightarrow> None
      | c # t \<Rightarrow>
          (let ds = (if c = CHR ''-'' \<or> c = CHR ''+'' then t else c # t)
           in if digitosDe 10 ds
              then Some ((if c = CHR ''-'' then - 1 else 1) * parseDigits 10 0 ds)
              else None))"

text \<open>The number \<open>m / 10^p\<close> for an integer \<open>p\<close>.\<close>

definition escala :: "int \<Rightarrow> int \<Rightarrow> valor" where
  "escala m p = (if 0 \<le> p then Numero m (nat p) else Numero (m * 10 ^ nat (- p)) 0)"

definition strDecimal :: "string \<Rightarrow> valor" where
  "strDecimal s =
     (if s = ''Infinity'' then Infinito False
      else
        let ip = takeWhile isDigit s;
            r1 = dropWhile isDigit s;
            comPonto = (r1 \<noteq> [] \<and> hd r1 = CHR ''.'');
            fr = (if comPonto then takeWhile isDigit (tl r1) else []);
            r2 = (if comPonto then dropWhile isDigit (tl r1) else r1);
            ex = (case r2 of
                    [] \<Rightarrow> Some 0
                  | c # t \<Rightarrow> if c = CHR ''e'' \<or> c = CHR ''E'' then strExpoente t else None)
        in if ip = [] \<and> fr = [] then NaN
           else (case ex of
                   None \<Rightarrow> NaN
                 | Some x \<Rightarrow> escala (parseDigits 10 0 (ip @ fr)) (int (length fr) - x)))"

definition negar :: "valor \<Rightarrow> valor" where
  "negar v = (case v of Numero m k \<Rightarrow> Numero (- m) k | Infinito neg \<Rightarrow> Infinito (\<not> neg) | w \<Rightarrow> w)"

definition StringToNumber :: "string \<Rightarrow> valor" where
  "StringToNumber s =
     (case trim s of
        [] \<Rightarrow> Numero 0 0
      | c # t \<Rightarrow>
          (case strNaoDecimal (c # t) of
             Some v \<Rightarrow> v
           | None \<Rightarrow>
               if c = CHR ''-'' then negar (strDecimal t)
               else if c = CHR ''+'' then strDecimal t
               else strDecimal (c # t)))"

definition ToNumber :: "valor \<Rightarrow> valor" where
  "ToNumber v = (case v of Cadeia s \<Rightarrow> StringToNumber s | w \<Rightarrow> w)"

text \<open>\<open>v < b\<close> and \<open>v > b\<close> for an integer \<open>b\<close>: false when \<open>v\<close> is no number.\<close>

definition valor_lt :: "valor \<Rightarrow> int \<Rightarrow> bool" where
  "valor_lt v b =
     (case ToNumber v of Numero m k \<Rightarrow> m < b * 10 ^ k | Infinito neg \<Rightarrow> neg | _ \<Rightarrow> False)"

definition valor_gt :: "valor \<Rightarrow> int \<Rightarrow> bool" where
  "valor_gt v b =
     (case ToNumber v of Numero m k \<Rightarrow> b * 10 ^ k < m | Infinito neg \<Rightarrow> \<not> neg | _ \<Rightarrow> False)"

text \<open>
  \<open>Number.isInteger\<close> of what \<open>parseInt\<close> returned: true unless it is \<open>NaN\<close> (a run
  of more than 308 digits, which \<open>parseInt\<close> reads as \<open>Infinity\<close>, is not modelled).
\<close>

definition Number_isInteger :: "int option \<Rightarrow> bool" where
  "Number_isInteger a = (a \<noteq> None)"

section \<open>The Date object\<close>

text \<open>
  Time values are milliseconds since the epoch, as ECMAScript defines them; \<open>None\<close> is
  the time value \<open>NaN\<close> of an invalid Date. The environment of a run gives the clock
  (\<open>Date.now()\<close>, read once per handled event), the local time zone as a fixed offset from
  UTC (no daylight saving), the configured \<open>ADMIN_PHONE\<close>, and the engine's parser of date
  strings \<open>new Date(s)\<close>, whose behaviour outside the ISO format is implementation-defined.
  The repository holds the bot twice, once on SQLite and once on MongoDB; the two agree
  except at the places where the model asks \<open>variante\<close>.
\<close>

datatype variante = SQLite | MongoDB

record env =
  now :: int
  tza :: int
  ADMIN_PHONE :: string
  Date_parse :: "string \<Rightarrow> int option"
  variante :: variante

definition msPerDay :: int where
  "msPerDay = 86400000"

definition Day :: "int \<Rightarrow> int" where
  "Day t = t div msPerDay"

definition TimeWithinDay :: "int \<Rightarrow> int" where
  "TimeWithinDay t = t mod msPerDay"

definition DayFromYear :: "int \<Rightarrow> int" where
  "DayFromYear y = 365 * (y - 1970) + (y - 1969) div 4 - (y - 1901) div 100 + (y - 1601) div 400"

definition InLeapYear :: "int \<Rightarrow> bool" where
  "InLeapYear y = (y mod 4 = 0 \<and> (y mod 100 \<noteq> 0 \<or> y mod 400 = 0))"

text \<open>
  \<open>YearFromTime\<close>: the largest year that starts on or before the day. The average year
  has 146097/400 days, which gives the year up to one.
\<close>

definition YearFromDay :: "int \<Rightarrow> int" where
  "YearFromDay d =
     (let y = 1970 + (400 * d) div 146097
      in if d < DayFromYear y then y - 1
         else if DayFromYear (y + 1) \<le> d then y + 1
         else y)"

text \<open>The day of the year on which month \<open>m\<close> (0 to 11) starts; 12 is the end of the year.\<close>

definition monthStart :: "bool \<Rightarrow> int \<Rightarrow> int" where
  "monthStart leap m =
     (if m \<le> 0 then 0 else if m \<le> 1 then 31
      else (if leap then 1 else 0) +
        (if m \<le> 2 then 59 else if m \<le> 3 then 90 else if m \<le> 4 then 120
         else if m \<le> 5 then 151 else if m \<le> 6 then 181 else if m \<le> 7 then 212
         else if m \<le> 8 then 243 else if m \<le> 9 then 273 else if m \<le> 10 then 304
         else if m \<le> 11 then 334 else 365))"

definition MonthFromDay :: "int \<Rightarrow> int" where
  "MonthFromDay d =
     (let y = YearFromDay d; k = d - DayFromYear y; l = InLeapYear y
      in if k < monthStart l 1 then 0 else if k < monthStart l 2 then 1
         else if k < monthStart l 3 then 2 else if k < monthStart l 4 then 3
         else if k < monthStart l 5 then 4 else if k < monthStart l 6 then 5
         else if k < monthStart l 7 then 6 else if k < monthStart l 8 then 7
         else if k < monthStart l 9 then 8 else if k < monthStart l 10 then 9
         else if k < monthStart l 11 then 10 else 11)"

definition DateFromDay :: "int \<Rightarrow> int" where
  "DateFromDay d =
     (let y = YearFromDay d
      in d - DayFromYear y - monthStart (InLeapYear y) (MonthFromDay d) + 1)"

definition WeekDay :: "int \<Rightarrow> int" where
  "WeekDay t = (Day t + 4) mod 7"

definition MakeDay :: "int \<Rightarrow> int \<Rightarrow> int \<Rightarrow> int" where
  "MakeDay year month date =
     (let ym = year + month div 12; mn = month mod 12
      in DayFromYear ym + monthStart (InLeapYear ym) mn + date - 1)"

definition MakeTime :: "int \<Rightarrow> int \<Rightarrow> int \<Rightarrow> int \<Rightarrow> int" where
  "MakeTime h m s ms = h * 3600000 + m * 60000 + s * 1000 + ms"

definition MakeDate :: "int \<Rightarrow> int \<Rightarrow> int" where
  "MakeDate day time = day * msPerDay + time"

definition TimeClip :: "int \<Rightarrow> int option" where
  "TimeClip t = (if \<bar>t\<bar> > 8640000000000000 then None else Some t)"

definition LocalTime :: "env \<Rightarrow> int \<Rightarrow> int" where
  "LocalTime e t = t + tza e"

definition UTC :: "env \<Rightarrow> int \<Rightarrow> int" where
  "UTC e t = t - tza e"

text \<open>
  \<open>new Date(year, month, date)\<close>, local time; a year from 0 to 99 means 1900 + year.
  The arguments are \<open>None\<close> where \<open>parseInt\<close> gave \<open>NaN\<close>.
\<close>

definition Date_ymd :: "env \<Rightarrow> int option \<Rightarrow> int option \<Rightarrow> int option \<Rightarrow> int option" where
  "Date_ymd e year month date =
     (case (year, month, date) of
        (Some y, Some m, Some d) \<Rightarrow>
          (let yr = (if 0 \<le> y \<and> y \<le> 99 then 1900 + y else y)
           in TimeClip (UTC e (MakeDate (MakeDay yr m d) (MakeTime 0 0 0 0))))
      | _ \<Rightarrow> None)"

definition HourFromTime :: "int \<Rightarrow> int" where
  "HourFromTime t = (t div 3600000) mod 24"

definition MinFromTime :: "int \<Rightarrow> int" where
  "MinFromTime t = (t div 60000) mod 60"

definition SecFromTime :: "int \<Rightarrow> int" where
  "SecFromTime t = (t div 1000) mod 60"

definition msFromTime :: "int \<Rightarrow> int" where
  "msFromTime t = t mod 1000"

definition getDay :: "env \<Rightarrow> int option \<Rightarrow> int option" where
  "getDay e d = map_option (\<lambda>t. WeekDay (LocalTime e t)) d"

text \<open>\<open>a < b\<close> on two Dates: the comparison of their time values, false when one is \<open>NaN\<close>.\<close>

definition date_lt :: "int option \<Rightarrow> int option \<Rightarrow> bool" where
  "date_lt a b = (case (a, b) of (Some x, Some y) \<Rightarrow> x < y | _ \<Rightarrow> False)"

text \<open>\<open>d.setHours(h, 0, 0, 0)\<close>: the same local day at \<open>h\<close> o'clock.\<close>

definition setHours :: "env \<Rightarrow> int option \<Rightarrow> int \<Rightarrow> int option" where
  "setHours e d h =
     (case d of
        None \<Rightarrow> None
      | Some t \<Rightarrow> TimeClip (UTC e (MakeDate (Day (LocalTime e t)) (MakeTime h 0 0 0))))"

text \<open>
  \<open>d.setMinutes(d.getMinutes() + 30)\<close>: with a fixed offset from UTC the local fields
  move with the time value, which grows by thirty minutes.
\<close>

definition setMinutes30 :: "int option \<Rightarrow> int option" where
  "setMinutes30 d = (case d of None \<Rightarrow> None | Some t \<Rightarrow> TimeClip (t + 30 * 60000))"

text \<open>
  \<open>d.setDate(d.getDate() + k)\<close>: the local day of the month moves by \<open>k\<close>, the time
  within the day stays.
\<close>

definition getDate :: "env \<Rightarrow> int \<Rightarrow> int" where
  "getDate e t = DateFromDay (Day (LocalTime e t))"

definition setDate :: "env \<Rightarrow> int \<Rightarrow> int \<Rightarrow> int option" where
  "setDate e t dt =
     (let lt = LocalTime e t; d = Day lt
      in TimeClip (UTC e (MakeDate (MakeDay (YearFromDay d) (MonthFromDay d) dt) (TimeWithinDay lt))))"

definition pad :: "nat \<Rightarrow> int \<Rightarrow> string" where
  "pad n k = padStart n (CHR ''0'') (toStr (nat k))"

text \<open>The first five characters of \<open>d.toTimeString()\<close>: the local \<open>HH:MM\<close>.\<close>

definition toTimeString5 :: "env \<Rightarrow> int option \<Rightarrow> string" where
  "toTimeString5 e d =
     (case d of
        None \<Rightarrow> ''Inval''
      | Some t \<Rightarrow> pad 2 (HourFromTime (LocalTime e t)) @ '':'' @ pad 2 (MinFromTime (LocalTime e t)))"

text \<open>
  \<open>toISOString\<close> of a valid time value (it throws on an invalid Date, which the callers
  below handle): four digits for the years 0 to 9999, a sign and six digits otherwise.
\<close>

definition isoDate :: "int \<Rightarrow> string" where
  "isoDate d =
     (let y = YearFromDay d
      in (if 0 \<le> y \<and> y \<le> 9999 then pad 4 y
          else (if y < 0 then ''-'' else ''+'') @ pad 6 \<bar>y\<bar>)
         @ ''-'' @ pad 2 (MonthFromDay d + 1) @ ''-'' @ pad 2 (DateFromDay d))"

definition toISOString :: "int \<Rightarrow> string" where
  "toISOString t =
     isoDate (Day t) @ ''T'' @ pad 2 (HourFromTime t) @ '':'' @ pad 2 (MinFromTime t) @ '':''
     @ pad 2 (SecFromTime t) @ ''.'' @ pad 3 (msFromTime t) @ ''Z''"

text \<open>\<open>d.toISOString().split('T')[0]\<close>.\<close>

definition isoDia :: "int \<Rightarrow> string" where
  "isoDia t = (case split (CHR ''T'') (toISOString t) of [] \<Rightarrow> [] | x # _ \<Rightarrow> x)"

text \<open>
  The order of \<open>data < ?\<close> in SQL and of \<open>$lt\<close> in MongoDB on text: byte by byte, a
  proper prefix first.
\<close>

fun str_lt :: "string \<Rightarrow> string \<Rightarrow> bool" where
  "str_lt [] [] = False"
| "str_lt [] (y # ys) = True"
| "str_lt (x # xs) [] = False"
| "str_lt (x # xs) (y # ys) =
     ((of_char x :: nat) < of_char y \<or> (x = y \<and> str_lt xs ys))"

section \<open>Validation\<close>

text \<open>\<open>validarHorario\<close>: the regular expression \<open>/^([0-1][0-9]|2[0-3]):[0-5][0-9]$/\<close>.\<close>

definition validarHorario :: "string \<Rightarrow> bool" where
  "validarHorario horario =
     (case horario of
        [h1, h2, c, m1, m2] \<Rightarrow>
          ((h1 \<in> set ''01'' \<and> isDigit h2) \<or> (h1 = CHR ''2'' \<and> h2 \<in> set ''0123''))
          \<and> c = CHR '':'' \<and> m1 \<in> set ''012345'' \<and> isDigit m2
      | _ \<Rightarrow> False)"

text \<open>
  The regular expression \<open>/^(\d{2})\/(\d{2})\/(\d{4})$/\<close> of \<open>validarData\<close>, with its
  three groups.
\<close>

definition matchData :: "string \<Rightarrow> (string \<times> string \<times> string) option" where
  "matchData s =
     (case s of
        [d1, d2, s1, m1, m2, s2, a1, a2, a3, a4] \<Rightarrow>
          if isDigit d1 \<and> isDigit d2 \<and> s1 = CHR ''/'' \<and> isDigit m1 \<and> isDigit m2
             \<and> s2 = CHR ''/'' \<and> isDigit a1 \<and> isDigit a2 \<and> isDigit a3 \<and> isDigit a4
          then Some ([d1, d2], [m1, m2], [a1, a2, a3, a4])
          else None
      | _ \<Rightarrow> None)"

definition validarData :: "env \<Rightarrow> string \<Rightarrow> bool" where
  "validarData e s =
     (case matchData s of
        None \<Rightarrow> False
      | Some (dia, mes, ano) \<Rightarrow>
          Date_ymd e (parseInt ano) (map_option (\<lambda>m. m - 1) (parseInt mes)) (parseInt dia) \<noteq> None)"

section \<open>Data model\<close>

text \<open>The rows of the tables \<open>agendamentos\<close>, \<open>feedbacks\<close> and \<open>cancelamentos\<close>.\<close>

record agendamento =
  ag_nome :: string
  ag_data :: string
  ag_hora :: string
  ag_sender :: string
  ag_timestamp :: string

record feedback =
  fb_nome :: string
  fb_comentario :: string
  fb_avaliacao :: valor
  fb_timestamp :: string

record cancelamento =
  ca_nome :: string
  ca_data :: string
  ca_hora :: string
  ca_motivo :: string
  ca_timestamp :: string

text \<open>
  The per-user state \<open>estados.get(sender)\<close>; \<open>etapa\<close> is absent at the menu. The field
  \<open>es_agendamento\<close> is the \<open>{nome, data, hora}\<close> that the next-day reminder attaches.
\<close>

datatype etapa = E_data | E_horario | E_nome | E_cancelar_nome_hora | E_confirmar_presenca

record estado =
  ultimoContato :: int
  etapa :: "etapa option"
  es_data :: "string option"
  es_hora :: "string option"
  es_agendamento :: "(string \<times> string \<times> string) option"

text \<open>
  A chat session of \<open>conversasChocolate\<close>. The handle of its idle timer is
  represented by the time at which the timer is due.
\<close>

record conversa =
  ativo :: bool
  co_ultimoContato :: int
  timeoutId :: int

text \<open>
  The state of the process: the three tables, the two maps, the marker
  \<open>ultimoAgendamento\<close>, and the messages handed to \<open>client.sendMessage\<close> so far, as pairs
  of recipient and text. The store and the transport are taken to answer without error,
  so the \<open>err\<close> branches of the callbacks are not part of the model.
\<close>

record bot =
  agendamentos :: "agendamento list"
  feedbacks :: "feedback list"
  cancelamentos :: "cancelamento list"
  estados :: "string \<rightharpoonup> estado"
  conversasChocolate :: "string \<rightharpoonup> conversa"
  ultimoAgendamento :: "(string \<times> int) option"
  enviadas :: "(string \<times> string) list"

text \<open>
  What an asynchronous handler yields: a text, \<open>null\<close> (no reply), or the rejection
  of its promise by an exception that nothing catches.
\<close>

datatype resposta = Texto string | Null | Excecao

section \<open>Texts\<close>

definition nl :: string where "nl = [CHR 0x0A]"
definition a_agudo :: string where "a_agudo = [CHR 0xC3, CHR 0xA1]"
definition a_crase :: string where "a_crase = [CHR 0xC3, CHR 0xA0]"
definition a_til :: string where "a_til = [CHR 0xC3, CHR 0xA3]"
definition c_cedilha :: string where "c_cedilha = [CHR 0xC3, CHR 0xA7]"
definition e_agudo :: string where "e_agudo = [CHR 0xC3, CHR 0xA9]"
definition e_circunflexo :: string where "e_circunflexo = [CHR 0xC3, CHR 0xAA]"
definition i_agudo :: string where "i_agudo = [CHR 0xC3, CHR 0xAD]"
definition o_agudo :: string where "o_agudo = [CHR 0xC3, CHR 0xB3]"
definition u_agudo :: string where "u_agudo = [CHR 0xC3, CHR 0xBA]"
definition emoji_oculos :: string where "emoji_oculos = [CHR 0xF0, CHR 0x9F, CHR 0x98, CHR 0x8E]"
definition emoji_memo :: string where "emoji_memo = [CHR 0xF0, CHR 0x9F, CHR 0x93, CHR 0x9D]"
definition emoji_relogio :: string where "emoji_relogio = [CHR 0xF0, CHR 0x9F, CHR 0x95, CHR 0x9B]"
definition emoji_globo :: string where "emoji_globo = [CHR 0xF0, CHR 0x9F, CHR 0x8C, CHR 0x8E]"
definition emoji_fala :: string where
  "emoji_fala = [CHR 0xF0, CHR 0x9F, CHR 0x97, CHR 0xA3, CHR 0xEF, CHR 0xB8, CHR 0x8F]"
definition emoji_festa :: string where "emoji_festa = [CHR 0xF0, CHR 0x9F, CHR 0x8E, CHR 0x89]"
definition emoji_despertador :: string where "emoji_despertador = [CHR 0xE2, CHR 0x8F, CHR 0xB0]"
definition emoji_check :: string where "emoji_check = [CHR 0xE2, CHR 0x9C, CHR 0x85]"
definition emoji_ampulheta :: string where "emoji_ampulheta = [CHR 0xE2, CHR 0x8F, CHR 0xB3]"

definition INFO_horario :: "variante \<Rightarrow> string" where
  "INFO_horario v =
     (case v of
        SQLite \<Rightarrow> ''Seg a S'' @ a_agudo @ ''b: 9h '' @ a_crase @ ''s 20h, Dom: 10h '' @ a_crase @ ''s 16h.''
      | MongoDB \<Rightarrow> ''Seg a S'' @ a_agudo @ ''b: 9h '' @ a_crase @ ''s 21h.'')"

definition INFO_endereco :: "variante \<Rightarrow> string" where
  "INFO_endereco v =
     (case v of
        SQLite \<Rightarrow> ''Rua dos Cortes, 456, Bairro Estilo, Cidade.''
      | MongoDB \<Rightarrow> ''Tv. Dona Alzira Aguiar - Paju'' @ c_cedilha @ ''ara, Macei'' @ o_agudo
                   @ '' - AL, 57030-680.'')"

text \<open>The table \<open>ESTILOS\<close>, in the order of its entries: key, suggestion, barber, price.\<close>

definition ESTILOS :: "(string \<times> string \<times> string \<times> nat) list" where
  "ESTILOS =
     [(''cabelo curto'', ''Corte Militar'', ''Chocolate'', 50),
      (''cabelo longo'', ''Corte Surfer'', ''Chocolate'', 60),
      (''barba cheia'', ''Barba Lenador'', ''Chocolate'', 40),
      (''barba rala'', ''Barba Desenhada'', ''Chocolate'', 35),
      (''degrade'', ''Degrad'' @ e_circunflexo @ '' Navalhado'', ''Chocolate'', 55)]"

definition mostrarMenu :: string where
  "mostrarMenu =
     ''E a'' @ i_agudo @ '', qual '' @ e_agudo @ '' o plano? '' @ emoji_oculos @ nl
     @ ''1. Agendar um corte '' @ emoji_memo @ nl
     @ ''2. Cancelar agendamento'' @ nl
     @ ''3. Ver agendamentos'' @ nl
     @ ''4. Hor'' @ a_agudo @ ''rio da barbearia '' @ emoji_relogio @ nl
     @ ''5. Onde fica? '' @ emoji_globo @ nl
     @ ''6. Papo com o Chocolate '' @ emoji_fala @ nl
     @ ''7. Sair''"

definition txt_digite_data :: string where
  "txt_digite_data = ''Digite a data do agendamento (DD/MM/YYYY) ou 'sair' para voltar ao menu:''"

definition txt_digite_horario :: string where
  "txt_digite_horario = ''Digite o hor'' @ a_agudo @ ''rio (ex.: 09:00) ou 'sair':''"

definition txt_limite :: string where
  "txt_limite =
     ''Voc'' @ e_circunflexo
     @ '' atingiu o limite de 3 agendamentos. Cancele um para agendar novamente.'' @ nl @ nl"

definition txt_ja_agendado :: string where
  "txt_ja_agendado =
     ''Hor'' @ a_agudo @ ''rio j'' @ a_agudo @ '' agendado. Escolha outro hor'' @ a_agudo @ ''rio.''
     @ nl @ nl"

definition txt_horario_invalido :: string where
  "txt_horario_invalido = ''Hor'' @ a_agudo @ ''rio inv'' @ a_agudo @ ''lido''"

definition txt_fora_expediente :: "int \<Rightarrow> int \<Rightarrow> string" where
  "txt_fora_expediente horaInicio horaFim =
     ''Hor'' @ a_agudo @ ''rio fora do expediente ('' @ numStr horaInicio @ ''h '' @ a_crase
     @ ''s '' @ numStr horaFim @ ''h)''"

definition txt_no_passado :: string where
  "txt_no_passado =
     ''N'' @ a_til @ ''o '' @ e_agudo @ '' poss'' @ i_agudo @ ''vel agendar no passado''"

definition txt_erro :: "string \<Rightarrow> string" where
  "txt_erro message = ''Erro: '' @ message @ ''. Tente novamente.'' @ nl @ nl"

definition txt_confirmado :: "variante \<Rightarrow> string \<Rightarrow> string \<Rightarrow> string \<Rightarrow> string" where
  "txt_confirmado v nome dia hora =
     ''*Agendamento Confirmado! '' @ emoji_festa @ ''*'' @ nl
     @ ''Nome: '' @ nome @ nl @ ''Data: '' @ dia @ nl @ ''Hora: '' @ hora @ nl
     @ ''Endere'' @ c_cedilha @ ''o: '' @ INFO_endereco v @ nl @ nl
     @ ''Chegue 5 minutos antes! Qualquer d'' @ u_agudo @ ''vida, '' @ e_agudo @ '' s''
     @ o_agudo @ '' chamar.''"

definition txt_nao_encontrado :: string where
  "txt_nao_encontrado = ''Agendamento n'' @ a_til @ ''o encontrado.'' @ nl @ nl"

definition txt_cancelado :: string where
  "txt_cancelado = ''Agendamento cancelado com sucesso.'' @ nl @ nl"

definition txt_motivo :: string where
  "txt_motivo = ''Cancelado pelo usu'' @ a_agudo @ ''rio''"

definition txt_avaliacao_invalida :: string where
  "txt_avaliacao_invalida =
     ''Avalia'' @ c_cedilha @ a_til @ ''o inv'' @ a_agudo @ ''lida. Use um n'' @ u_agudo
     @ ''mero de 1 a 5.'' @ nl @ nl @ ''Formato: feedback [nome] [comentario] [avalia''
     @ c_cedilha @ a_til @ ''o]'' @ nl @ nl"

definition txt_valeu :: string where
  "txt_valeu = ''Valeu pelo feedback, irm'' @ a_til @ ''o! '' @ emoji_oculos @ nl @ nl"

definition txt_so_admin :: string where
  "txt_so_admin =
     ''Apenas o administrador pode acessar relat'' @ o_agudo @ ''rios.'' @ nl @ nl"

definition txt_chat_inicio :: string where
  "txt_chat_inicio =
     ''O Chocolate foi solicitado, por favor, aguarde... '' @ emoji_ampulheta @ nl
     @ ''Digite 'sair' a qualquer momento para finalizar o bate-papo e voltar ao menu.''"

definition txt_chat_fim :: string where
  "txt_chat_fim = ''Bate-papo encerrado. Voltando ao menu.'' @ nl @ nl"

definition txt_nao :: string where
  "txt_nao = ''n'' @ a_til @ ''o''"

section \<open>The bot\<close>

definition novoEstado :: "env \<Rightarrow> estado" where
  "novoEstado e =
     \<lparr>ultimoContato = now e, etapa = None, es_data = None, es_hora = None, es_agendamento = None\<rparr>"

text \<open>
  \<open>getEstado\<close> creates the state of a sender at first contact. The object it returns is
  the entry of the map, so a write to one of its fields is \<open>modEstado\<close> on that entry.
\<close>

definition getEstado :: "env \<Rightarrow> string \<Rightarrow> bot \<Rightarrow> bot" where
  "getEstado e sender s =
     (case estados s sender of
        None \<Rightarrow> s\<lparr>estados := (estados s)(sender \<mapsto> novoEstado e)\<rparr>
      | Some _ \<Rightarrow> s)"

definition modEstado :: "string \<Rightarrow> (estado \<Rightarrow> estado) \<Rightarrow> bot \<Rightarrow> bot" where
  "modEstado sender f s =
     (case estados s sender of
        None \<Rightarrow> s
      | Some st \<Rightarrow> s\<lparr>estados := (estados s)(sender \<mapsto> f st)\<rparr>)"

definition etapaDe :: "bot \<Rightarrow> string \<Rightarrow> etapa option" where
  "etapaDe s sender = (case estados s sender of None \<Rightarrow> None | Some st \<Rightarrow> etapa st)"

definition sendMessage :: "string \<Rightarrow> string \<Rightarrow> bot \<Rightarrow> bot" where
  "sendMessage para texto s = s\<lparr>enviadas := enviadas s @ [(para, texto)]\<rparr>"

definition notificarAdmin :: "env \<Rightarrow> string \<Rightarrow> bot \<Rightarrow> bot" where
  "notificarAdmin e mensagem s = sendMessage (ADMIN_PHONE e) mensagem s"

definition listarHorarios :: "env \<Rightarrow> string \<Rightarrow> bot \<Rightarrow> string \<times> bot" where
  "listarHorarios e sender s =
     (txt_digite_data, modEstado sender (\<lambda>st. st\<lparr>etapa := Some E_data\<rparr>) (getEstado e sender s))"

text \<open>\<open>[horaInicio, horaFim] = diaSemana === 6 ? [10, 16] : [9, 20]\<close>.\<close>

definition expediente :: "int option \<Rightarrow> int \<times> int" where
  "expediente diaSemana = (if diaSemana = Some 6 then (10, 16) else (9, 20))"

definition statusHorario :: "agendamento list \<Rightarrow> bool \<Rightarrow> string \<Rightarrow> string" where
  "statusHorario rows isAdmin horaStr =
     (case find (\<lambda>a. ag_hora a = horaStr) rows of
        Some agendado \<Rightarrow>
          emoji_despertador @ '' (agendado'' @ (if isAdmin then '' - '' @ ag_nome agendado else [])
          @ '')''
      | None \<Rightarrow> emoji_check @ '' (dispon'' @ i_agudo @ ''vel)'')"

text \<open>
  The loop \<open>while (currentTime < fimTime)\<close> that builds the lines of a listing, shared
  by \<open>listarAgendamentosDia\<close> and the date step of \<open>processarMensagem\<close>.
\<close>

function horariosLoop ::
  "env \<Rightarrow> agendamento list \<Rightarrow> bool \<Rightarrow> int option \<Rightarrow> int option \<Rightarrow> string list" where
  "horariosLoop e rows isAdmin currentTime fimTime =
     (if date_lt currentTime fimTime then
        (let horaStr = toTimeString5 e currentTime
         in (horaStr @ '' '' @ statusHorario rows isAdmin horaStr)
            # horariosLoop e rows isAdmin (setMinutes30 currentTime) fimTime)
      else [])"
  by pat_completeness auto
termination
proof (relation "measure (\<lambda>(e, rows, isAdmin, c, f).
          case (c, f) of (Some t, Some u) \<Rightarrow> nat (u - t) | _ \<Rightarrow> 0)")
  show "wf (measure (\<lambda>(e :: env, rows :: agendamento list, isAdmin :: bool, c, f).
          case (c, f) of (Some t, Some u) \<Rightarrow> nat (u - t) | _ \<Rightarrow> 0))"
    by simp
next
  fix e :: env and rows :: "agendamento list" and isAdmin :: bool
    and currentTime fimTime :: "int option" and x :: string
  assume "date_lt currentTime fimTime"
  then obtain t u where tu: "currentTime = Some t" "fimTime = Some u" "t < u"
    by (auto simp: date_lt_def split: option.splits)
  then show "((e, rows, isAdmin, setMinutes30 currentTime, fimTime),
              (e, rows, isAdmin, currentTime, fimTime))
             \<in> measure (\<lambda>(e, rows, isAdmin, c, f).
                  case (c, f) of (Some t, Some u) \<Rightarrow> nat (u - t) | _ \<Rightarrow> 0)"
    by (simp add: setMinutes30_def TimeClip_def)
qed

declare horariosLoop.simps [simp del]

definition listarAgendamentosDia :: "env \<Rightarrow> string \<Rightarrow> string option \<Rightarrow> bot \<Rightarrow> string" where
  "listarAgendamentosDia e sender dia s =
     (let hoje = (case dia of
                    None \<Rightarrow> isoDia (now e)
                  | Some d \<Rightarrow> if d = [] then isoDia (now e) else d);
          diaSemana = getDay e (Date_parse e hoje);
          (horaInicio, horaFim) = expediente diaSemana;
          currentTime =
            Date_parse e (hoje @ ''T'' @ padStart 2 (CHR ''0'') (numStr horaInicio) @ '':00:00'');
          fimTime =
            Date_parse e (hoje @ ''T'' @ padStart 2 (CHR ''0'') (numStr horaFim) @ '':00:00'');
          rows = filter (\<lambda>a. ag_data a = hoje) (agendamentos s);
          horarios = horariosLoop e rows (sender = ADMIN_PHONE e) currentTime fimTime
      in join nl horarios @ nl @ nl @ mostrarMenu)"

definition triagemEstilo :: "string \<Rightarrow> string \<Rightarrow> string" where
  "triagemEstilo estilo nome =
     (case find (\<lambda>(chave, info). includes_str (toLowerCase estilo) chave) ESTILOS of
        Some (chave, sugestao, barbeiro, preco) \<Rightarrow>
          ''Sugerimos o *'' @ sugestao @ ''* com o barbeiro '' @ barbeiro @ '' (R$''
          @ toStr preco @ ''). '' @ emoji_oculos @ '' Deseja agendar? Digite 1 para iniciar.''
          @ nl @ nl @ mostrarMenu
      | None \<Rightarrow>
          ''Estilo n'' @ a_til @ ''o identificado. Descreva novamente (ex.: cabelo curto, barba cheia).''
          @ nl @ nl @ mostrarMenu)"

text \<open>The \<open>catch\<close> of \<open>agendarServico\<close>: the message of the error, then \<open>listarHorarios\<close>.\<close>

definition erroAgendar :: "env \<Rightarrow> string \<Rightarrow> string \<Rightarrow> bot \<Rightarrow> resposta \<times> bot" where
  "erroAgendar e sender message s =
     (let (p, s') = listarHorarios e sender s in (Texto (txt_erro message @ p), s'))"

text \<open>\<open>a < b\<close> and \<open>a >= b\<close> on numbers, false when the left one is \<open>NaN\<close>.\<close>

definition num_lt :: "int option \<Rightarrow> int \<Rightarrow> bool" where
  "num_lt a b = (case a of None \<Rightarrow> False | Some x \<Rightarrow> x < b)"

definition num_ge :: "int option \<Rightarrow> int \<Rightarrow> bool" where
  "num_ge a b = (case a of None \<Rightarrow> False | Some x \<Rightarrow> x \<ge> b)"

text \<open>
  \<open>agendarServico\<close>. The SQLite variant logs \<open>dataHoraAgendamento.toISOString()\<close>, which
  throws a \<open>RangeError\<close> on an invalid Date; the MongoDB variant does not log. The first
  message of a success is the listing of the day (the SQLite variant hands
  \<open>sendMessage\<close> the promise of that listing without awaiting it).
\<close>

definition agendarServico ::
  "env \<Rightarrow> string \<Rightarrow> string \<Rightarrow> string \<Rightarrow> string \<Rightarrow> bot \<Rightarrow> resposta \<times> bot" where
  "agendarServico e nome dia hora sender s =
     (if \<not> validarHorario hora then erroAgendar e sender txt_horario_invalido s
      else
        let dataObj = Date_parse e dia;
            diaSemana = getDay e dataObj;
            (horaInicio, horaFim) = expediente diaSemana;
            horaNum = parseInt (case split (CHR '':'') hora of [] \<Rightarrow> [] | x # _ \<Rightarrow> x)
        in
        if num_lt horaNum horaInicio \<or> num_ge horaNum horaFim
        then erroAgendar e sender (txt_fora_expediente horaInicio horaFim) s
        else
          let agora = Some (now e);
              dataHoraAgendamento = Date_parse e (dia @ ''T'' @ hora @ '':00'')
          in
          if variante e = SQLite \<and> dataHoraAgendamento = None
          then erroAgendar e sender ''Invalid time value'' s
          else if date_lt dataHoraAgendamento agora
          then erroAgendar e sender txt_no_passado s
          else
            let agendamentosAtivos = length (filter (\<lambda>a. ag_sender a = sender) (agendamentos s))
            in
            if agendamentosAtivos \<ge> 3 then (Texto (txt_limite @ mostrarMenu), s)
            else
              (case find (\<lambda>a. ag_data a = dia \<and> ag_hora a = hora) (agendamentos s) of
                 Some row \<Rightarrow>
                   (let (p, s') = listarHorarios e sender s in (Texto (txt_ja_agendado @ p), s'))
               | None \<Rightarrow>
                   (let s1 = s\<lparr>agendamentos := agendamentos s @
                                 [\<lparr>ag_nome = nome, ag_data = dia, ag_hora = hora,
                                   ag_sender = sender, ag_timestamp = toISOString (now e)\<rparr>]\<rparr>;
                        s2 = notificarAdmin e
                               (''Novo agendamento: '' @ nome @ '', '' @ dia @ '', '' @ hora) s1;
                        s3 = sendMessage sender (listarAgendamentosDia e sender (Some dia) s2) s2;
                        s4 = sendMessage sender (txt_confirmado (variante e) nome dia hora) s3
                    in (Null, s4\<lparr>ultimoAgendamento := Some (sender, now e)\<rparr>))))"

text \<open>
  \<open>cancelarServico\<close>. The SQLite variant deletes every row that matches, the MongoDB
  variant (\<open>deleteOne\<close>) the first one.
\<close>

fun deleteOne :: "('a \<Rightarrow> bool) \<Rightarrow> 'a list \<Rightarrow> 'a list" where
  "deleteOne P [] = []"
| "deleteOne P (x # xs) = (if P x then xs else x # deleteOne P xs)"

definition cancelarServico ::
  "env \<Rightarrow> string \<Rightarrow> string \<Rightarrow> string \<Rightarrow> bot \<Rightarrow> resposta \<times> bot" where
  "cancelarServico e nome dia hora s =
     (let igual = (\<lambda>a. ag_nome a = nome \<and> ag_data a = dia \<and> ag_hora a = hora)
      in case find igual (agendamentos s) of
           None \<Rightarrow> (Texto (txt_nao_encontrado @ mostrarMenu), s)
         | Some row \<Rightarrow>
             (let s1 = s\<lparr>agendamentos :=
                          (case variante e of
                             SQLite \<Rightarrow> filter (\<lambda>a. \<not> igual a) (agendamentos s)
                           | MongoDB \<Rightarrow> deleteOne igual (agendamentos s))\<rparr>;
                  s2 = s1\<lparr>cancelamentos := cancelamentos s1 @
                            [\<lparr>ca_nome = nome, ca_data = dia, ca_hora = hora,
                              ca_motivo = txt_motivo, ca_timestamp = toISOString (now e)\<rparr>]\<rparr>;
                  s3 = notificarAdmin e
                         (''Cancelamento: '' @ nome @ '', '' @ dia @ '', '' @ hora) s2
              in (Texto (txt_cancelado @ mostrarMenu), s3)))"

text \<open>
  The schema type \<open>Number\<close> of the MongoDB variant, applied to the rating when the
  document is saved: a number stays, a string is read as a number, and a string that is
  no number fails the validation, so that \<open>save()\<close> rejects.
\<close>

definition castNumber :: "valor \<Rightarrow> valor option" where
  "castNumber v = (case ToNumber v of NaN \<Rightarrow> None | w \<Rightarrow> Some w)"

text \<open>
  \<open>coletarFeedback\<close>. The rating is any number or string: \<open>parseInt\<close> reads the text of
  the value, and the comparisons with 1 and 5 read the value as a number. The SQLite
  variant binds the value as it is to the \<open>INSERT\<close> (what the column then makes of a
  numeric text is not modelled); the MongoDB variant saves what \<open>castNumber\<close> gives and
  throws when that fails.
\<close>

definition coletarFeedback ::
  "env \<Rightarrow> string \<Rightarrow> string \<Rightarrow> valor \<Rightarrow> bot \<Rightarrow> resposta \<times> bot" where
  "coletarFeedback e nome comentario avaliacao s =
     (if \<not> Number_isInteger (parseInt (ToString avaliacao)) \<or> valor_lt avaliacao 1
         \<or> valor_gt avaliacao 5
      then (Texto (txt_avaliacao_invalida @ mostrarMenu), s)
      else
        (case (case variante e of SQLite \<Rightarrow> Some avaliacao | MongoDB \<Rightarrow> castNumber avaliacao) of
           None \<Rightarrow> (Excecao, s)
         | Some v \<Rightarrow>
             (Texto (txt_valeu @ mostrarMenu),
              s\<lparr>feedbacks := feedbacks s @
                   [\<lparr>fb_nome = nome, fb_comentario = comentario, fb_avaliacao = v,
                     fb_timestamp = toISOString (now e)\<rparr>]\<rparr>)))"

text \<open>\<open>gerarRelatorio\<close>; the two CSV texts go to the log only.\<close>

definition gerarRelatorio :: "env \<Rightarrow> string \<Rightarrow> bot \<Rightarrow> string" where
  "gerarRelatorio e sender s =
     (if sender \<noteq> ADMIN_PHONE e then txt_so_admin @ mostrarMenu
      else
        let hoje = isoDia (now e);
            ativos = filter (\<lambda>a. \<not> str_lt (ag_data a) hoje) (agendamentos s)
        in ''Relat'' @ o_agudo @ ''rio: '' @ toStr (length ativos) @ '' agendamentos ativos, ''
           @ toStr (length (cancelamentos s)) @ '' cancelados.'' @ nl @ nl @ mostrarMenu)"

definition iniciarChatChocolate :: "env \<Rightarrow> string \<Rightarrow> bot \<Rightarrow> string \<times> bot" where
  "iniciarChatChocolate e sender s =
     (txt_chat_inicio,
      s\<lparr>conversasChocolate := (conversasChocolate s)
          (sender \<mapsto> \<lparr>ativo = True, co_ultimoContato = now e,
                       timeoutId = now e + 7 * 60 * 1000\<rparr>)\<rparr>)"

definition processarMensagemChocolate ::
  "env \<Rightarrow> string \<Rightarrow> string \<Rightarrow> bot \<Rightarrow> string option \<times> bot" where
  "processarMensagemChocolate e mensagem sender s =
     (case conversasChocolate s sender of
        None \<Rightarrow> (None, s)
      | Some conversa \<Rightarrow>
          if \<not> ativo conversa then (None, s)
          else if trim (toLowerCase mensagem) = ''sair''
          then (Some (txt_chat_fim @ mostrarMenu),
                s\<lparr>conversasChocolate := (conversasChocolate s)(sender := None)\<rparr>)
          else (None,
                s\<lparr>conversasChocolate := (conversasChocolate s)
                    (sender \<mapsto> conversa\<lparr>co_ultimoContato := now e,
                                         timeoutId := now e + 7 * 60 * 1000\<rparr>)\<rparr>))"

text \<open>
  The text that \<open>undefined\<close> turns into where a string is expected. The fields it
  guards are always set when their step is reached.
\<close>

definition undef :: "string option \<Rightarrow> string" where
  "undef x = (case x of None \<Rightarrow> ''undefined'' | Some v \<Rightarrow> v)"

text \<open>The step \<open>data\<close> of \<open>processarMensagem\<close>.\<close>

definition etapa_data :: "env \<Rightarrow> string \<Rightarrow> string \<Rightarrow> bot \<Rightarrow> resposta \<times> bot" where
  "etapa_data e mensagem sender s =
     (if \<not> validarData e mensagem
      then (Texto (''Formato inv'' @ a_agudo @ ''lido. Use: DD/MM/YYYY (ex.: 25/12/2025)'' @ nl @ nl
                   @ ''Digite novamente ou 'sair':''), s)
      else
        (case split (CHR ''/'') mensagem of
           dia # mes # ano # _ \<Rightarrow>
             (let dataObj = setHours e (Date_ymd e (parseInt ano)
                              (map_option (\<lambda>m. m - 1) (parseInt mes)) (parseInt dia)) 0;
                  hoje = setHours e (Some (now e)) 0
              in
              if variante e = SQLite \<and> (dataObj = None \<or> hoje = None) then (Excecao, s)
              else if date_lt dataObj hoje
              then (Texto (''A data deve ser hoje ou futura. N'' @ a_til @ ''o '' @ e_agudo
                           @ '' poss'' @ i_agudo @ ''vel agendar no passado.'' @ nl @ nl
                           @ ''Digite outra data (DD/MM/YYYY) ou 'sair':''), s)
              else
                let dataStr = ano @ ''-'' @ padStart 2 (CHR ''0'') mes @ ''-''
                              @ padStart 2 (CHR ''0'') dia;
                    s1 = modEstado sender
                           (\<lambda>st. st\<lparr>es_data := Some dataStr, etapa := Some E_horario\<rparr>) s;
                    diaSemana = getDay e dataObj;
                    (horaInicio, horaFim) = expediente diaSemana;
                    currentTime = setHours e dataObj horaInicio;
                    fimTime = setHours e dataObj horaFim;
                    rows = filter (\<lambda>a. ag_data a = dataStr) (agendamentos s1);
                    horarios = horariosLoop e rows (sender = ADMIN_PHONE e) currentTime fimTime
                in (Texto (join nl horarios @ nl @ nl @ txt_digite_horario), s1))
         | _ \<Rightarrow> (Excecao, s)))"

definition apagarEstado :: "string \<Rightarrow> bot \<Rightarrow> bot" where
  "apagarEstado sender s = s\<lparr>estados := (estados s)(sender := None)\<rparr>"

text \<open>The block \<open>if (estado.etapa)\<close>; \<open>st\<close> is the object \<open>estado\<close>.\<close>

definition processarEtapa ::
  "env \<Rightarrow> string \<Rightarrow> string \<Rightarrow> string \<Rightarrow> estado \<Rightarrow> etapa \<Rightarrow> bot \<Rightarrow> resposta \<times> bot" where
  "processarEtapa e mensagem mensagemLower sender st et s =
     (case et of
        E_data \<Rightarrow> etapa_data e mensagem sender s
      | E_horario \<Rightarrow>
          if \<not> validarHorario mensagem
          then (let (p, s') = listarHorarios e sender s
                in (Texto (''Hor'' @ a_agudo @ ''rio inv'' @ a_agudo @ ''lido. Use: HH:MM (ex.: 09:00)''
                           @ nl @ nl @ p), s'))
          else (Texto ''Digite seu nome ou 'sair' para voltar ao menu:'',
                modEstado sender (\<lambda>st. st\<lparr>es_hora := Some mensagem, etapa := Some E_nome\<rparr>) s)
      | E_nome \<Rightarrow>
          agendarServico e mensagem (undef (es_data st)) (undef (es_hora st)) sender
            (apagarEstado sender s)
      | E_cancelar_nome_hora \<Rightarrow>
          (case split (CHR '' '') mensagem of
             nome # hora # _ \<Rightarrow>
               if \<not> validarHorario hora
               then (Texto (''Formato inv'' @ a_agudo @ ''lido. Use: [nome] [hor'' @ a_agudo
                            @ ''rio: HH:MM] (ex.: Joao 09:00) ou 'sair' para voltar ao menu:''), s)
               else cancelarServico e nome (isoDia (now e)) hora (apagarEstado sender s)
           | _ \<Rightarrow>
               (Texto (''Formato: [nome] [hor'' @ a_agudo
                       @ ''rio: HH:MM] (ex.: Joao 09:00) ou 'sair' para voltar ao menu:''), s))
      | E_confirmar_presenca \<Rightarrow>
          if mensagemLower = ''sim''
          then (Texto (''Show! Te esperamos no hor'' @ a_agudo @ ''rio. '' @ emoji_oculos @ nl @ nl
                       @ mostrarMenu), apagarEstado sender s)
          else if mensagemLower = txt_nao
          then (case es_agendamento st of
                  None \<Rightarrow> (Excecao, s)
                | Some (nome, dia, hora) \<Rightarrow>
                    cancelarServico e nome dia hora (apagarEstado sender s))
          else (Texto (''Responda 'Sim' ou 'N'' @ a_til @ ''o' para confirmar sua presen''
                       @ c_cedilha @ ''a.''), s))"

text \<open>The free-form commands at the end of \<open>processarMensagem\<close>.\<close>

definition comandosEspeciais ::
  "env \<Rightarrow> string \<Rightarrow> string \<Rightarrow> string \<Rightarrow> bot \<Rightarrow> resposta \<times> bot" where
  "comandosEspeciais e mensagem mensagemLower sender s =
     (let partes = split (CHR '' '') mensagem
      in
      if startsWith mensagemLower ''triagem'' then
        (if length partes \<ge> 3 then (Texto (triagemEstilo (partes ! 1) (partes ! 2)), s)
         else (Texto (''Formato: triagem [estilo] [nome]'' @ nl @ nl @ mostrarMenu), s))
      else if startsWith mensagemLower ''feedback'' then
        (if length partes \<ge> 4
         then coletarFeedback e (partes ! 1) (join '' '' (butlast (drop 2 partes)))
                (numero (parseInt (last partes))) s
         else (Texto (''Formato: feedback [nome] [comentario] [avalia'' @ c_cedilha @ a_til
                      @ ''o de 1 a 5]'' @ nl @ nl @ mostrarMenu), s))
      else if mensagemLower = ''relatorio'' then (Texto (gerarRelatorio e sender s), s)
      else (Texto mostrarMenu, s))"

text \<open>
  \<open>processarMensagem\<close> after its check of \<open>ultimoAgendamento\<close>: the chat, \<open>sair\<close>, the
  options of the menu, the steps and the commands.
\<close>

definition rotear :: "env \<Rightarrow> string \<Rightarrow> string \<Rightarrow> bot \<Rightarrow> resposta \<times> bot" where
  "rotear e mensagem sender s =
     (let mensagemLower = trim (toLowerCase mensagem);
          st = (case estados s sender of None \<Rightarrow> novoEstado e | Some x \<Rightarrow> x)
      in
      if conversasChocolate s sender \<noteq> None then
        (case processarMensagemChocolate e mensagem sender s of
           (Some respostaChocolate, s') \<Rightarrow> (Texto respostaChocolate, s')
         | (None, s') \<Rightarrow> (Null, s'))
      else if mensagemLower = ''sair'' \<and> etapa st \<noteq> None
      then (Texto mostrarMenu, apagarEstado sender s)
      else if etapa st = None \<and> mensagem \<notin> set [''1'', ''2'', ''3'', ''4'', ''5'', ''6'', ''7'']
              \<and> \<not> startsWith mensagemLower ''triagem''
              \<and> \<not> startsWith mensagemLower ''feedback''
              \<and> \<not> startsWith mensagemLower ''relatorio''
      then (Texto mostrarMenu, s)
      else if mensagem = ''1''
      then (Texto txt_digite_data, modEstado sender (\<lambda>st. st\<lparr>etapa := Some E_data\<rparr>) s)
      else if mensagem = ''2''
      then (Texto (''Digite seu nome e o hor'' @ a_agudo
                   @ ''rio (ex.: Joao 09:00) ou 'sair' para voltar ao menu:''),
            modEstado sender (\<lambda>st. st\<lparr>etapa := Some E_cancelar_nome_hora\<rparr>) s)
      else if mensagem = ''3'' then (Texto (listarAgendamentosDia e sender None s), s)
      else if mensagem = ''4'' then (Texto (INFO_horario (variante e) @ nl @ nl @ mostrarMenu), s)
      else if mensagem = ''5'' then (Texto (INFO_endereco (variante e) @ nl @ nl @ mostrarMenu), s)
      else if mensagem = ''6''
      then (let (r, s') = iniciarChatChocolate e sender s in (Texto r, s'))
      else if mensagem = ''7''
      then (Texto (''Bot encerrado. At'' @ e_agudo @ '' a pr'' @ o_agudo @ ''xima! '' @ emoji_oculos),
            apagarEstado sender (s\<lparr>conversasChocolate := (conversasChocolate s)(sender := None)\<rparr>))
      else
        (case etapa st of
           Some et \<Rightarrow> processarEtapa e mensagem mensagemLower sender st et s
         | None \<Rightarrow> comandosEspeciais e mensagem mensagemLower sender s))"

text \<open>
  \<open>processarMensagem\<close>: the check of the sender, the state of the sender and its
  \<open>ultimoContato\<close>, the marker of a booking made less than a minute ago, then the routing.
\<close>

definition recemAgendou :: "env \<Rightarrow> string \<Rightarrow> bot \<Rightarrow> bool" where
  "recemAgendou e sender s =
     (case ultimoAgendamento s of
        None \<Rightarrow> False
      | Some (quem, quando) \<Rightarrow> quem = sender \<and> now e - quando < 60000)"

text \<open>\<open>const estado = getEstado(sender); estado.ultimoContato = Date.now();\<close>\<close>

definition registrarContato :: "env \<Rightarrow> string \<Rightarrow> bot \<Rightarrow> bot" where
  "registrarContato e sender s =
     modEstado sender (\<lambda>st. st\<lparr>ultimoContato := now e\<rparr>) (getEstado e sender s)"

definition processarMensagem :: "env \<Rightarrow> string \<Rightarrow> string \<Rightarrow> bot \<Rightarrow> resposta \<times> bot" where
  "processarMensagem e mensagem sender s =
     (if \<not> endsWith sender ''@c.us'' then (Null, s)
      else
        let s1 = registrarContato e sender s
        in
        if recemAgendou e sender s1 then (Texto mostrarMenu, s1\<lparr>ultimoAgendamento := None\<rparr>)
        else rotear e mensagem sender s1)"

text \<open>
  The nightly job \<open>cron.schedule('0 0 * * *', ...)\<close>: the rows whose \<open>data\<close> is below
  the text of the day thirty days back are deleted. \<open>toISOString\<close> throws on an invalid
  Date, and then nothing is deleted.
\<close>

definition limpezaAgendamentosAntigos :: "env \<Rightarrow> bot \<Rightarrow> bot" where
  "limpezaAgendamentosAntigos e s =
     (case setDate e (now e) (getDate e (now e) - 30) of
        None \<Rightarrow> s
      | Some dataLimite \<Rightarrow>
          (let dataLimiteStr = isoDia dataLimite
           in s\<lparr>agendamentos := filter (\<lambda>a. \<not> str_lt (ag_data a) dataLimiteStr) (agendamentos s)\<rparr>))"

section \<open>The checks of a booking, by name\<close>

text \<open>
  The conditions that \<open>agendarServico\<close> tests before it reads the table, written out
  as predicates of the request: the hour against the opening hours of the day, the
  \<open>RangeError\<close> of the SQLite variant, and the moment against the clock.
\<close>

definition foraDoExpediente :: "env \<Rightarrow> string \<Rightarrow> string \<Rightarrow> bool" where
  "foraDoExpediente e dia hora =
     (let (horaInicio, horaFim) = expediente (getDay e (Date_parse e dia));
          horaNum = parseInt (case split (CHR '':'') hora of [] \<Rightarrow> [] | x # _ \<Rightarrow> x)
      in num_lt horaNum horaInicio \<or> num_ge horaNum horaFim)"

definition momentoInvalido :: "env \<Rightarrow> string \<Rightarrow> string \<Rightarrow> bool" where
  "momentoInvalido e dia hora =
     (variante e = SQLite \<and> Date_parse e (dia @ ''T'' @ hora @ '':00'') = None)"

definition noPassado :: "env \<Rightarrow> string \<Rightarrow> string \<Rightarrow> bool" where
  "noPassado e dia hora = date_lt (Date_parse e (dia @ ''T'' @ hora @ '':00'')) (Some (now e))"

definition passaValidacoes :: "env \<Rightarrow> string \<Rightarrow> string \<Rightarrow> bool" where
  "passaValidacoes e dia hora =
     (validarHorario hora \<and> \<not> foraDoExpediente e dia hora \<and> \<not> momentoInvalido e dia hora
      \<and> \<not> noPassado e dia hora)"

text \<open>
  The rows of a requester, all of them and those dated today or later (the rows that
  \<open>gerarRelatorio\<close> counts as active), and the rows of a slot.
\<close>

definition doSender :: "string \<Rightarrow> bot \<Rightarrow> agendamento list" where
  "doSender sender s = filter (\<lambda>a. ag_sender a = sender) (agendamentos s)"

definition ativosDoSender :: "env \<Rightarrow> string \<Rightarrow> bot \<Rightarrow> agendamento list" where
  "ativosDoSender e sender s =
     filter (\<lambda>a. ag_sender a = sender \<and> \<not> str_lt (ag_data a) (isoDia (now e))) (agendamentos s)"

definition noHorario :: "string \<Rightarrow> string \<Rightarrow> bot \<Rightarrow> agendamento list" where
  "noHorario dia hora s = filter (\<lambda>a. ag_data a = dia \<and> ag_hora a = hora) (agendamentos s)"

section \<open>A concrete engine\<close>

text \<open>
  For running the model: a \<open>Date\<close> parser that reads the two ISO forms the bot builds,
  \<open>YYYY-MM-DD\<close> (midnight UTC) and \<open>YYYY-MM-DDTHH:MM:SS\<close> (local time), the way V8
  does: a month from 1 to 12, a day from 1 to 31 in every month (a day beyond the end of
  the month runs over into the next one), an hour up to 23 or the end of the day
  \<open>24:00:00\<close>. It answers \<open>NaN\<close> to every other string.
\<close>

definition isoCampos :: "string \<Rightarrow> (int \<times> int \<times> int) option" where
  "isoCampos s =
     (case s of
        [y1, y2, y3, y4, t1, m1, m2, t2, d1, d2] \<Rightarrow>
          if list_all isDigit [y1, y2, y3, y4, m1, m2, d1, d2] \<and> t1 = CHR ''-'' \<and> t2 = CHR ''-''
          then
            (let y = parseDigits 10 0 [y1, y2, y3, y4];
                 m = parseDigits 10 0 [m1, m2];
                 d = parseDigits 10 0 [d1, d2]
             in if 1 \<le> m \<and> m \<le> 12 \<and> 1 \<le> d \<and> d \<le> 31 then Some (y, m, d) else None)
          else None
      | _ \<Rightarrow> None)"

definition isoRelogio :: "string \<Rightarrow> int option" where
  "isoRelogio s =
     (case s of
        [t, h1, h2, c1, m1, m2, c2, s1, s2] \<Rightarrow>
          if list_all isDigit [h1, h2, m1, m2, s1, s2] \<and> t = CHR ''T'' \<and> c1 = CHR '':''
             \<and> c2 = CHR '':''
          then
            (let h = parseDigits 10 0 [h1, h2];
                 m = parseDigits 10 0 [m1, m2];
                 sec = parseDigits 10 0 [s1, s2]
             in if (h \<le> 23 \<and> m \<le> 59 \<and> sec \<le> 59) \<or> (h = 24 \<and> m = 0 \<and> sec = 0)
                then Some (MakeTime h m sec 0) else None)
          else None
      | _ \<Rightarrow> None)"

definition isoParse :: "int \<Rightarrow> string \<Rightarrow> int option" where
  "isoParse z s =
     (case isoCampos (take 10 s) of
        None \<Rightarrow> None
      | Some (y, m, d) \<Rightarrow>
          if length s = 10 then TimeClip (MakeDate (MakeDay y (m - 1) d) 0)
          else (case isoRelogio (drop 10 s) of
                  None \<Rightarrow> None
                | Some t \<Rightarrow> TimeClip (MakeDate (MakeDay y (m - 1) d) t - z)))"

section \<open>Example inputs\<close>

text \<open>
  A run at noon UTC of 2 November 2025 in a zone three hours behind UTC, and the empty
  state of a fresh process.
\<close>

definition env_ex :: env where
  "env_ex =
     \<lparr>now = 1762084800000, tza = - 10800000, ADMIN_PHONE = ''+5582993230395@c.us'',
      Date_parse = isoParse (- 10800000), variante = MongoDB\<rparr>"

definition bot_vazio :: bot where
  "bot_vazio =
     \<lparr>agendamentos = [], feedbacks = [], cancelamentos = [], estados = Map.empty,
      conversasChocolate = Map.empty, ultimoAgendamento = None, enviadas = []\<rparr>"

text \<open>
  States of the table: the slot of 25 December 2025 at 09:00 taken by a third requester,
  and the same slot taken under another name;
  a requester with three bookings in December 2025; a requester with three bookings of
  October 2025 that are over.
\<close>

definition linha :: "string \<Rightarrow> string \<Rightarrow> string \<Rightarrow> string \<Rightarrow> agendamento" where
  "linha nome dia hora sender =
     \<lparr>ag_nome = nome, ag_data = dia, ag_hora = hora, ag_sender = sender,
      ag_timestamp = ''2025-10-01T12:00:00.000Z''\<rparr>"

definition bot_ocupado :: bot where
  "bot_ocupado = bot_vazio\<lparr>agendamentos := [linha ''Carlos'' ''2025-12-25'' ''09:00'' ''c@c.us'']\<rparr>"

definition bot_ocupado_zeca :: bot where
  "bot_ocupado_zeca = bot_vazio\<lparr>agendamentos := [linha ''Zeca'' ''2025-12-25'' ''09:00'' ''c@c.us'']\<rparr>"

definition bot_tres :: bot where
  "bot_tres = bot_vazio\<lparr>agendamentos :=
     [linha ''Ana'' ''2025-12-01'' ''10:00'' ''a@c.us'',
      linha ''Ana'' ''2025-12-02'' ''10:00'' ''a@c.us'',
      linha ''Ana'' ''2025-12-03'' ''10:00'' ''a@c.us'']\<rparr>"

definition bot_passados :: bot where
  "bot_passados = bot_vazio\<lparr>agendamentos :=
     [linha ''Ana'' ''2025-10-20'' ''10:00'' ''a@c.us'',
      linha ''Ana'' ''2025-10-21'' ''10:00'' ''a@c.us'',
      linha ''Ana'' ''2025-10-22'' ''10:00'' ''a@c.us'']\<rparr>"

text \<open>Five seconds after \<open>env_ex\<close>.\<close>

definition env_depois :: env where
  "env_depois = env_ex\<lparr>now := 1762084805000\<rparr>"

text \<open>
  A table with a booking of 2 October 2025 (31 days before 2 November), one of
  3 October (30 days before) and one of 4 October (29 days before), with one
  cancellation and one feedback on record.
\<close>

definition bot_antigos :: bot where
  "bot_antigos = bot_vazio
     \<lparr>agendamentos :=
        [linha ''Ana'' ''2025-10-02'' ''10:00'' ''a@c.us'',
         linha ''Bia'' ''2025-10-03'' ''10:00'' ''b@c.us'',
         linha ''Carlos'' ''2025-10-04'' ''10:00'' ''c@c.us''],
      feedbacks :=
        [\<lparr>fb_nome = ''Ana'', fb_comentario = ''bom'', fb_avaliacao = Numero 5 0,
          fb_timestamp = ''2025-09-01T12:00:00.000Z''\<rparr>],
      cancelamentos :=
        [\<lparr>ca_nome = ''Ana'', ca_data = ''2025-09-01'', ca_hora = ''10:00'',
          ca_motivo = txt_motivo, ca_timestamp = ''2025-08-31T12:00:00.000Z''\<rparr>]\<rparr>"

text \<open>
  The same moment in a zone one hour ahead of UTC, and the run of \<open>env_ex\<close> on the SQLite
  variant.
\<close>

definition env_leste :: env where
  "env_leste = env_ex\<lparr>tza := 3600000, Date_parse := isoParse 3600000\<rparr>"

definition env_sqlite :: env where
  "env_sqlite = env_ex\<lparr>variante := SQLite\<rparr>"

section \<open>Properties of the calendar\<close>

lemma div_bounds:
  fixes x :: int
  assumes "0 < k"
  shows "k * (x div k) \<le> x" and "x < k * (x div k) + k"
proof -
  have "x = k * (x div k) + x mod k" by simp
  moreover have "0 \<le> x mod k" "x mod k < k" using assms by simp_all
  ultimately show "k * (x div k) \<le> x" and "x < k * (x div k) + k" by linarith+
qed

lemma div_succ:
  fixes x :: int
  assumes "0 < k"
  shows "(x + 1) div k = x div k + (if (x + 1) mod k = 0 then 1 else 0)"
proof -
  have e1: "x = k * (x div k) + x mod k" by simp
  have r: "0 \<le> x mod k" "x mod k < k" using assms by simp_all
  show ?thesis
  proof (cases "x mod k + 1 = k")
    case True
    have "x + 1 = k * (x div k) + k" using e1 True by linarith
    then have "x + 1 = k * (x div k + 1) + 0" by (simp add: distrib_left)
    then have "(x + 1) div k = x div k + 1" "(x + 1) mod k = 0"
      using assms int_div_pos_eq[of "x + 1" k "x div k + 1" 0] int_mod_pos_eq[of "x + 1" k "x div k + 1" 0]
      by simp_all
    then show ?thesis by simp
  next
    case False
    then have lt: "x mod k + 1 < k" using r by linarith
    have "x + 1 = k * (x div k) + (x mod k + 1)" using e1 by linarith
    then have "(x + 1) div k = x div k" "(x + 1) mod k = x mod k + 1"
      using lt r int_div_pos_eq[of "x + 1" k "x div k" "x mod k + 1"]
        int_mod_pos_eq[of "x + 1" k "x div k" "x mod k + 1"]
      by simp_all
    then show ?thesis using r by simp
  qed
qed

lemma mod_shift:
  fixes y :: int
  shows "(y - 1968) mod 4 = 0 \<longleftrightarrow> y mod 4 = 0"
    and "(y - 1900) mod 100 = 0 \<longleftrightarrow> y mod 100 = 0"
    and "(y - 1600) mod 400 = 0 \<longleftrightarrow> y mod 400 = 0"
proof -
  have "(y - 4 * 492) mod 4 = y mod 4" by (rule mod_mult_self1[of y "-492" 4, simplified, simplified diff_conv_add_uminus[symmetric]] | simp add: mod_diff_eq[symmetric])
  then show "(y - 1968) mod 4 = 0 \<longleftrightarrow> y mod 4 = 0" by simp
  have "(y - 100 * 19) mod 100 = y mod 100" by (simp add: mod_diff_eq[symmetric])
  then show "(y - 1900) mod 100 = 0 \<longleftrightarrow> y mod 100 = 0" by simp
  have "(y - 400 * 4) mod 400 = y mod 400" by (simp add: mod_diff_eq[symmetric])
  then show "(y - 1600) mod 400 = 0 \<longleftrightarrow> y mod 400 = 0" by simp
qed

lemma mod_chain:
  fixes y :: int
  shows "y mod 400 = 0 \<Longrightarrow> y mod 100 = 0" and "y mod 100 = 0 \<Longrightarrow> y mod 4 = 0"
proof -
  show "y mod 400 = 0 \<Longrightarrow> y mod 100 = 0"
    using mod_mod_cancel[of 100 400 y] by simp
  show "y mod 100 = 0 \<Longrightarrow> y mod 4 = 0"
    using mod_mod_cancel[of 4 100 y] by simp
qed

lemma DayFromYear_succ:
  "DayFromYear (y + 1) = DayFromYear y + (if InLeapYear y then 366 else 365)"
proof -
  have a: "(y + 1 - 1969) div 4 = (y - 1969) div 4 + (if y mod 4 = 0 then 1 else 0)"
    using div_succ[of 4 "y - 1969"] mod_shift(1)[of y] by (simp add: algebra_simps)
  have b: "(y + 1 - 1901) div 100 = (y - 1901) div 100 + (if y mod 100 = 0 then 1 else 0)"
    using div_succ[of 100 "y - 1901"] mod_shift(2)[of y] by (simp add: algebra_simps)
  have c: "(y + 1 - 1601) div 400 = (y - 1601) div 400 + (if y mod 400 = 0 then 1 else 0)"
    using div_succ[of 400 "y - 1601"] mod_shift(3)[of y] by (simp add: algebra_simps)
  consider (c400) "y mod 400 = 0" | (c100) "y mod 400 \<noteq> 0" "y mod 100 = 0"
    | (c4) "y mod 100 \<noteq> 0" "y mod 4 = 0" | (c1) "y mod 4 \<noteq> 0"
    by blast
  then show ?thesis
  proof cases
    case c400
    then have m100: "y mod 100 = 0" by (rule mod_chain(1))
    then have "y mod 4 = 0" by (rule mod_chain(2))
    with c400 m100 show ?thesis unfolding DayFromYear_def InLeapYear_def a b c by simp
  next
    case c100
    then have "y mod 4 = 0" by (simp add: mod_chain(2))
    with c100 show ?thesis unfolding DayFromYear_def InLeapYear_def a b c by simp
  next
    case c4
    then have "y mod 400 \<noteq> 0" using mod_chain(1)[of y] by auto
    with c4 show ?thesis unfolding DayFromYear_def InLeapYear_def a b c by simp
  next
    case c1
    then have m100: "y mod 100 \<noteq> 0" using mod_chain(2)[of y] by auto
    then have "y mod 400 \<noteq> 0" using mod_chain(1)[of y] by auto
    with c1 m100 show ?thesis unfolding DayFromYear_def InLeapYear_def a b c by simp
  qed
qed

lemma DayFromYear_approx:
  "146097 * (y - 1970) - 506 \<le> 400 * DayFromYear y"
  "400 * DayFromYear y \<le> 146097 * (y - 1970) + 589"
proof -
  define a where "a = (y - 1969) div 4"
  define b where "b = (y - 1901) div 100"
  define c where "c = (y - 1601) div 400"
  have a: "4 * a \<le> y - 1969" "y - 1969 < 4 * a + 4"
    using div_bounds[of 4 "y - 1969"] by (simp_all add: a_def)
  have b: "100 * b \<le> y - 1901" "y - 1901 < 100 * b + 100"
    using div_bounds[of 100 "y - 1901"] by (simp_all add: b_def)
  have c: "400 * c \<le> y - 1601" "y - 1601 < 400 * c + 400"
    using div_bounds[of 400 "y - 1601"] by (simp_all add: c_def)
  have 1: "100 * y - 197200 \<le> 400 * a" "400 * a \<le> 100 * y - 196900" using a by linarith+
  have 2: "4 * y - 8000 \<le> 400 * b" "400 * b \<le> 4 * y - 7604" using b by linarith+
  have 3: "y - 2000 \<le> 400 * c" "400 * c \<le> y - 1601" using c by linarith+
  have d: "DayFromYear y = 365 * (y - 1970) + a - b + c"
    by (simp add: DayFromYear_def a_def b_def c_def)
  show "146097 * (y - 1970) - 506 \<le> 400 * DayFromYear y"
    unfolding d using 1 2 3 by (simp add: algebra_simps)
  show "400 * DayFromYear y \<le> 146097 * (y - 1970) + 589"
    unfolding d using 1 2 3 by (simp add: algebra_simps)
qed

lemma YearFromDay_spec:
  "DayFromYear (YearFromDay d) \<le> d" "d < DayFromYear (YearFromDay d + 1)"
proof -
  define y where "y = 1970 + (400 * d) div 146097"
  have q: "146097 * (y - 1970) \<le> 400 * d" "400 * d < 146097 * (y - 1970) + 146097"
    using div_bounds[of 146097 "400 * d"] by (simp_all add: y_def)
  have lo: "DayFromYear (y - 1) \<le> d"
    using DayFromYear_approx(2)[of "y - 1"] q(1) by (simp add: algebra_simps)
  have hi: "d < DayFromYear (y + 2)"
    using DayFromYear_approx(1)[of "y + 2"] q(2) by (simp add: algebra_simps)
  have r: "YearFromDay d = (if d < DayFromYear y then y - 1
         else if DayFromYear (y + 1) \<le> d then y + 1 else y)"
    by (simp add: YearFromDay_def Let_def y_def)
  have e: "y + 1 + 1 = y + 2" "y - 1 + 1 = y" by simp_all
  show "DayFromYear (YearFromDay d) \<le> d" unfolding r using lo by simp
  show "d < DayFromYear (YearFromDay d + 1)" unfolding r using hi e by (simp add: add.commute)
qed

lemma DayFromYear_step: "DayFromYear y + 365 \<le> DayFromYear (y + 1)"
  by (simp add: DayFromYear_succ)

lemma DayFromYear_add: "DayFromYear y + 365 * int n \<le> DayFromYear (y + int n)"
proof (induction n)
  case 0
  then show ?case by simp
next
  case (Suc n)
  have "DayFromYear (y + int n) + 365 \<le> DayFromYear (y + int n + 1)" by (rule DayFromYear_step)
  then show ?case using Suc by (simp add: algebra_simps)
qed

lemma DayFromYear_mono: "y1 \<le> y2 \<Longrightarrow> DayFromYear y1 \<le> DayFromYear y2"
  using DayFromYear_add[of y1 "nat (y2 - y1)"] by simp

lemma DayFromYear_less: "DayFromYear y1 < DayFromYear y2 \<Longrightarrow> y1 < y2"
  using DayFromYear_mono[of y2 y1] by linarith

lemma YearFromDay_unique:
  assumes "DayFromYear y \<le> d" "d < DayFromYear (y + 1)"
  shows "YearFromDay d = y"
proof -
  have "DayFromYear y < DayFromYear (YearFromDay d + 1)"
    using assms(1) YearFromDay_spec(2)[of d] by linarith
  then have a: "y < YearFromDay d + 1" by (rule DayFromYear_less)
  have "DayFromYear (YearFromDay d) < DayFromYear (y + 1)"
    using assms(2) YearFromDay_spec(1)[of d] by linarith
  then have "YearFromDay d < y + 1" by (rule DayFromYear_less)
  with a show ?thesis by linarith
qed

lemma YearFromDay_mono: "d1 \<le> d2 \<Longrightarrow> YearFromDay d1 \<le> YearFromDay d2"
proof -
  assume "d1 \<le> d2"
  then have "DayFromYear (YearFromDay d1) < DayFromYear (YearFromDay d2 + 1)"
    using YearFromDay_spec(1)[of d1] YearFromDay_spec(2)[of d2] by linarith
  then have "YearFromDay d1 < YearFromDay d2 + 1" by (rule DayFromYear_less)
  then show ?thesis by simp
qed

text \<open>The day within its year.\<close>

lemma dayInYear_bounds:
  "0 \<le> d - DayFromYear (YearFromDay d)"
  "d - DayFromYear (YearFromDay d) < (if InLeapYear (YearFromDay d) then 366 else 365)"
  using YearFromDay_spec[of d] DayFromYear_succ[of "YearFromDay d"] by linarith+

lemma monthStart_table:
  "monthStart l 0 = 0" "monthStart l 1 = 31" "monthStart l 2 = 59 + (if l then 1 else 0)"
  "monthStart l 3 = 90 + (if l then 1 else 0)" "monthStart l 4 = 120 + (if l then 1 else 0)"
  "monthStart l 5 = 151 + (if l then 1 else 0)" "monthStart l 6 = 181 + (if l then 1 else 0)"
  "monthStart l 7 = 212 + (if l then 1 else 0)" "monthStart l 8 = 243 + (if l then 1 else 0)"
  "monthStart l 9 = 273 + (if l then 1 else 0)" "monthStart l 10 = 304 + (if l then 1 else 0)"
  "monthStart l 11 = 334 + (if l then 1 else 0)" "monthStart l 12 = 365 + (if l then 1 else 0)"
  by (simp_all add: monthStart_def)

lemma month_of_offset:
  fixes k :: int
  assumes "0 \<le> k" "k < monthStart l 12"
  defines "m \<equiv> (if k < monthStart l 1 then 0 else if k < monthStart l 2 then 1
         else if k < monthStart l 3 then 2 else if k < monthStart l 4 then 3
         else if k < monthStart l 5 then 4 else if k < monthStart l 6 then 5
         else if k < monthStart l 7 then 6 else if k < monthStart l 8 then 7
         else if k < monthStart l 9 then 8 else if k < monthStart l 10 then 9
         else if k < monthStart l 11 then 10 else (11::int))"
  shows "0 \<le> m" "m \<le> 11" "monthStart l m \<le> k" "k < monthStart l (m + 1)"
    "monthStart l (m + 1) - monthStart l m \<le> 31"
  using assms(1,2) unfolding m_def monthStart_table
  by (simp_all add: monthStart_table split: if_splits)


lemma monthStart_mono:
  assumes "a \<le> b"
  shows "monthStart l a \<le> monthStart l b"
  using assms by (auto simp: monthStart_def)

lemma MonthFromDay_spec:
  defines "k \<equiv> \<lambda>d. d - DayFromYear (YearFromDay d)"
  shows "0 \<le> MonthFromDay d" "MonthFromDay d \<le> 11"
    "monthStart (InLeapYear (YearFromDay d)) (MonthFromDay d) \<le> k d"
    "k d < monthStart (InLeapYear (YearFromDay d)) (MonthFromDay d + 1)"
    "monthStart (InLeapYear (YearFromDay d)) (MonthFromDay d + 1)
       - monthStart (InLeapYear (YearFromDay d)) (MonthFromDay d) \<le> 31"
proof -
  have b: "0 \<le> k d" "k d < monthStart (InLeapYear (YearFromDay d)) 12"
    using dayInYear_bounds[of d] by (simp_all add: k_def monthStart_table split: if_splits)
  note m = month_of_offset[OF b]
  have e: "MonthFromDay d = (if k d < monthStart (InLeapYear (YearFromDay d)) 1 then 0 else if k d < monthStart (InLeapYear (YearFromDay d)) 2 then 1
         else if k d < monthStart (InLeapYear (YearFromDay d)) 3 then 2 else if k d < monthStart (InLeapYear (YearFromDay d)) 4 then 3
         else if k d < monthStart (InLeapYear (YearFromDay d)) 5 then 4 else if k d < monthStart (InLeapYear (YearFromDay d)) 6 then 5
         else if k d < monthStart (InLeapYear (YearFromDay d)) 7 then 6 else if k d < monthStart (InLeapYear (YearFromDay d)) 8 then 7
         else if k d < monthStart (InLeapYear (YearFromDay d)) 9 then 8 else if k d < monthStart (InLeapYear (YearFromDay d)) 10 then 9
         else if k d < monthStart (InLeapYear (YearFromDay d)) 11 then 10 else (11::int))"
    by (simp add: MonthFromDay_def Let_def k_def)
  show "0 \<le> MonthFromDay d" unfolding e by (rule m(1))
  show "MonthFromDay d \<le> 11" unfolding e by (rule m(2))
  show "monthStart (InLeapYear (YearFromDay d)) (MonthFromDay d) \<le> k d"
    unfolding e by (rule m(3))
  show "k d < monthStart (InLeapYear (YearFromDay d)) (MonthFromDay d + 1)"
    unfolding e by (rule m(4))
  show "monthStart (InLeapYear (YearFromDay d)) (MonthFromDay d + 1)
       - monthStart (InLeapYear (YearFromDay d)) (MonthFromDay d) \<le> 31"
    unfolding e by (rule m(5))
qed

lemma DateFromDay_bounds: "1 \<le> DateFromDay d" "DateFromDay d \<le> 31"
  using MonthFromDay_spec(3,4,5)[of d] by (simp_all add: DateFromDay_def Let_def)

lemma date_order:
  assumes "d1 < d2"
  shows "YearFromDay d1 < YearFromDay d2
         \<or> (YearFromDay d1 = YearFromDay d2
            \<and> (MonthFromDay d1 < MonthFromDay d2
               \<or> (MonthFromDay d1 = MonthFromDay d2 \<and> DateFromDay d1 < DateFromDay d2)))"
proof (cases "YearFromDay d1 = YearFromDay d2")
  case False
  then show ?thesis using YearFromDay_mono[of d1 d2] assms by simp
next
  case True
  define l where "l = InLeapYear (YearFromDay d2)"
  define k1 where "k1 = d1 - DayFromYear (YearFromDay d2)"
  define k2 where "k2 = d2 - DayFromYear (YearFromDay d2)"
  have k: "k1 < k2" using assms by (simp add: k1_def k2_def)
  have s1: "monthStart l (MonthFromDay d1) \<le> k1" "k1 < monthStart l (MonthFromDay d1 + 1)"
    using MonthFromDay_spec(3,4)[of d1] True by (simp_all add: l_def k1_def)
  have s2: "monthStart l (MonthFromDay d2) \<le> k2" "k2 < monthStart l (MonthFromDay d2 + 1)"
    using MonthFromDay_spec(3,4)[of d2] by (simp_all add: l_def k2_def)
  have le: "MonthFromDay d1 \<le> MonthFromDay d2"
  proof (rule ccontr)
    assume "\<not> MonthFromDay d1 \<le> MonthFromDay d2"
    then have "MonthFromDay d2 + 1 \<le> MonthFromDay d1" by simp
    then have "monthStart l (MonthFromDay d2 + 1) \<le> monthStart l (MonthFromDay d1)"
      by (rule monthStart_mono)
    then show False using s1 s2 k by linarith
  qed
  show ?thesis
  proof (cases "MonthFromDay d1 = MonthFromDay d2")
    case False
    then show ?thesis using le True by simp
  next
    case m: True
    have "DateFromDay d1 < DateFromDay d2"
      using k True m by (simp add: DateFromDay_def Let_def k1_def k2_def)
    then show ?thesis using True m by simp
  qed
qed

section \<open>Properties of the validation\<close>

lemma hexVal_digit:
  assumes "isDigit c"
  shows "hexVal c = Some (digitVal c)" and "0 \<le> digitVal c" and "digitVal c \<le> 9"
  using assms by (auto simp: isDigit_def hexVal_def digitVal_def)

lemma trimStart_digit:
  assumes "isDigit c"
  shows "trimStart (c # s) = c # s"
proof -
  have a: "\<not> asciiSpace c" "(of_char c :: nat) < 128"
    using assms by (auto simp: isDigit_def asciiSpace_def)
  show ?thesis
  proof (cases s)
    case Nil
    then show ?thesis using a by simp
  next
    case (Cons b t)
    then show ?thesis using a by (cases t) auto
  qed
qed

lemma parseDigits_bounds:
  assumes "\<forall>c\<in>set s. isDigit c" and "0 \<le> acc"
  shows "0 \<le> parseDigits 10 acc s" and "parseDigits 10 acc s < (acc + 1) * 10 ^ length s"
  using assms
proof (induction s arbitrary: acc)
  case Nil
  { case 1 then show ?case by simp }
  { case 2 then show ?case by simp }
next
  case (Cons c s)
  { case 1
    then show ?case using Cons.IH(1)[of "acc * 10 + digitVal c"] hexVal_digit[of c] by simp }
  { case 2
    have d: "hexVal c = Some (digitVal c)" "0 \<le> digitVal c" "digitVal c \<le> 9"
      using 2 hexVal_digit[of c] by simp_all
    have "parseDigits 10 (acc * 10 + digitVal c) s < (acc * 10 + digitVal c + 1) * 10 ^ length s"
      using Cons.IH(2)[of "acc * 10 + digitVal c"] 2 d by simp
    also have "\<dots> \<le> ((acc + 1) * 10) * 10 ^ length s"
      using d by (intro mult_right_mono) auto
    finally show ?case using d by (simp add: algebra_simps) }
qed

lemma parseUnsigned_digits:
  assumes "\<forall>x\<in>set (c # s). isDigit x"
  shows "parseUnsigned (c # s) = Some (parseDigits 10 0 (c # s))"
proof -
  have c: "isDigit c" using assms by simp
  have nohex: "\<not> startsWith (c # s) ''0x''" "\<not> startsWith (c # s) ''0X''"
    using assms by (cases s; auto simp: startsWith_def isDigit_def)+
  show ?thesis using hexVal_digit[OF c] nohex by (simp add: parseUnsigned_def)
qed

lemma parseInt_digits:
  assumes "\<forall>x\<in>set (c # s). isDigit x"
  shows "\<exists>n. parseInt (c # s) = Some n \<and> 0 \<le> n \<and> n < 10 ^ length (c # s)"
proof -
  have c: "isDigit c" using assms by simp
  have ts: "trimStart (c # s) = c # s" by (rule trimStart_digit[OF c])
  have nsign: "c \<noteq> CHR ''-''" "c \<noteq> CHR ''+''" using c by (auto simp: isDigit_def)
  have "parseInt (c # s) = Some (parseDigits 10 0 (c # s))"
    using ts nsign parseUnsigned_digits[OF assms] by (simp add: parseInt_def)
  moreover have "0 \<le> parseDigits 10 0 (c # s)" "parseDigits 10 0 (c # s) < 10 ^ length (c # s)"
    using parseDigits_bounds[of "c # s" 0] assms by simp_all
  ultimately show ?thesis by blast
qed

lemma monthStart_bounds: "0 \<le> monthStart l m" "monthStart l m \<le> 366"
  by (simp_all add: monthStart_def)

lemma MakeDay_bounds:
  assumes "0 \<le> y" "y \<le> 9999" "-1 \<le> m" "m \<le> 98" "0 \<le> d" "d \<le> 99"
  shows "\<bar>MakeDay y m d\<bar> \<le> 4000000"
proof -
  define ym where "ym = y + m div 12"
  have ym: "-1 \<le> ym" "ym \<le> 10007" using assms by (auto simp: ym_def)
  have "\<bar>DayFromYear ym\<bar> \<le> 3000000"
    using ym DayFromYear_approx[of ym] by (simp add: abs_le_iff algebra_simps)
  then show ?thesis
    using monthStart_bounds[of "InLeapYear ym" "m mod 12"] assms
    by (simp add: MakeDay_def Let_def ym_def[symmetric])
qed

lemma Date_ymd_valid:
  assumes "\<bar>tza e\<bar> \<le> msPerDay" "0 \<le> y" "y \<le> 9999" "-1 \<le> m" "m \<le> 98" "0 \<le> d" "d \<le> 99"
  shows "Date_ymd e (Some y) (Some m) (Some d) \<noteq> None"
proof -
  define yr where "yr = (if 0 \<le> y \<and> y \<le> 99 then 1900 + y else y)"
  have "0 \<le> yr" "yr \<le> 9999" using assms by (auto simp: yr_def)
  then have "\<bar>MakeDay yr m d\<bar> \<le> 4000000" using assms MakeDay_bounds by blast
  then show ?thesis using assms(1)
    by (simp add: Date_ymd_def Let_def yr_def[symmetric] TimeClip_def UTC_def MakeDate_def
        MakeTime_def msPerDay_def)
qed

text \<open>
  In every time zone, \<open>validarData\<close> is its regular expression: the Date built from the
  three numbers is never invalid, because an out-of-range day or month runs over into
  the next month or year.
\<close>

lemma validarData_regex:
  assumes "\<bar>tza e\<bar> \<le> msPerDay"
  shows "validarData e s = (matchData s \<noteq> None)"
proof (cases "matchData s")
  case None
  then show ?thesis by (simp add: validarData_def)
next
  case (Some r)
  obtain dia mes ano where r: "r = (dia, mes, ano)" by (cases r) auto
  from Some r obtain d1 d2 m1 m2 a1 a2 a3 a4 where
    parts: "dia = [d1, d2]" "mes = [m1, m2]" "ano = [a1, a2, a3, a4]"
    and dig: "isDigit d1" "isDigit d2" "isDigit m1" "isDigit m2"
             "isDigit a1" "isDigit a2" "isDigit a3" "isDigit a4"
    by (auto simp: matchData_def split: list.splits if_splits)
  obtain d where d: "parseInt dia = Some d" "0 \<le> d" "d < 100"
    using parseInt_digits[of d1 "[d2]"] dig parts by auto
  obtain m where m: "parseInt mes = Some m" "0 \<le> m" "m < 100"
    using parseInt_digits[of m1 "[m2]"] dig parts by auto
  obtain y where y: "parseInt ano = Some y" "0 \<le> y" "y < 10000"
    using parseInt_digits[of a1 "[a2, a3, a4]"] dig parts by auto
  have "Date_ymd e (Some y) (Some (m - 1)) (Some d) \<noteq> None"
    using Date_ymd_valid[OF assms, of y "m - 1" d] d m y by simp
  then show ?thesis using Some r d m y by (simp add: validarData_def)
qed

text \<open>
  C2. \<open>validarData\<close> answers true for 31/02/2025 and for 00/01/2025, which are not
  calendar dates, in every time zone; it answers false for aa/bb/cccc.
\<close>

theorem validarData_datas_inexistentes:
  assumes "\<bar>tza e\<bar> \<le> msPerDay"
  shows "validarData e ''31/02/2025'' \<and> validarData e ''00/01/2025''
         \<and> \<not> validarData e ''aa/bb/cccc''"
  using validarData_regex[OF assms] by (simp add: matchData_def isDigit_def)

theorem validarData_datas_inexistentes_witness:
  "\<bar>tza env_ex\<bar> \<le> msPerDay \<and> validarData env_ex ''31/02/2025''
   \<and> validarData env_ex ''00/01/2025'' \<and> \<not> validarData env_ex ''aa/bb/cccc''"
proof -
  have h: "\<bar>tza env_ex\<bar> \<le> msPerDay" by (simp add: env_ex_def msPerDay_def)
  show ?thesis using validarData_datas_inexistentes[OF h] h by simp
qed

section \<open>Properties of the message handler\<close>

text \<open>
  C10. A message whose sender does not end in \<open>@c.us\<close> gets no reply (\<open>null\<close>) and
  leaves the whole state as it was: the tables, the conversation states, the chat
  sessions, the marker and the messages sent.
\<close>

theorem processarMensagem_sender_invalido:
  assumes "\<not> endsWith sender ''@c.us''"
  shows "processarMensagem e mensagem sender s = (Null, s)"
  using assms by (simp add: processarMensagem_def)

theorem processarMensagem_sender_invalido_witness:
  "\<not> endsWith ''5582999990000@g.us'' ''@c.us''
   \<and> processarMensagem env_ex ''1'' ''5582999990000@g.us'' bot_vazio = (Null, bot_vazio)"
  using processarMensagem_sender_invalido[of "''5582999990000@g.us''" env_ex "''1''" bot_vazio]
  by (simp add: endsWith_def)

section \<open>Properties of the texts of numbers\<close>

lemma isDigit_digitChar: "m < 10 \<Longrightarrow> isDigit (digitChar m)"
proof -
  assume "m < 10"
  then have "m = 0 \<or> m = 1 \<or> m = 2 \<or> m = 3 \<or> m = 4 \<or> m = 5 \<or> m = 6 \<or> m = 7
    \<or> m = 8 \<or> m = 9" by arith
  then show ?thesis by (elim disjE) (simp_all add: isDigit_def digitChar_def)
qed

lemma toStr_digits: "toStr k \<noteq> [] \<and> (\<forall>c\<in>set (toStr k). isDigit c)"
proof (induction k rule: toStr.induct)
  case (1 n)
  show ?case
  proof (cases "n < 10")
    case True
    then show ?thesis using isDigit_digitChar[of n] by (simp add: toStr.simps[of n])
  next
    case False
    then show ?thesis using 1 isDigit_digitChar[of "n mod 10"] by (simp add: toStr.simps[of n])
  qed
qed

lemma trimStart_ascii:
  assumes "\<not> asciiSpace c" "(of_char c :: nat) < 128"
  shows "trimStart (c # s) = c # s"
proof (cases s)
  case Nil
  then show ?thesis using assms by simp
next
  case (Cons b t)
  then show ?thesis using assms by (cases t) auto
qed

text \<open>Padded numbers compare as texts the way they compare as numbers.\<close>

lemma digitChar_mod: "digitChar n = digitChar (n mod 10)"
  by (simp add: digitChar_def)

lemma of_char_digitChar: "(of_char (digitChar n) :: nat) = 48 + n mod 10"
proof -
  have "n mod 10 < 10" by simp
  then have "n mod 10 = 0 \<or> n mod 10 = 1 \<or> n mod 10 = 2 \<or> n mod 10 = 3 \<or> n mod 10 = 4
    \<or> n mod 10 = 5 \<or> n mod 10 = 6 \<or> n mod 10 = 7 \<or> n mod 10 = 8 \<or> n mod 10 = 9" by arith
  then show ?thesis by (elim disjE) (simp_all add: digitChar_def)
qed

lemma digitChar_eq: "(digitChar a = digitChar b) = (a mod 10 = b mod 10)"
proof
  assume "digitChar a = digitChar b"
  then have "(of_char (digitChar a) :: nat) = of_char (digitChar b)" by simp
  then show "a mod 10 = b mod 10" by (simp add: of_char_digitChar)
next
  assume "a mod 10 = b mod 10"
  then show "digitChar a = digitChar b" using digitChar_mod[of a] digitChar_mod[of b] by simp
qed

lemma toStr_lt10: "n < 10 \<Longrightarrow> toStr n = [digitChar n]"
  by (simp add: toStr.simps[of n])

lemma toStr_lt100: "10 \<le> n \<Longrightarrow> n < 100 \<Longrightarrow> toStr n = [digitChar (n div 10), digitChar n]"
  using digitChar_mod[of n] by (simp add: toStr.simps[of n] toStr_lt10)

lemma toStr_lt1000:
  "100 \<le> n \<Longrightarrow> n < 1000 \<Longrightarrow> toStr n = [digitChar (n div 100), digitChar (n div 10), digitChar n]"
  using digitChar_mod[of n] toStr_lt100[of "n div 10"]
  by (simp add: toStr.simps[of n] div_mult2_eq[symmetric])

lemma toStr_lt10000:
  "1000 \<le> n \<Longrightarrow> n < 10000 \<Longrightarrow>
   toStr n = [digitChar (n div 1000), digitChar (n div 100), digitChar (n div 10), digitChar n]"
  using digitChar_mod[of n] toStr_lt1000[of "n div 10"]
  by (simp add: toStr.simps[of n] div_mult2_eq[symmetric])

lemma replicate_pequeno:
  "replicate 3 c = [c, c, c]" "replicate 2 c = [c, c]"
  by (simp_all add: numeral_3_eq_3 numeral_2_eq_2)

lemma digitChar_0: "digitChar 0 = CHR ''0''"
  by (simp add: digitChar_def)

lemma pad2:
  assumes "0 \<le> k" "k < 100"
  shows "pad 2 k = [digitChar (nat k div 10), digitChar (nat k)]"
proof (cases "nat k < 10")
  case True
  then show ?thesis by (simp add: pad_def padStart_def toStr_lt10 digitChar_0)
next
  case False
  then show ?thesis using assms by (simp add: pad_def padStart_def toStr_lt100)
qed

lemma pad4:
  assumes "0 \<le> k" "k < 10000"
  shows "pad 4 k = [digitChar (nat k div 1000), digitChar (nat k div 100),
                    digitChar (nat k div 10), digitChar (nat k)]"
proof -
  consider "nat k < 10" | "10 \<le> nat k" "nat k < 100" | "100 \<le> nat k" "nat k < 1000"
    | "1000 \<le> nat k" "nat k < 10000" using assms by linarith
  then show ?thesis
  proof cases
    case 1
    then show ?thesis
      by (simp add: pad_def padStart_def toStr_lt10 digitChar_0 replicate_pequeno)
  next
    case 2
    then show ?thesis
      by (simp add: pad_def padStart_def toStr_lt100 digitChar_0 replicate_pequeno)
  next
    case 3
    then show ?thesis
      by (simp add: pad_def padStart_def toStr_lt1000 digitChar_0 replicate_pequeno)
  next
    case 4
    then show ?thesis by (simp add: pad_def padStart_def toStr_lt10000)
  qed
qed


lemma str_lt_irrefl: "\<not> str_lt x x"
  by (induction x) auto

lemma str_lt_asym: "str_lt x y \<Longrightarrow> \<not> str_lt y x"
  by (induction x y rule: str_lt.induct) auto

lemma str_lt_append:
  assumes "length a = length b"
  shows "str_lt (a @ x) (b @ y) = (str_lt a b \<or> (a = b \<and> str_lt x y))"
  using assms by (induction a b rule: list_induct2) auto

lemma lex2:
  fixes q1 r1 q2 r2 B :: nat
  assumes "r1 < B" "r2 < B"
  shows "(q1 * B + r1 < q2 * B + r2) = (q1 < q2 \<or> (q1 = q2 \<and> r1 < r2))"
proof (cases "q1 < q2")
  case True
  then have "(q1 + 1) * B \<le> q2 * B" by (intro mult_le_mono1) simp
  then show ?thesis using True assms by (simp add: algebra_simps)
next
  case False
  show ?thesis
  proof (cases "q1 = q2")
    case True
    then show ?thesis by simp
  next
    case ne: False
    then have "q2 < q1" using False by simp
    then have "(q2 + 1) * B \<le> q1 * B" by (intro mult_le_mono1) simp
    then show ?thesis using False ne assms by (simp add: algebra_simps)
  qed
qed

lemma str_lt_pad2:
  assumes "0 \<le> a" "a < 100" "0 \<le> b" "b < 100"
  shows "str_lt (pad 2 a) (pad 2 b) = (a < b)" and "(pad 2 a = pad 2 b) = (a = b)"
proof -
  define m where "m = nat a"
  define n where "n = nat b"
  have mn: "m < 100" "n < 100" "(a < b) = (m < n)" "(a = b) = (m = n)"
    using assms by (auto simp: m_def n_def)
  have q: "m div 10 < 10" "n div 10 < 10" using mn by simp_all
  have d: "m = (m div 10) * 10 + m mod 10" "n = (n div 10) * 10 + n mod 10" by simp_all
  have l: "(m < n) = (m div 10 < n div 10 \<or> (m div 10 = n div 10 \<and> m mod 10 < n mod 10))"
    using lex2[of "m mod 10" 10 "n mod 10" "m div 10" "n div 10"] by simp
  have e: "(m = n) = (m div 10 = n div 10 \<and> m mod 10 = n mod 10)"
    using d by metis
  show "str_lt (pad 2 a) (pad 2 b) = (a < b)"
    using q by (simp add: pad2 assms m_def[symmetric] n_def[symmetric] of_char_digitChar
        digitChar_eq mn l)
  show "(pad 2 a = pad 2 b) = (a = b)"
    using q by (simp add: pad2 assms m_def[symmetric] n_def[symmetric] digitChar_eq mn e)
qed

lemma pad4_split:
  assumes "0 \<le> k" "k < 10000"
  shows "pad 4 k = pad 2 (k div 100) @ pad 2 (k mod 100)"
proof -
  define n where "n = nat k"
  have n: "n < 10000" using assms by (simp add: n_def)
  have c: "nat (k div 100) = n div 100" "nat (k mod 100) = n mod 100"
    using assms by (simp_all add: n_def nat_div_distrib nat_mod_distrib)
  have r: "0 \<le> k div 100" "k div 100 < 100" "0 \<le> k mod 100" "k mod 100 < 100"
    using assms by simp_all
  have i1: "n div 100 div 10 = n div 1000" by (simp add: div_mult2_eq[symmetric])
  have i2: "(n mod 100 div 10) mod 10 = (n div 10) mod 10"
    using mod_mult2_eq[of n 10 10] by simp
  have i3: "n mod 100 mod 10 = n mod 10" by (simp add: mod_mod_cancel)
  show ?thesis
    using i1 i2 i3
    by (simp add: pad4[OF assms] pad2[OF r(1,2)] pad2[OF r(3,4)] c n_def[symmetric] digitChar_eq)
qed

lemma length_pad2: "0 \<le> k \<Longrightarrow> k < 100 \<Longrightarrow> length (pad 2 k) = 2"
  by (simp add: pad2)

lemma nat_cmp:
  fixes x y :: int
  assumes "0 \<le> x" "0 \<le> y"
  shows "(x < y) = (nat x < nat y)" "(x = y) = (nat x = nat y)"
  using assms by auto

lemma str_lt_pad4:
  assumes "0 \<le> a" "a < 10000" "0 \<le> b" "b < 10000"
  shows "str_lt (pad 4 a) (pad 4 b) = (a < b)" and "(pad 4 a = pad 4 b) = (a = b)"
proof -
  have r: "0 \<le> a div 100" "a div 100 < 100" "0 \<le> a mod 100" "a mod 100 < 100"
          "0 \<le> b div 100" "b div 100 < 100" "0 \<le> b mod 100" "b mod 100 < 100"
    using assms by simp_all
  define qa ra qb rb where "qa = nat (a div 100)" and "ra = nat (a mod 100)"
    and "qb = nat (b div 100)" and "rb = nat (b mod 100)"
  have d: "nat a = qa * 100 + ra" "nat b = qb * 100 + rb" "ra < 100" "rb < 100"
    using assms r by (simp_all add: qa_def ra_def qb_def rb_def nat_div_distrib nat_mod_distrib)
  have c: "(a div 100 < b div 100) = (qa < qb)" "(a div 100 = b div 100) = (qa = qb)"
          "(a mod 100 < b mod 100) = (ra < rb)" "(a mod 100 = b mod 100) = (ra = rb)"
    unfolding qa_def ra_def qb_def rb_def
    using nat_cmp[OF r(1) r(5)] nat_cmp[OF r(3) r(7)] by blast+
  have l: "(nat a < nat b) = (qa < qb \<or> (qa = qb \<and> ra < rb))"
    using lex2[of ra 100 rb qa qb] d by simp
  have e: "(nat a = nat b) = (qa = qb \<and> ra = rb)"
  proof
    assume "nat a = nat b"
    then have "a = b" using nat_cmp(2)[OF assms(1) assms(3)] by blast
    then show "qa = qb \<and> ra = rb" by (simp add: qa_def ra_def qb_def rb_def)
  next
    assume "qa = qb \<and> ra = rb"
    then show "nat a = nat b" using d by simp
  qed
  have ab: "(a < b) = (nat a < nat b)" "(a = b) = (nat a = nat b)"
    using nat_cmp[OF assms(1) assms(3)] by blast+
  note p2 = str_lt_pad2[OF r(1,2) r(5,6)] str_lt_pad2[OF r(3,4) r(7,8)]
  have "str_lt (pad 4 a) (pad 4 b) =
          (str_lt (pad 2 (a div 100)) (pad 2 (b div 100))
           \<or> (pad 2 (a div 100) = pad 2 (b div 100)
              \<and> str_lt (pad 2 (a mod 100)) (pad 2 (b mod 100))))"
    by (simp add: pad4_split[OF assms(1,2)] pad4_split[OF assms(3,4)] str_lt_append
        length_pad2[OF r(1,2)] length_pad2[OF r(5,6)])
  also have "\<dots> = (a div 100 < b div 100 \<or> (a div 100 = b div 100 \<and> a mod 100 < b mod 100))"
    by (simp only: p2)
  also have "\<dots> = (qa < qb \<or> (qa = qb \<and> ra < rb))" by (simp only: c)
  also have "\<dots> = (nat a < nat b)" by (simp only: l)
  also have "\<dots> = (a < b)" by (simp only: ab)
  finally show "str_lt (pad 4 a) (pad 4 b) = (a < b)" .
  have "(pad 4 a = pad 4 b) =
          (pad 2 (a div 100) = pad 2 (b div 100) \<and> pad 2 (a mod 100) = pad 2 (b mod 100))"
    by (simp add: pad4_split[OF assms(1,2)] pad4_split[OF assms(3,4)]
        length_pad2[OF r(1,2)] length_pad2[OF r(5,6)])
  also have "\<dots> = (a div 100 = b div 100 \<and> a mod 100 = b mod 100)" by (simp only: p2)
  also have "\<dots> = (qa = qb \<and> ra = rb)" by (simp only: c)
  also have "\<dots> = (nat a = nat b)" by (simp only: e)
  also have "\<dots> = (a = b)" by (simp only: ab)
  finally show "(pad 4 a = pad 4 b) = (a = b)" .
qed

lemma split_sem_separador:
  assumes "c \<notin> set xs"
  shows "split c (xs @ c # ys) = xs # split c ys"
  using assms by (induction xs) (auto split: list.splits)

lemma set_pad: "set (pad n k) \<subseteq> set ''0123456789''"
proof -
  have "set (toStr (nat k)) \<subseteq> set ''0123456789''"
    using toStr_digits[of "nat k"] unfolding isDigit_def by blast
  then show ?thesis by (auto simp: pad_def padStart_def)
qed

section \<open>Properties of the feedback\<close>

text \<open>The text of a finite number starts with a digit, after its sign.\<close>

lemma toStr_primeiro:
  "0 < n \<Longrightarrow> \<exists>c r. toStr n = c # r \<and> isDigit c \<and> c \<noteq> CHR ''0''"
proof (induction n rule: toStr.induct)
  case (1 n)
  show ?case
  proof (cases "n < 10")
    case True
    have "digitChar n \<noteq> digitChar 0" using True 1(2) by (simp add: digitChar_eq)
    then show ?thesis
      using True isDigit_digitChar[of n] by (simp add: toStr.simps[of n] digitChar_0)
  next
    case False
    then have "0 < n div 10" by simp
    then obtain c r where "toStr (n div 10) = c # r" "isDigit c" "c \<noteq> CHR ''0''"
      using 1(1) False by blast
    then show ?thesis using False by (simp add: toStr.simps[of n])
  qed
qed

lemma dropWhile_fim:
  "\<not> P c \<Longrightarrow> \<exists>t. dropWhile P (xs @ [c]) = t @ [c]"
  by (induction xs) auto

lemma semZerosFinais_primeiro:
  assumes "c \<noteq> CHR ''0''"
  shows "\<exists>t. semZerosFinais (c # r) = c # t"
proof -
  obtain t where "dropWhile (\<lambda>c. c = CHR ''0'') (rev r @ [c]) = t @ [c]"
    using dropWhile_fim[of "\<lambda>c. c = CHR ''0''" c "rev r"] assms by auto
  then show ?thesis by (simp add: semZerosFinais_def)
qed

lemma decimalDe_primeiro:
  assumes "isDigit c" "c \<noteq> CHR ''0''"
  shows "\<exists>a t. decimalDe (c # r) n = a # t \<and> isDigit a
               \<and> \<not> startsWith (a # t) ''0x'' \<and> \<not> startsWith (a # t) ''0X''"
proof -
  have z: "isDigit (CHR ''0'')" by (simp add: isDigit_def)
  show ?thesis
    unfolding decimalDe_def Let_def
    using assms z by (auto simp: startsWith_def take_Cons')
qed

lemma parseInt_digito_primeiro:
  assumes "isDigit a" "\<not> startsWith (a # t) ''0x''" "\<not> startsWith (a # t) ''0X''"
  shows "parseInt (a # t) \<noteq> None" "parseInt (CHR ''-'' # a # t) \<noteq> None"
proof -
  have u: "parseUnsigned (a # t) \<noteq> None"
    using assms hexVal_digit[OF assms(1)] by (simp add: parseUnsigned_def)
  have n: "a \<noteq> CHR ''-''" "a \<noteq> CHR ''+''" using assms(1) by (auto simp: isDigit_def)
  show "parseInt (a # t) \<noteq> None"
    using u n trimStart_digit[OF assms(1), of t] by (simp add: parseInt_def)
  have "trimStart (CHR ''-'' # a # t) = CHR ''-'' # a # t"
    by (rule trimStart_ascii) (simp_all add: asciiSpace_def)
  then show "parseInt (CHR ''-'' # a # t) \<noteq> None"
    using u by (simp add: parseInt_def)
qed

lemma parseInt_Numero: "Number_isInteger (parseInt (ToString (Numero m k)))"
proof (cases "m = 0")
  case True
  have "parseInt ''0'' \<noteq> None" by code_simp
  then show ?thesis using True by (simp add: ToString_def Number_isInteger_def)
next
  case False
  then have "0 < nat \<bar>m\<bar>" by simp
  then obtain c r where c: "toStr (nat \<bar>m\<bar>) = c # r" "isDigit c" "c \<noteq> CHR ''0''"
    using toStr_primeiro by blast
  obtain t where t: "semZerosFinais (c # r) = c # t"
    using semZerosFinais_primeiro[OF c(3)] by blast
  obtain a u where a: "Number_toString (nat \<bar>m\<bar>) k = a # u" "isDigit a"
      "\<not> startsWith (a # u) ''0x''" "\<not> startsWith (a # u) ''0X''"
    using decimalDe_primeiro[OF c(2,3), of t] unfolding Number_toString_def c(1) t by blast
  show ?thesis
    using False parseInt_digito_primeiro[OF a(2,3,4)]
    by (simp add: ToString_def Number_isInteger_def a(1))
qed

text \<open>
  For a number, then, the integer test of \<open>coletarFeedback\<close> always passes: the guard is
  the comparison with 1 and 5 alone, and every number from 1 to 5 is stored, whole or not.
\<close>

lemma coletarFeedback_numero:
  "coletarFeedback e nome comentario (Numero m k) s =
     (if m < 10 ^ k \<or> 5 * 10 ^ k < m then (Texto (txt_avaliacao_invalida @ mostrarMenu), s)
      else (Texto (txt_valeu @ mostrarMenu),
            s\<lparr>feedbacks := feedbacks s @
                 [\<lparr>fb_nome = nome, fb_comentario = comentario, fb_avaliacao = Numero m k,
                   fb_timestamp = toISOString (now e)\<rparr>]\<rparr>))"
  using parseInt_Numero[of m k]
  by (cases "variante e")
     (simp_all add: coletarFeedback_def valor_lt_def valor_gt_def ToNumber_def castNumber_def)

text \<open>
  C9. \<open>coletarFeedback\<close> thanks for the rating 3.5 and stores it, in both variants,
  although 3.5 is not an integer: \<open>parseInt\<close> reads the 3 of its text, which is an
  integer, and 3.5 is neither below 1 nor above 5. The SQLite variant does the same with
  the text \<open>4 estrelas\<close>. The thanks are not the answer for an invalid rating.
\<close>

theorem coletarFeedback_nao_inteiro:
  "coletarFeedback e nome comentario (Numero 35 1) s =
     (Texto (txt_valeu @ mostrarMenu),
      s\<lparr>feedbacks := feedbacks s @
           [\<lparr>fb_nome = nome, fb_comentario = comentario, fb_avaliacao = Numero 35 1,
             fb_timestamp = toISOString (now e)\<rparr>]\<rparr>)
   \<and> (variante e = SQLite \<longrightarrow>
        coletarFeedback e nome comentario (Cadeia ''4 estrelas'') s =
          (Texto (txt_valeu @ mostrarMenu),
           s\<lparr>feedbacks := feedbacks s @
                [\<lparr>fb_nome = nome, fb_comentario = comentario, fb_avaliacao = Cadeia ''4 estrelas'',
                  fb_timestamp = toISOString (now e)\<rparr>]\<rparr>))
   \<and> Texto (txt_valeu @ mostrarMenu) \<noteq> Texto (txt_avaliacao_invalida @ mostrarMenu)"
proof -
  have n: "Number_isInteger (parseInt (ToString (Numero 35 1)))"
          "\<not> valor_lt (Numero 35 1) 1" "\<not> valor_gt (Numero 35 1) 5"
          "castNumber (Numero 35 1) = Some (Numero 35 1)"
    by code_simp+
  have c: "Number_isInteger (parseInt (ToString (Cadeia ''4 estrelas'')))"
          "\<not> valor_lt (Cadeia ''4 estrelas'') 1" "\<not> valor_gt (Cadeia ''4 estrelas'') 5"
    by code_simp+
  have t: "Texto (txt_valeu @ mostrarMenu) \<noteq> Texto (txt_avaliacao_invalida @ mostrarMenu)"
    by (simp add: txt_avaliacao_invalida_def txt_valeu_def)
  have g: "(\<not> Number_isInteger (parseInt (ToString (Numero 35 1))) \<or> valor_lt (Numero 35 1) 1
            \<or> valor_gt (Numero 35 1) 5) = False"
          "(\<not> Number_isInteger (parseInt (ToString (Cadeia ''4 estrelas'')))
            \<or> valor_lt (Cadeia ''4 estrelas'') 1 \<or> valor_gt (Cadeia ''4 estrelas'') 5) = False"
    using n c by simp_all
  have a: "coletarFeedback e nome comentario (Numero 35 1) s =
     (Texto (txt_valeu @ mostrarMenu),
      s\<lparr>feedbacks := feedbacks s @
           [\<lparr>fb_nome = nome, fb_comentario = comentario, fb_avaliacao = Numero 35 1,
             fb_timestamp = toISOString (now e)\<rparr>]\<rparr>)"
    unfolding coletarFeedback_def g
    by (cases "variante e") (simp_all only: if_False variante.case option.case n(4))
  have b: "coletarFeedback e nome comentario (Cadeia ''4 estrelas'') s =
          (Texto (txt_valeu @ mostrarMenu),
           s\<lparr>feedbacks := feedbacks s @
                [\<lparr>fb_nome = nome, fb_comentario = comentario, fb_avaliacao = Cadeia ''4 estrelas'',
                  fb_timestamp = toISOString (now e)\<rparr>]\<rparr>)"
    if "variante e = SQLite"
    unfolding coletarFeedback_def g that
    by (simp only: if_False variante.case option.case)
  show ?thesis using a b t by blast
qed

theorem coletarFeedback_nao_inteiro_witness:
  "fst (coletarFeedback env_ex ''Joao'' ''muito bom'' (Numero 35 1) bot_vazio)
     = Texto (txt_valeu @ mostrarMenu)
   \<and> map fb_avaliacao (feedbacks (snd (coletarFeedback env_ex ''Joao'' ''muito bom'' (Numero 35 1)
        bot_vazio))) = [Numero 35 1]
   \<and> ToString (Numero 35 1) = ''3.5''
   \<and> variante env_sqlite = SQLite
   \<and> fst (coletarFeedback env_sqlite ''Joao'' ''muito bom'' (Cadeia ''4 estrelas'') bot_vazio)
     = Texto (txt_valeu @ mostrarMenu)
   \<and> map fb_avaliacao (feedbacks (snd (coletarFeedback env_sqlite ''Joao'' ''muito bom''
        (Cadeia ''4 estrelas'') bot_vazio))) = [Cadeia ''4 estrelas'']"
proof -
  have v: "variante env_sqlite = SQLite" by (simp add: env_sqlite_def)
  have f: "feedbacks bot_vazio = []" by (simp add: bot_vazio_def)
  have x: "ToString (Numero 35 1) = ''3.5''" by code_simp
  note a = coletarFeedback_nao_inteiro[of env_ex "''Joao''" "''muito bom''" bot_vazio,
      THEN conjunct1]
  note b = coletarFeedback_nao_inteiro[of env_sqlite "''Joao''" "''muito bom''" bot_vazio,
      THEN conjunct2, THEN conjunct1, rule_format, OF v]
  show ?thesis unfolding a b using v f x by simp
qed

section \<open>Properties of the booking\<close>

lemma erroAgendar_eq:
  "erroAgendar e sender m s =
     (Texto (txt_erro m @ txt_digite_data),
      modEstado sender (\<lambda>st. st\<lparr>etapa := Some E_data\<rparr>) (getEstado e sender s))"
  by (simp add: erroAgendar_def listarHorarios_def)

text \<open>\<open>agendarServico\<close> as a chain of its named checks.\<close>

lemma agendarServico_alt:
  "agendarServico e nome dia hora sender s =
     (if \<not> validarHorario hora then erroAgendar e sender txt_horario_invalido s
      else if foraDoExpediente e dia hora
      then erroAgendar e sender
             (txt_fora_expediente (fst (expediente (getDay e (Date_parse e dia))))
                (snd (expediente (getDay e (Date_parse e dia))))) s
      else if momentoInvalido e dia hora then erroAgendar e sender ''Invalid time value'' s
      else if noPassado e dia hora then erroAgendar e sender txt_no_passado s
      else if length (doSender sender s) \<ge> 3 then (Texto (txt_limite @ mostrarMenu), s)
      else
        (case find (\<lambda>a. ag_data a = dia \<and> ag_hora a = hora) (agendamentos s) of
           Some row \<Rightarrow>
             (Texto (txt_ja_agendado @ txt_digite_data),
              modEstado sender (\<lambda>st. st\<lparr>etapa := Some E_data\<rparr>) (getEstado e sender s))
         | None \<Rightarrow>
             (let s1 = s\<lparr>agendamentos := agendamentos s @
                           [\<lparr>ag_nome = nome, ag_data = dia, ag_hora = hora,
                             ag_sender = sender, ag_timestamp = toISOString (now e)\<rparr>]\<rparr>;
                  s2 = notificarAdmin e
                         (''Novo agendamento: '' @ nome @ '', '' @ dia @ '', '' @ hora) s1;
                  s3 = sendMessage sender (listarAgendamentosDia e sender (Some dia) s2) s2;
                  s4 = sendMessage sender (txt_confirmado (variante e) nome dia hora) s3
              in (Null, s4\<lparr>ultimoAgendamento := Some (sender, now e)\<rparr>))))"
  by (simp add: agendarServico_def foraDoExpediente_def momentoInvalido_def noPassado_def
      doSender_def listarHorarios_def Let_def case_prod_beta split: option.splits)

lemma agendarServico_validado:
  assumes "passaValidacoes e dia hora"
  shows "agendarServico e nome dia hora sender s =
     (if length (doSender sender s) \<ge> 3 then (Texto (txt_limite @ mostrarMenu), s)
      else
        (case find (\<lambda>a. ag_data a = dia \<and> ag_hora a = hora) (agendamentos s) of
           Some row \<Rightarrow>
             (Texto (txt_ja_agendado @ txt_digite_data),
              modEstado sender (\<lambda>st. st\<lparr>etapa := Some E_data\<rparr>) (getEstado e sender s))
         | None \<Rightarrow>
             (let s1 = s\<lparr>agendamentos := agendamentos s @
                           [\<lparr>ag_nome = nome, ag_data = dia, ag_hora = hora,
                             ag_sender = sender, ag_timestamp = toISOString (now e)\<rparr>]\<rparr>;
                  s2 = notificarAdmin e
                         (''Novo agendamento: '' @ nome @ '', '' @ dia @ '', '' @ hora) s1;
                  s3 = sendMessage sender (listarAgendamentosDia e sender (Some dia) s2) s2;
                  s4 = sendMessage sender (txt_confirmado (variante e) nome dia hora) s3
              in (Null, s4\<lparr>ultimoAgendamento := Some (sender, now e)\<rparr>))))"
  using assms unfolding passaValidacoes_def agendarServico_alt by simp

lemma agendarServico_invalido:
  assumes "\<not> validarHorario hora"
  shows "agendarServico e nome dia hora sender s = erroAgendar e sender txt_horario_invalido s"
  using assms unfolding agendarServico_alt by simp

lemma agendarServico_fora:
  assumes "validarHorario hora" "foraDoExpediente e dia hora"
  shows "agendarServico e nome dia hora sender s =
           erroAgendar e sender
             (txt_fora_expediente (fst (expediente (getDay e (Date_parse e dia))))
                (snd (expediente (getDay e (Date_parse e dia))))) s"
  using assms unfolding agendarServico_alt by simp

lemma agendarServico_momento:
  assumes "validarHorario hora" "\<not> foraDoExpediente e dia hora" "momentoInvalido e dia hora"
  shows "agendarServico e nome dia hora sender s = erroAgendar e sender ''Invalid time value'' s"
  using assms unfolding agendarServico_alt by simp

lemma agendarServico_passado:
  assumes "validarHorario hora" "\<not> foraDoExpediente e dia hora" "\<not> momentoInvalido e dia hora"
    "noPassado e dia hora"
  shows "agendarServico e nome dia hora sender s = erroAgendar e sender txt_no_passado s"
  using assms unfolding agendarServico_alt by simp

lemma agendarServico_erro:
  assumes "\<not> passaValidacoes e dia hora"
  shows "\<exists>m. agendarServico e nome dia hora sender s = erroAgendar e sender m s"
proof -
  consider (a) "\<not> validarHorario hora"
    | (b) "validarHorario hora" "foraDoExpediente e dia hora"
    | (c) "validarHorario hora" "\<not> foraDoExpediente e dia hora" "momentoInvalido e dia hora"
    | (d) "validarHorario hora" "\<not> foraDoExpediente e dia hora" "\<not> momentoInvalido e dia hora"
          "noPassado e dia hora"
    using assms unfolding passaValidacoes_def by blast
  then show ?thesis
  proof cases
    case a
    then show ?thesis using agendarServico_invalido by blast
  next
    case b
    then show ?thesis using agendarServico_fora by blast
  next
    case c
    then show ?thesis using agendarServico_momento by blast
  next
    case d
    then show ?thesis using agendarServico_passado by blast
  qed
qed

lemma agendamentos_listarHorarios [simp]:
  "agendamentos (modEstado sender f (getEstado e sender s)) = agendamentos s"
  by (simp add: modEstado_def getEstado_def split: option.splits)

lemma etapaDe_listarHorarios [simp]:
  "etapaDe (modEstado sender (\<lambda>st. st\<lparr>etapa := Some E_data\<rparr>) (getEstado e sender s)) sender
     = Some E_data"
  by (simp add: etapaDe_def modEstado_def getEstado_def split: option.splits)


lemma find_noHorario:
  "(find (\<lambda>a. ag_data a = dia \<and> ag_hora a = hora) (agendamentos s) = None)
     = (noHorario dia hora s = [])"
  by (auto simp: noHorario_def find_None_iff filter_empty_conv)

lemma parseInt_digitos:
  assumes "\<forall>x\<in>set (c # s). isDigit x"
  shows "parseInt (c # s) = Some (parseDigits 10 0 (c # s))"
proof -
  have c: "isDigit c" using assms by simp
  have ts: "trimStart (c # s) = c # s" by (rule trimStart_digit[OF c])
  have nsign: "c \<noteq> CHR ''-''" "c \<noteq> CHR ''+''" using c by (auto simp: isDigit_def)
  show ?thesis using ts nsign parseUnsigned_digits[OF assms] by (simp add: parseInt_def)
qed

lemma digitVal_digitChar: "digitVal (digitChar n) = int (n mod 10)"
  by (simp add: digitVal_def of_char_digitChar)

lemma parseInt_pad2:
  assumes "0 \<le> k" "k < 100"
  shows "parseInt (pad 2 k) = Some k"
proof -
  define n where "n = nat k"
  have n: "n < 100" "k = int n" using assms by (simp_all add: n_def)
  have p: "pad 2 k = [digitChar (n div 10), digitChar n]"
    using pad2[OF assms] by (simp add: n_def)
  have d: "isDigit (digitChar (n div 10))" "isDigit (digitChar n)"
    using isDigit_digitChar[of "n div 10"] isDigit_digitChar[of "n mod 10"] n(1)
    by (simp_all add: digitChar_mod[of n])
  have h: "hexVal (digitChar (n div 10)) = Some (int (n div 10))"
          "hexVal (digitChar n) = Some (int (n mod 10))"
    using hexVal_digit(1)[OF d(1)] hexVal_digit(1)[OF d(2)] n(1)
    by (simp_all add: digitVal_digitChar)
  have "parseInt (pad 2 k) = Some (parseDigits 10 0 [digitChar (n div 10), digitChar n])"
    unfolding p using d by (intro parseInt_digitos) simp
  also have "parseDigits 10 0 [digitChar (n div 10), digitChar n] = int (n div 10) * 10 + int (n mod 10)"
    using n(1) by (simp add: h)
  also have "\<dots> = int n" by (simp add: zdiv_int zmod_int)
  finally show ?thesis using n(2) by simp
qed

lemma validarHorario_pad:
  assumes "0 \<le> h" "h < 24" "0 \<le> m" "m < 60"
  shows "validarHorario (pad 2 h @ '':'' @ pad 2 m)"
proof -
  define a b where "a = nat h" and "b = nat m"
  have ab: "a < 24" "b < 60" using assms by (simp_all add: a_def b_def)
  have p: "pad 2 h @ '':'' @ pad 2 m
           = [digitChar (a div 10), digitChar a, CHR '':'', digitChar (b div 10), digitChar b]"
    using pad2[of h] pad2[of m] assms by (simp add: a_def b_def)
  have m2: "isDigit (digitChar b)" "isDigit (digitChar a)"
    using isDigit_digitChar[of "b mod 10"] isDigit_digitChar[of "a mod 10"]
    by (simp_all add: digitChar_mod[of b] digitChar_mod[of a])
  have "b div 10 < 6" using ab by simp
  then have "b div 10 = 0 \<or> b div 10 = 1 \<or> b div 10 = 2 \<or> b div 10 = 3 \<or> b div 10 = 4
             \<or> b div 10 = 5" by arith
  then have m1: "digitChar (b div 10) \<in> set ''012345''"
    by (elim disjE) (simp_all add: digitChar_def)
  have hh: "(digitChar (a div 10) \<in> set ''01'' \<and> isDigit (digitChar a))
            \<or> (digitChar (a div 10) = CHR ''2'' \<and> digitChar a \<in> set ''0123'')"
  proof (cases "a < 20")
    case True
    then have "a div 10 = 0 \<or> a div 10 = 1" by arith
    then have "digitChar (a div 10) \<in> set ''01''" by (elim disjE) (simp_all add: digitChar_def)
    then show ?thesis using m2 by simp
  next
    case False
    then have "a = 20 \<or> a = 21 \<or> a = 22 \<or> a = 23" using ab by arith
    then show ?thesis by (elim disjE) (simp_all add: digitChar_def)
  qed
  show ?thesis unfolding p using hh m1 m2 by (simp add: validarHorario_def)
qed

lemma hora_de_pad:
  "(case split (CHR '':'') (pad 2 h @ '':'' @ pad 2 m) of [] \<Rightarrow> [] | x # _ \<Rightarrow> x) = pad 2 h"
proof -
  have "CHR '':'' \<notin> set (pad 2 h)" using set_pad[of 2 h] by fastforce
  then have "split (CHR '':'') (pad 2 h @ CHR '':'' # pad 2 m) = pad 2 h # split (CHR '':'') (pad 2 m)"
    by (rule split_sem_separador)
  then show ?thesis by simp
qed

text \<open>The weekday that \<open>getDay\<close> reads off a date parsed as midnight UTC.\<close>

lemma Day_desloc:
  assumes "0 \<le> z" "z < msPerDay"
  shows "Day (d * msPerDay + z) = d"
  using assms by (simp add: Day_def msPerDay_def)

lemma getDay_leste:
  assumes "0 \<le> tza e" "tza e < msPerDay"
  shows "getDay e (Some (d * msPerDay)) = Some (WeekDay (d * msPerDay))"
  using Day_desloc[OF assms, of d] Day_desloc[of 0 d]
  by (simp add: getDay_def LocalTime_def WeekDay_def msPerDay_def)

lemma getDay_oeste:
  assumes "- msPerDay \<le> tza e" "tza e < 0"
  shows "getDay e (Some (d * msPerDay)) = Some (WeekDay ((d - 1) * msPerDay))"
proof -
  have "Day ((d - 1) * msPerDay + (tza e + msPerDay)) = d - 1"
    using assms by (intro Day_desloc) simp_all
  moreover have "(d - 1) * msPerDay + (tza e + msPerDay) = d * msPerDay + tza e"
    by (simp add: algebra_simps)
  ultimately have "Day (d * msPerDay + tza e) = d - 1" by simp
  then show ?thesis
    using Day_desloc[of 0 "d - 1"]
    by (simp add: getDay_def LocalTime_def WeekDay_def msPerDay_def)
qed

lemma WeekDay_dia: "WeekDay (d * msPerDay) = (d + 4) mod 7"
  using Day_desloc[of 0 d] by (simp add: WeekDay_def msPerDay_def)

lemma sabado_lido:
  assumes "0 \<le> tza e \<and> tza e < msPerDay
           \<or> - msPerDay \<le> tza e \<and> tza e < 0
             \<and> WeekDay (d * msPerDay) \<noteq> 0 \<and> WeekDay (d * msPerDay) \<noteq> 6"
  shows "expediente (getDay e (Some (d * msPerDay)))
         = (if WeekDay (d * msPerDay) = 6 then (10, 16) else (9, 20))"
  using assms
proof (elim disjE conjE)
  assume "0 \<le> tza e" "tza e < msPerDay"
  then show ?thesis by (simp add: getDay_leste expediente_def)
next
  assume z: "- msPerDay \<le> tza e" "tza e < 0"
    and w: "WeekDay (d * msPerDay) \<noteq> 0" "WeekDay (d * msPerDay) \<noteq> 6"
  define x where "x = d - 1 + 4"
  have dx: "d + 4 = x + 1" by (simp add: x_def)
  have s: "(x + 1) mod 7 = (x mod 7 + 1) mod 7" by (rule mod_add_left_eq[symmetric])
  have "x mod 7 \<noteq> 6"
  proof
    assume "x mod 7 = 6"
    then have "(x + 1) mod 7 = 0" unfolding s by simp
    then show False using w(1) unfolding WeekDay_dia dx by simp
  qed
  then have "WeekDay ((d - 1) * msPerDay) \<noteq> 6" unfolding WeekDay_dia x_def .
  then show ?thesis
    using w(2) by (simp add: getDay_oeste[OF z] expediente_def)
qed

text \<open>
  C4, as amended. A booking for a calendar day \<open>d\<close> at \<open>h:m\<close>, written \<open>HH:MM\<close>, whose
  hour is outside the opening hours of the weekday of \<open>d\<close> (10 to 16 on a Saturday, 9 to
  20 on every other day, the minutes not counting) stores nothing and answers the
  out-of-hours error with those hours, followed by the prompt for the date; the step of
  the requester becomes the date entry. The engine reads the ISO date as midnight UTC, as
  ECMAScript prescribes, and the statement is for the zones at or ahead of UTC, and for
  the days from Monday to Friday in the zones up to a day behind it.
\<close>

theorem agendarServico_fora_do_expediente:
  fixes d h m :: int
  assumes hm: "0 \<le> h" "h < 24" "0 \<le> m" "m < 60"
    and meia_noite: "Date_parse e (isoDate d) = Some (d * msPerDay)"
    and zona: "0 \<le> tza e \<and> tza e < msPerDay
               \<or> - msPerDay \<le> tza e \<and> tza e < 0
                 \<and> WeekDay (d * msPerDay) \<noteq> 0 \<and> WeekDay (d * msPerDay) \<noteq> 6"
    and fora: "if WeekDay (d * msPerDay) = 6 then h < 10 \<or> 16 \<le> h else h < 9 \<or> 20 \<le> h"
  shows "agendarServico e nome (isoDate d) (pad 2 h @ '':'' @ pad 2 m) sender s =
           (Texto (txt_erro (if WeekDay (d * msPerDay) = 6 then txt_fora_expediente 10 16
                             else txt_fora_expediente 9 20) @ txt_digite_data),
            modEstado sender (\<lambda>st. st\<lparr>etapa := Some E_data\<rparr>) (getEstado e sender s))
         \<and> agendamentos (snd (agendarServico e nome (isoDate d) (pad 2 h @ '':'' @ pad 2 m) sender s))
             = agendamentos s
         \<and> etapaDe (snd (agendarServico e nome (isoDate d) (pad 2 h @ '':'' @ pad 2 m) sender s))
              sender = Some E_data"
proof -
  let ?hora = "pad 2 h @ '':'' @ pad 2 m"
  have v: "validarHorario ?hora" by (rule validarHorario_pad[OF hm])
  have n: "parseInt (case split (CHR '':'') ?hora of [] \<Rightarrow> [] | x # _ \<Rightarrow> x) = Some h"
    unfolding hora_de_pad using hm by (intro parseInt_pad2) simp_all
  have x: "expediente (getDay e (Date_parse e (isoDate d)))
           = (if WeekDay (d * msPerDay) = 6 then (10, 16) else (9, 20))"
    unfolding meia_noite by (rule sabado_lido[OF zona])
  have f: "foraDoExpediente e (isoDate d) ?hora"
    unfolding foraDoExpediente_def x n using fora
    by (simp add: num_lt_def num_ge_def split: if_splits)
  have r: "agendarServico e nome (isoDate d) ?hora sender s =
           (Texto (txt_erro (if WeekDay (d * msPerDay) = 6 then txt_fora_expediente 10 16
                             else txt_fora_expediente 9 20) @ txt_digite_data),
            modEstado sender (\<lambda>st. st\<lparr>etapa := Some E_data\<rparr>) (getEstado e sender s))"
    unfolding agendarServico_fora[OF v f] erroAgendar_eq x by simp
  show ?thesis unfolding r by simp
qed


theorem agendarServico_fora_do_expediente_witness:
  "isoDate 20447 = ''2025-12-25'' \<and> WeekDay (20447 * msPerDay) = 4
   \<and> fst (agendarServico env_ex ''Joao'' ''2025-12-25'' ''21:00'' ''a@c.us'' bot_vazio)
       = Texto (txt_erro (txt_fora_expediente 9 20) @ txt_digite_data)
   \<and> agendamentos (snd (agendarServico env_ex ''Joao'' ''2025-12-25'' ''21:00'' ''a@c.us'' bot_vazio))
       = agendamentos bot_vazio
   \<and> etapaDe (snd (agendarServico env_ex ''Joao'' ''2025-12-25'' ''21:00'' ''a@c.us'' bot_vazio))
       ''a@c.us'' = Some E_data
   \<and> isoDate 20449 = ''2025-12-27'' \<and> WeekDay (20449 * msPerDay) = 6
   \<and> fst (agendarServico env_leste ''Joao'' ''2025-12-27'' ''16:30'' ''a@c.us'' bot_vazio)
       = Texto (txt_erro (txt_fora_expediente 10 16) @ txt_digite_data)
   \<and> agendamentos (snd (agendarServico env_leste ''Joao'' ''2025-12-27'' ''16:30'' ''a@c.us'' bot_vazio))
       = agendamentos bot_vazio"
proof -
  have i: "isoDate 20447 = ''2025-12-25''" "isoDate 20449 = ''2025-12-27''" by code_simp+
  have w: "WeekDay (20447 * msPerDay) = 4" "WeekDay (20449 * msPerDay) = 6" by code_simp+
  have p: "pad 2 21 = ''21''" "pad 2 0 = ''00''" "pad 2 16 = ''16''" "pad 2 30 = ''30''"
    by code_simp+
  have m1: "Date_parse env_ex (isoDate 20447) = Some (20447 * msPerDay)" by code_simp
  have m2: "Date_parse env_leste (isoDate 20449) = Some (20449 * msPerDay)" by code_simp
  have z1: "0 \<le> tza env_ex \<and> tza env_ex < msPerDay
            \<or> - msPerDay \<le> tza env_ex \<and> tza env_ex < 0
              \<and> WeekDay (20447 * msPerDay) \<noteq> 0 \<and> WeekDay (20447 * msPerDay) \<noteq> 6"
    by code_simp
  have z2: "0 \<le> tza env_leste \<and> tza env_leste < msPerDay
            \<or> - msPerDay \<le> tza env_leste \<and> tza env_leste < 0
              \<and> WeekDay (20449 * msPerDay) \<noteq> 0 \<and> WeekDay (20449 * msPerDay) \<noteq> 6"
    by code_simp
  have f1: "if WeekDay (20447 * msPerDay) = 6 then (21::int) < 10 \<or> 16 \<le> (21::int)
            else (21::int) < 9 \<or> 20 \<le> (21::int)"
    by (simp add: w)
  have f2: "if WeekDay (20449 * msPerDay) = 6 then (16::int) < 10 \<or> 16 \<le> (16::int)
            else (16::int) < 9 \<or> 20 \<le> (16::int)"
    by (simp add: w)
  note t1 = agendarServico_fora_do_expediente[of 21 0 env_ex 20447 "''Joao''" "''a@c.us''"
      bot_vazio, OF _ _ _ _ m1 z1 f1, unfolded i p w]
  note t2 = agendarServico_fora_do_expediente[of 16 30 env_leste 20449 "''Joao''" "''a@c.us''"
      bot_vazio, OF _ _ _ _ m2 z2 f2, unfolded i p w]
  have a: "agendarServico env_ex ''Joao'' ''2025-12-25'' ''21:00'' ''a@c.us'' bot_vazio =
           (Texto (txt_erro (txt_fora_expediente 9 20) @ txt_digite_data),
            modEstado ''a@c.us'' (\<lambda>st. st\<lparr>etapa := Some E_data\<rparr>) (getEstado env_ex ''a@c.us'' bot_vazio))"
    using t1 by simp
  have b: "agendarServico env_leste ''Joao'' ''2025-12-27'' ''16:30'' ''a@c.us'' bot_vazio =
           (Texto (txt_erro (txt_fora_expediente 10 16) @ txt_digite_data),
            modEstado ''a@c.us'' (\<lambda>st. st\<lparr>etapa := Some E_data\<rparr>) (getEstado env_leste ''a@c.us'' bot_vazio))"
    using t2 by simp
  show ?thesis unfolding a b using i w by simp
qed

theorem agendarServico_fora_do_expediente_counterexample:
  "validarHorario ''21:00'' \<and> foraDoExpediente env_ex ''2025-12-25'' ''21:00''
   \<and> fst (agendarServico env_ex ''Joao'' ''2025-12-25'' ''21:00'' ''a@c.us'' bot_vazio) =
           Texto (txt_erro (txt_fora_expediente 9 20) @ txt_digite_data)
   \<and> \<not> includes_str (txt_erro (txt_fora_expediente 9 20) @ txt_digite_data) txt_digite_horario
   \<and> etapaDe (snd (agendarServico env_ex ''Joao'' ''2025-12-25'' ''21:00'' ''a@c.us'' bot_vazio))
       ''a@c.us'' \<noteq> Some E_horario"
  by (intro conjI; code_simp)

text \<open>
  West of Greenwich \<open>getDay\<close> reads the day before off a date parsed as midnight UTC:
  three hours behind UTC, a booking for Saturday 27 December 2025 at 17:00 is made, and
  one for Sunday 28 December at 09:00 is refused with the hours of a Saturday.
\<close>

lemma agendarServico_sabado_a_oeste:
  "isoDate 20449 = ''2025-12-27'' \<and> WeekDay (20449 * msPerDay) = 6
   \<and> fst (agendarServico env_ex ''Joao'' ''2025-12-27'' ''17:00'' ''a@c.us'' bot_vazio) = Null
   \<and> map ag_hora (agendamentos (snd (agendarServico env_ex ''Joao'' ''2025-12-27'' ''17:00''
        ''a@c.us'' bot_vazio))) = [''17:00'']
   \<and> isoDate 20450 = ''2025-12-28'' \<and> WeekDay (20450 * msPerDay) = 0
   \<and> fst (agendarServico env_ex ''Joao'' ''2025-12-28'' ''09:00'' ''a@c.us'' bot_vazio)
       = Texto (txt_erro (txt_fora_expediente 10 16) @ txt_digite_data)"
  by (intro conjI; code_simp)





text \<open>
  The count that \<open>agendarServico\<close> compares with 3 is the number of all stored rows of
  the requester. Three bookings of October 2025, which are over on 2 November 2025, make
  it refuse a new booking with the limit-reached message, although the requester has no
  booking dated today or later.
\<close>

lemma agendarServico_conta_passados:
  "length (ativosDoSender env_ex ''a@c.us'' bot_passados) = 0
   \<and> passaValidacoes env_ex ''2025-12-25'' ''09:00''
   \<and> agendarServico env_ex ''Ana'' ''2025-12-25'' ''09:00'' ''a@c.us'' bot_passados =
       (Texto (txt_limite @ mostrarMenu), bot_passados)"
proof -
  have h1: "passaValidacoes env_ex ''2025-12-25'' ''09:00''" by code_simp
  have h2: "length (ativosDoSender env_ex ''a@c.us'' bot_passados) = 0" by code_simp
  have h3: "3 \<le> length (doSender ''a@c.us'' bot_passados)" by code_simp
  show ?thesis using h1 h2 h3 by (simp add: agendarServico_validado)
qed

text \<open>What a booking does to the table: nothing, or one new row for a slot that was free.\<close>

lemma agendarServico_tabela:
  "agendamentos (snd (agendarServico e nome dia hora sender s)) = agendamentos s
   \<or> (noHorario dia hora s = []
      \<and> fst (agendarServico e nome dia hora sender s) = Null
      \<and> agendamentos (snd (agendarServico e nome dia hora sender s)) =
          agendamentos s @ [\<lparr>ag_nome = nome, ag_data = dia, ag_hora = hora, ag_sender = sender,
                              ag_timestamp = toISOString (now e)\<rparr>])"
proof (cases "passaValidacoes e dia hora")
  case False
  then obtain m where "agendarServico e nome dia hora sender s = erroAgendar e sender m s"
    using agendarServico_erro by blast
  then show ?thesis by (simp add: erroAgendar_eq)
next
  case True
  show ?thesis
  proof (cases "find (\<lambda>a. ag_data a = dia \<and> ag_hora a = hora) (agendamentos s)")
    case None
    then have "noHorario dia hora s = []" by (simp add: find_noHorario)
    then show ?thesis using True None
      by (simp add: agendarServico_validado Let_def notificarAdmin_def sendMessage_def)
  next
    case (Some row)
    then show ?thesis using True by (simp add: agendarServico_validado)
  qed
qed

lemma noHorario_append:
  "agendamentos s' = agendamentos s @ [r] \<Longrightarrow>
   noHorario dia hora s' = noHorario dia hora s @ (if ag_data r = dia \<and> ag_hora r = hora then [r] else [])"
  by (simp add: noHorario_def)

lemma noHorario_cong: "agendamentos s' = agendamentos s \<Longrightarrow> noHorario dia hora s' = noHorario dia hora s"
  by (simp add: noHorario_def)

lemma doSender_append:
  "agendamentos s' = agendamentos s @ [r] \<Longrightarrow> ag_sender r \<noteq> sender \<Longrightarrow>
   doSender sender s' = doSender sender s"
  by (simp add: doSender_def)

text \<open>
  C1, as amended. Two requests for the same date and time, handled one after the other:
  whatever the state and the requests, the two together add at most one row for the
  slot, and none when the slot was taken. When the slot is free, the requesters differ,
  both requests pass the checks of the time, of the opening hours and of the past, and both
  requesters hold fewer than three bookings, the first request succeeds (\<open>null\<close> reply,
  its row stored), the second gets the conflict message with the prompt for the date, its
  step becomes the date entry, and it stores nothing: the slot holds exactly the row of
  the first.
\<close>

theorem agendarServico_mesmo_horario:
  fixes e1 e2 :: env
  defines "row1 \<equiv> \<lambda>e nome dia hora sender.
             \<lparr>ag_nome = nome, ag_data = dia, ag_hora = hora, ag_sender = sender,
              ag_timestamp = toISOString (now e)\<rparr>"
  shows "length (noHorario dia hora
            (snd (agendarServico e2 nome2 dia hora sender2
                   (snd (agendarServico e1 nome1 dia hora sender1 s)))))
           \<le> max 1 (length (noHorario dia hora s))
         \<and> (sender1 \<noteq> sender2 \<and> passaValidacoes e1 dia hora \<and> passaValidacoes e2 dia hora
             \<and> length (doSender sender1 s) < 3 \<and> length (doSender sender2 s) < 3
             \<and> noHorario dia hora s = [] \<longrightarrow>
            fst (agendarServico e1 nome1 dia hora sender1 s) = Null
            \<and> agendamentos (snd (agendarServico e1 nome1 dia hora sender1 s)) =
                agendamentos s @ [row1 e1 nome1 dia hora sender1]
            \<and> fst (agendarServico e2 nome2 dia hora sender2
                     (snd (agendarServico e1 nome1 dia hora sender1 s))) =
                Texto (txt_ja_agendado @ txt_digite_data)
            \<and> etapaDe (snd (agendarServico e2 nome2 dia hora sender2
                     (snd (agendarServico e1 nome1 dia hora sender1 s)))) sender2 = Some E_data
            \<and> agendamentos (snd (agendarServico e2 nome2 dia hora sender2
                     (snd (agendarServico e1 nome1 dia hora sender1 s)))) =
                agendamentos s @ [row1 e1 nome1 dia hora sender1]
            \<and> noHorario dia hora (snd (agendarServico e2 nome2 dia hora sender2
                     (snd (agendarServico e1 nome1 dia hora sender1 s)))) =
                [row1 e1 nome1 dia hora sender1])"
proof (intro conjI impI)
  define s1 where "s1 = snd (agendarServico e1 nome1 dia hora sender1 s)"
  define s2 where "s2 = snd (agendarServico e2 nome2 dia hora sender2 s1)"
  have t1: "agendamentos s1 = agendamentos s
            \<or> (noHorario dia hora s = []
               \<and> agendamentos s1 = agendamentos s @ [row1 e1 nome1 dia hora sender1])"
    using agendarServico_tabela[of e1 nome1 dia hora sender1 s] by (auto simp: s1_def row1_def)
  have t2: "agendamentos s2 = agendamentos s1
            \<or> (noHorario dia hora s1 = []
               \<and> agendamentos s2 = agendamentos s1 @ [row1 e2 nome2 dia hora sender2])"
    using agendarServico_tabela[of e2 nome2 dia hora sender2 s1] by (auto simp: s2_def row1_def)
  have r: "\<And>e nome sender. ag_data (row1 e nome dia hora sender) = dia
                \<and> ag_hora (row1 e nome dia hora sender) = hora"
    by (simp add: row1_def)
  have "length (noHorario dia hora s2) \<le> max 1 (length (noHorario dia hora s))"
  proof -
    from t1 show ?thesis
    proof
      assume a1: "agendamentos s1 = agendamentos s"
      from t2 show ?thesis
      proof
        assume "agendamentos s2 = agendamentos s1"
        then show ?thesis using a1 noHorario_cong[of s2 s dia hora] by simp
      next
        assume a2: "noHorario dia hora s1 = []
                    \<and> agendamentos s2 = agendamentos s1 @ [row1 e2 nome2 dia hora sender2]"
        then show ?thesis using noHorario_append[of s2 s1 _ dia hora] r by simp
      qed
    next
      assume a1: "noHorario dia hora s = []
                  \<and> agendamentos s1 = agendamentos s @ [row1 e1 nome1 dia hora sender1]"
      then have n1: "noHorario dia hora s1 = [row1 e1 nome1 dia hora sender1]"
        using noHorario_append[of s1 s _ dia hora] r by simp
      from t2 show ?thesis
      proof
        assume "agendamentos s2 = agendamentos s1"
        then show ?thesis using n1 noHorario_cong[of s2 s1 dia hora] by simp
      next
        assume "noHorario dia hora s1 = []
                \<and> agendamentos s2 = agendamentos s1 @ [row1 e2 nome2 dia hora sender2]"
        then show ?thesis using n1 by simp
      qed
    qed
  qed
  then show "length (noHorario dia hora
            (snd (agendarServico e2 nome2 dia hora sender2
                   (snd (agendarServico e1 nome1 dia hora sender1 s)))))
           \<le> max 1 (length (noHorario dia hora s))"
    by (simp add: s1_def s2_def)
next
  assume h: "sender1 \<noteq> sender2 \<and> passaValidacoes e1 dia hora \<and> passaValidacoes e2 dia hora
             \<and> length (doSender sender1 s) < 3 \<and> length (doSender sender2 s) < 3
             \<and> noHorario dia hora s = []"
  define s1 where "s1 = snd (agendarServico e1 nome1 dia hora sender1 s)"
  have f0: "find (\<lambda>a. ag_data a = dia \<and> ag_hora a = hora) (agendamentos s) = None"
    using h by (simp add: find_noHorario)
  have a1: "agendarServico e1 nome1 dia hora sender1 s =
      (Null,
       (sendMessage sender1 (txt_confirmado (variante e1) nome1 dia hora)
          (sendMessage sender1
             (listarAgendamentosDia e1 sender1 (Some dia)
                (notificarAdmin e1 (''Novo agendamento: '' @ nome1 @ '', '' @ dia @ '', '' @ hora)
                   (s\<lparr>agendamentos := agendamentos s @ [row1 e1 nome1 dia hora sender1]\<rparr>)))
             (notificarAdmin e1 (''Novo agendamento: '' @ nome1 @ '', '' @ dia @ '', '' @ hora)
                (s\<lparr>agendamentos := agendamentos s @ [row1 e1 nome1 dia hora sender1]\<rparr>))))
         \<lparr>ultimoAgendamento := Some (sender1, now e1)\<rparr>)"
    using h f0 by (simp add: agendarServico_validado Let_def row1_def)
  show r1: "fst (agendarServico e1 nome1 dia hora sender1 s) = Null" by (simp add: a1)
  show t1: "agendamentos (snd (agendarServico e1 nome1 dia hora sender1 s)) =
          agendamentos s @ [row1 e1 nome1 dia hora sender1]"
    by (simp add: a1 notificarAdmin_def sendMessage_def)
  have t1': "agendamentos s1 = agendamentos s @ [row1 e1 nome1 dia hora sender1]"
    using t1 by (simp add: s1_def)
  have rs: "ag_sender (row1 e1 nome1 dia hora sender1) = sender1"
    "ag_data (row1 e1 nome1 dia hora sender1) = dia" "ag_hora (row1 e1 nome1 dia hora sender1) = hora"
    by (simp_all add: row1_def)
  have d2: "doSender sender2 s1 = doSender sender2 s"
    using doSender_append[OF t1', of sender2] rs h by simp
  have n1: "noHorario dia hora s1 = [row1 e1 nome1 dia hora sender1]"
    using noHorario_append[OF t1', of dia hora] rs h by simp
  then obtain row where f1: "find (\<lambda>a. ag_data a = dia \<and> ag_hora a = hora) (agendamentos s1) = Some row"
    using find_noHorario[of dia hora s1] by (cases "find (\<lambda>a. ag_data a = dia \<and> ag_hora a = hora) (agendamentos s1)") auto
  have a2: "agendarServico e2 nome2 dia hora sender2 s1 =
      (Texto (txt_ja_agendado @ txt_digite_data),
       modEstado sender2 (\<lambda>st. st\<lparr>etapa := Some E_data\<rparr>) (getEstado e2 sender2 s1))"
    using h d2 f1 by (simp add: agendarServico_validado)
  show "fst (agendarServico e2 nome2 dia hora sender2
                     (snd (agendarServico e1 nome1 dia hora sender1 s))) =
                Texto (txt_ja_agendado @ txt_digite_data)"
    using a2 by (simp add: s1_def)
  show "etapaDe (snd (agendarServico e2 nome2 dia hora sender2
                     (snd (agendarServico e1 nome1 dia hora sender1 s)))) sender2 = Some E_data"
    using a2 by (simp add: s1_def)
  show t2: "agendamentos (snd (agendarServico e2 nome2 dia hora sender2
                     (snd (agendarServico e1 nome1 dia hora sender1 s)))) =
                agendamentos s @ [row1 e1 nome1 dia hora sender1]"
    using a2 t1' by (simp add: s1_def)
  show "noHorario dia hora (snd (agendarServico e2 nome2 dia hora sender2
                     (snd (agendarServico e1 nome1 dia hora sender1 s)))) =
                [row1 e1 nome1 dia hora sender1]"
    using n1 noHorario_cong[of "snd (agendarServico e2 nome2 dia hora sender2 s1)" s1 dia hora] a2
    by (simp add: s1_def)
qed

theorem agendarServico_mesmo_horario_witness:
  "''a@c.us'' \<noteq> ''b@c.us'' \<and> passaValidacoes env_ex ''2025-12-25'' ''09:00''
   \<and> length (doSender ''a@c.us'' bot_vazio) < 3 \<and> length (doSender ''b@c.us'' bot_vazio) < 3
   \<and> noHorario ''2025-12-25'' ''09:00'' bot_vazio = []
   \<and> fst (agendarServico env_ex ''Ana'' ''2025-12-25'' ''09:00'' ''a@c.us'' bot_vazio) = Null
   \<and> fst (agendarServico env_ex ''Bia'' ''2025-12-25'' ''09:00'' ''b@c.us''
            (snd (agendarServico env_ex ''Ana'' ''2025-12-25'' ''09:00'' ''a@c.us'' bot_vazio))) =
       Texto (txt_ja_agendado @ txt_digite_data)
   \<and> etapaDe (snd (agendarServico env_ex ''Bia'' ''2025-12-25'' ''09:00'' ''b@c.us''
            (snd (agendarServico env_ex ''Ana'' ''2025-12-25'' ''09:00'' ''a@c.us'' bot_vazio))))
         ''b@c.us'' = Some E_data
   \<and> noHorario ''2025-12-25'' ''09:00''
         (snd (agendarServico env_ex ''Bia'' ''2025-12-25'' ''09:00'' ''b@c.us''
            (snd (agendarServico env_ex ''Ana'' ''2025-12-25'' ''09:00'' ''a@c.us'' bot_vazio)))) =
       [\<lparr>ag_nome = ''Ana'', ag_data = ''2025-12-25'', ag_hora = ''09:00'', ag_sender = ''a@c.us'',
         ag_timestamp = toISOString (now env_ex)\<rparr>]"
proof -
  have h1: "''a@c.us'' \<noteq> ''b@c.us''" by simp
  have h2: "passaValidacoes env_ex ''2025-12-25'' ''09:00''" by code_simp
  have h3: "length (doSender ''a@c.us'' bot_vazio) < 3" by code_simp
  have h4: "length (doSender ''b@c.us'' bot_vazio) < 3" by code_simp
  have h5: "noHorario ''2025-12-25'' ''09:00'' bot_vazio = []" by code_simp
  show ?thesis
    using agendarServico_mesmo_horario[of "''2025-12-25''" "''09:00''" env_ex "''Bia''" "''b@c.us''"
        env_ex "''Ana''" "''a@c.us''" bot_vazio] h1 h2 h3 h4 h5
    by blast
qed

theorem agendarServico_mesmo_horario_counterexample:
  "''a@c.us'' \<noteq> ''b@c.us'' \<and> passaValidacoes env_ex ''2025-12-25'' ''09:00''
   \<and> fst (agendarServico env_ex ''Ana'' ''2025-12-25'' ''09:00'' ''a@c.us'' bot_ocupado) =
       Texto (txt_ja_agendado @ txt_digite_data)
   \<and> fst (agendarServico env_ex ''Bia'' ''2025-12-25'' ''09:00'' ''b@c.us''
            (snd (agendarServico env_ex ''Ana'' ''2025-12-25'' ''09:00'' ''a@c.us'' bot_ocupado))) =
       Texto (txt_ja_agendado @ txt_digite_data)
   \<and> agendamentos (snd (agendarServico env_ex ''Bia'' ''2025-12-25'' ''09:00'' ''b@c.us''
            (snd (agendarServico env_ex ''Ana'' ''2025-12-25'' ''09:00'' ''a@c.us'' bot_ocupado)))) =
       agendamentos bot_ocupado"
  by (intro conjI; code_simp)

section \<open>Properties of the cancellation\<close>

lemma find_primeiro:
  assumes "xs = antes @ a # depois" "P a" "\<forall>x\<in>set antes. \<not> P x"
  shows "find P xs = Some a" "deleteOne P xs = antes @ depois"
    "filter (\<lambda>x. \<not> P x) xs = antes @ filter (\<lambda>x. \<not> P x) depois"
  using assms by (induction antes arbitrary: xs) auto

text \<open>
  C5. Cancelling a (name, date, time) that no row matches exactly answers the not-found
  message and leaves the whole state unchanged. When a row matches, the first such row is
  deleted (the SQLite variant also deletes any later duplicate of it), a cancellation with
  the reason \<open>Cancelado pelo usuario\<close> is appended, the administrator is sent the notice,
  and the answer is the success message with the menu; nothing else changes. The match is
  equality of strings, so a name in another case does not match.
\<close>

theorem cancelarServico_contrato:
  "((\<forall>a\<in>set (agendamentos s). \<not> (ag_nome a = nome \<and> ag_data a = dia \<and> ag_hora a = hora)) \<longrightarrow>
      cancelarServico e nome dia hora s = (Texto (txt_nao_encontrado @ mostrarMenu), s))
   \<and> (\<forall>antes a depois.
        agendamentos s = antes @ a # depois
        \<and> ag_nome a = nome \<and> ag_data a = dia \<and> ag_hora a = hora
        \<and> (\<forall>x\<in>set antes. \<not> (ag_nome x = nome \<and> ag_data x = dia \<and> ag_hora x = hora)) \<longrightarrow>
        cancelarServico e nome dia hora s =
          (Texto (txt_cancelado @ mostrarMenu),
           s\<lparr>agendamentos :=
                antes @ (case variante e of
                           SQLite \<Rightarrow> filter (\<lambda>x. \<not> (ag_nome x = nome \<and> ag_data x = dia
                                                    \<and> ag_hora x = hora)) depois
                         | MongoDB \<Rightarrow> depois),
              cancelamentos := cancelamentos s @
                [\<lparr>ca_nome = nome, ca_data = dia, ca_hora = hora, ca_motivo = txt_motivo,
                  ca_timestamp = toISOString (now e)\<rparr>],
              enviadas := enviadas s @
                [(ADMIN_PHONE e, ''Cancelamento: '' @ nome @ '', '' @ dia @ '', '' @ hora)]\<rparr>))
   \<and> ((\<exists>a\<in>set (agendamentos s). ag_nome a = nome \<and> ag_data a = dia \<and> ag_hora a = hora) \<longrightarrow>
        (\<exists>antes a depois.
           agendamentos s = antes @ a # depois
           \<and> ag_nome a = nome \<and> ag_data a = dia \<and> ag_hora a = hora
           \<and> (\<forall>x\<in>set antes. \<not> (ag_nome x = nome \<and> ag_data x = dia \<and> ag_hora x = hora))))
   \<and> txt_nao_encontrado @ mostrarMenu \<noteq> txt_cancelado @ mostrarMenu"
proof (intro conjI allI impI)
  assume "\<forall>a\<in>set (agendamentos s). \<not> (ag_nome a = nome \<and> ag_data a = dia \<and> ag_hora a = hora)"
  then have "find (\<lambda>a. ag_nome a = nome \<and> ag_data a = dia \<and> ag_hora a = hora) (agendamentos s) = None"
    by (simp add: find_None_iff)
  then show "cancelarServico e nome dia hora s = (Texto (txt_nao_encontrado @ mostrarMenu), s)"
    by (simp add: cancelarServico_def)
next
  fix antes a depois
  assume h: "agendamentos s = antes @ a # depois
        \<and> ag_nome a = nome \<and> ag_data a = dia \<and> ag_hora a = hora
        \<and> (\<forall>x\<in>set antes. \<not> (ag_nome x = nome \<and> ag_data x = dia \<and> ag_hora x = hora))"
  let ?P = "\<lambda>a. ag_nome a = nome \<and> ag_data a = dia \<and> ag_hora a = hora"
  have f: "find ?P (agendamentos s) = Some a" "deleteOne ?P (agendamentos s) = antes @ depois"
    "filter (\<lambda>x. \<not> ?P x) (agendamentos s) = antes @ filter (\<lambda>x. \<not> ?P x) depois"
    using find_primeiro[of "agendamentos s" antes a depois ?P] h by blast+
  show "cancelarServico e nome dia hora s =
          (Texto (txt_cancelado @ mostrarMenu),
           s\<lparr>agendamentos :=
                antes @ (case variante e of
                           SQLite \<Rightarrow> filter (\<lambda>x. \<not> (ag_nome x = nome \<and> ag_data x = dia
                                                    \<and> ag_hora x = hora)) depois
                         | MongoDB \<Rightarrow> depois),
              cancelamentos := cancelamentos s @
                [\<lparr>ca_nome = nome, ca_data = dia, ca_hora = hora, ca_motivo = txt_motivo,
                  ca_timestamp = toISOString (now e)\<rparr>],
              enviadas := enviadas s @
                [(ADMIN_PHONE e, ''Cancelamento: '' @ nome @ '', '' @ dia @ '', '' @ hora)]\<rparr>)"
    using f by (cases "variante e")
      (simp_all add: cancelarServico_def Let_def notificarAdmin_def sendMessage_def)
next
  assume "\<exists>a\<in>set (agendamentos s). ag_nome a = nome \<and> ag_data a = dia \<and> ag_hora a = hora"
  then show "\<exists>antes a depois.
           agendamentos s = antes @ a # depois
           \<and> ag_nome a = nome \<and> ag_data a = dia \<and> ag_hora a = hora
           \<and> (\<forall>x\<in>set antes. \<not> (ag_nome x = nome \<and> ag_data x = dia \<and> ag_hora x = hora))"
    using split_list_first_prop[of "agendamentos s"
        "\<lambda>a. ag_nome a = nome \<and> ag_data a = dia \<and> ag_hora a = hora"]
    by blast
next
  show "txt_nao_encontrado @ mostrarMenu \<noteq> txt_cancelado @ mostrarMenu"
    by (simp add: txt_nao_encontrado_def txt_cancelado_def)
qed

theorem cancelarServico_contrato_witness:
  "cancelarServico env_ex ''carlos'' ''2025-12-25'' ''09:00'' bot_ocupado =
       (Texto (txt_nao_encontrado @ mostrarMenu), bot_ocupado)
   \<and> agendamentos bot_ocupado = [] @ linha ''Carlos'' ''2025-12-25'' ''09:00'' ''c@c.us'' # []
   \<and> cancelarServico env_ex ''Carlos'' ''2025-12-25'' ''09:00'' bot_ocupado =
       (Texto (txt_cancelado @ mostrarMenu),
        bot_ocupado\<lparr>agendamentos := [],
           cancelamentos :=
             [\<lparr>ca_nome = ''Carlos'', ca_data = ''2025-12-25'', ca_hora = ''09:00'',
               ca_motivo = txt_motivo, ca_timestamp = toISOString (now env_ex)\<rparr>],
           enviadas := [(ADMIN_PHONE env_ex, ''Cancelamento: Carlos, 2025-12-25, 09:00'')]\<rparr>)"
proof -
  have h1: "\<forall>a\<in>set (agendamentos bot_ocupado).
       \<not> (ag_nome a = ''carlos'' \<and> ag_data a = ''2025-12-25'' \<and> ag_hora a = ''09:00'')"
    by (simp add: bot_ocupado_def linha_def)
  have h2: "agendamentos bot_ocupado = [] @ linha ''Carlos'' ''2025-12-25'' ''09:00'' ''c@c.us'' # []"
    by (simp add: bot_ocupado_def)
  have h3: "agendamentos bot_ocupado = [] @ linha ''Carlos'' ''2025-12-25'' ''09:00'' ''c@c.us'' # []
     \<and> ag_nome (linha ''Carlos'' ''2025-12-25'' ''09:00'' ''c@c.us'') = ''Carlos''
     \<and> ag_data (linha ''Carlos'' ''2025-12-25'' ''09:00'' ''c@c.us'') = ''2025-12-25''
     \<and> ag_hora (linha ''Carlos'' ''2025-12-25'' ''09:00'' ''c@c.us'') = ''09:00''
     \<and> (\<forall>x\<in>set []. \<not> (ag_nome x = ''Carlos'' \<and> ag_data x = ''2025-12-25'' \<and> ag_hora x = ''09:00''))"
    by (simp add: linha_def bot_ocupado_def)
  have h4: "cancelamentos bot_ocupado = []" "enviadas bot_ocupado = []"
    by (simp_all add: bot_ocupado_def bot_vazio_def)
  have c1: "cancelarServico env_ex ''carlos'' ''2025-12-25'' ''09:00'' bot_ocupado =
       (Texto (txt_nao_encontrado @ mostrarMenu), bot_ocupado)"
    using cancelarServico_contrato[THEN conjunct1, rule_format,
        of bot_ocupado "''carlos''" "''2025-12-25''" "''09:00''" env_ex] h1
    by simp
  have v: "variante env_ex = MongoDB" by (simp add: env_ex_def)
  have "cancelarServico env_ex ''Carlos'' ''2025-12-25'' ''09:00'' bot_ocupado =
       (Texto (txt_cancelado @ mostrarMenu),
        bot_ocupado\<lparr>agendamentos :=
                [] @ (case variante env_ex of
                           SQLite \<Rightarrow> filter (\<lambda>x. \<not> (ag_nome x = ''Carlos'' \<and> ag_data x = ''2025-12-25''
                                                    \<and> ag_hora x = ''09:00'')) []
                         | MongoDB \<Rightarrow> []),
              cancelamentos := cancelamentos bot_ocupado @
                [\<lparr>ca_nome = ''Carlos'', ca_data = ''2025-12-25'', ca_hora = ''09:00'', ca_motivo = txt_motivo,
                  ca_timestamp = toISOString (now env_ex)\<rparr>],
              enviadas := enviadas bot_ocupado @
                [(ADMIN_PHONE env_ex, ''Cancelamento: '' @ ''Carlos'' @ '', '' @ ''2025-12-25'' @ '', '' @ ''09:00'')]\<rparr>)"
    by (rule cancelarServico_contrato[THEN conjunct2, THEN conjunct1, rule_format, OF h3])
  then have c2: "cancelarServico env_ex ''Carlos'' ''2025-12-25'' ''09:00'' bot_ocupado =
       (Texto (txt_cancelado @ mostrarMenu),
        bot_ocupado\<lparr>agendamentos := [],
           cancelamentos :=
             [\<lparr>ca_nome = ''Carlos'', ca_data = ''2025-12-25'', ca_hora = ''09:00'',
               ca_motivo = txt_motivo, ca_timestamp = toISOString (now env_ex)\<rparr>],
           enviadas := [(ADMIN_PHONE env_ex, ''Cancelamento: Carlos, 2025-12-25, 09:00'')]\<rparr>)"
    by (simp add: v h4)
  show ?thesis using c1 h2 c2 by (intro conjI)
qed

section \<open>Properties of the marker of a recent booking\<close>

lemma registrarContato_campos [simp]:
  "ultimoAgendamento (registrarContato e sender s) = ultimoAgendamento s"
  "agendamentos (registrarContato e sender s) = agendamentos s"
  "cancelamentos (registrarContato e sender s) = cancelamentos s"
  "feedbacks (registrarContato e sender s) = feedbacks s"
  "conversasChocolate (registrarContato e sender s) = conversasChocolate s"
  "enviadas (registrarContato e sender s) = enviadas s"
  by (simp_all add: registrarContato_def modEstado_def getEstado_def split: option.splits)

lemma agendarServico_Null:
  assumes "fst (agendarServico e nome dia hora sender s) = Null"
  shows "ultimoAgendamento (snd (agendarServico e nome dia hora sender s)) = Some (sender, now e)"
  using assms unfolding agendarServico_alt
  by (simp add: erroAgendar_eq Let_def split: if_splits option.splits)

lemma agendarServico_conversas:
  "conversasChocolate (snd (agendarServico e nome dia hora sender s)) = conversasChocolate s"
  unfolding agendarServico_alt
  by (simp add: erroAgendar_eq Let_def modEstado_def getEstado_def notificarAdmin_def
      sendMessage_def split: option.splits)

text \<open>
  C6. A booking that succeeds (\<open>null\<close> reply) leaves the marker \<open>ultimoAgendamento\<close>
  at its requester and the time of the booking. With the marker at a requester, a message
  of that requester less than 60 seconds later is answered with the bare menu, changes
  nothing but the requester's \<open>ultimoContato\<close>, and clears the marker, so that the next
  message of the requester, whatever and whenever, goes through the normal routing. A
  message of another requester goes through the normal routing while the marker stands.
\<close>

theorem ultimoAgendamento_uma_vez:
  "(fst (agendarServico e0 nome dia hora sender s0) = Null \<longrightarrow>
      ultimoAgendamento (snd (agendarServico e0 nome dia hora sender s0)) = Some (sender, now e0))
   \<and> (endsWith sender ''@c.us'' \<and> ultimoAgendamento s = Some (sender, t0) \<and> now e - t0 < 60000 \<longrightarrow>
        processarMensagem e mensagem sender s =
          (Texto mostrarMenu, (registrarContato e sender s)\<lparr>ultimoAgendamento := None\<rparr>)
        \<and> (\<forall>e' mensagem'.
              processarMensagem e' mensagem' sender
                ((registrarContato e sender s)\<lparr>ultimoAgendamento := None\<rparr>) =
              rotear e' mensagem' sender
                (registrarContato e' sender
                   ((registrarContato e sender s)\<lparr>ultimoAgendamento := None\<rparr>))))
   \<and> (endsWith outro ''@c.us'' \<and> ultimoAgendamento s = Some (sender, t0) \<and> outro \<noteq> sender \<longrightarrow>
        processarMensagem e mensagem outro s = rotear e mensagem outro (registrarContato e outro s))"
proof (intro conjI impI allI)
  assume "fst (agendarServico e0 nome dia hora sender s0) = Null"
  then show "ultimoAgendamento (snd (agendarServico e0 nome dia hora sender s0)) = Some (sender, now e0)"
    by (rule agendarServico_Null)
next
  assume h: "endsWith sender ''@c.us'' \<and> ultimoAgendamento s = Some (sender, t0) \<and> now e - t0 < 60000"
  then show "processarMensagem e mensagem sender s =
          (Texto mostrarMenu, (registrarContato e sender s)\<lparr>ultimoAgendamento := None\<rparr>)"
    by (simp add: processarMensagem_def recemAgendou_def Let_def)
  fix e' mensagem'
  have "ultimoAgendamento (registrarContato e' sender
          ((registrarContato e sender s)\<lparr>ultimoAgendamento := None\<rparr>)) = None"
    by simp
  then show "processarMensagem e' mensagem' sender
                ((registrarContato e sender s)\<lparr>ultimoAgendamento := None\<rparr>) =
              rotear e' mensagem' sender
                (registrarContato e' sender
                   ((registrarContato e sender s)\<lparr>ultimoAgendamento := None\<rparr>))"
    using h by (simp add: processarMensagem_def recemAgendou_def Let_def)
next
  assume h: "endsWith outro ''@c.us'' \<and> ultimoAgendamento s = Some (sender, t0) \<and> outro \<noteq> sender"
  then show "processarMensagem e mensagem outro s = rotear e mensagem outro (registrarContato e outro s)"
    by (auto simp: processarMensagem_def recemAgendou_def Let_def)
qed

theorem ultimoAgendamento_uma_vez_witness:
  "fst (agendarServico env_ex ''Ana'' ''2025-12-25'' ''09:00'' ''a@c.us'' bot_vazio) = Null
   \<and> endsWith ''a@c.us'' ''@c.us'' \<and> endsWith ''b@c.us'' ''@c.us'' \<and> ''b@c.us'' \<noteq> ''a@c.us''
   \<and> ultimoAgendamento (snd (agendarServico env_ex ''Ana'' ''2025-12-25'' ''09:00'' ''a@c.us'' bot_vazio))
       = Some (''a@c.us'', now env_ex)
   \<and> now env_depois - now env_ex < 60000
   \<and> fst (processarMensagem env_depois ''1'' ''a@c.us''
            (snd (agendarServico env_ex ''Ana'' ''2025-12-25'' ''09:00'' ''a@c.us'' bot_vazio)))
       = Texto mostrarMenu
   \<and> fst (processarMensagem env_depois ''1'' ''a@c.us''
            (snd (processarMensagem env_depois ''1'' ''a@c.us''
               (snd (agendarServico env_ex ''Ana'' ''2025-12-25'' ''09:00'' ''a@c.us'' bot_vazio)))))
       = Texto txt_digite_data
   \<and> fst (processarMensagem env_depois ''1'' ''b@c.us''
            (snd (agendarServico env_ex ''Ana'' ''2025-12-25'' ''09:00'' ''a@c.us'' bot_vazio)))
       = Texto txt_digite_data"
proof -
  let ?s = "snd (agendarServico env_ex ''Ana'' ''2025-12-25'' ''09:00'' ''a@c.us'' bot_vazio)"
  have h0: "fst (agendarServico env_ex ''Ana'' ''2025-12-25'' ''09:00'' ''a@c.us'' bot_vazio) = Null"
    by code_simp
  have h1: "endsWith ''a@c.us'' ''@c.us''" "endsWith ''b@c.us'' ''@c.us''" "''b@c.us'' \<noteq> ''a@c.us''"
    by (simp_all add: endsWith_def)
  have h2: "now env_depois - now env_ex < 60000" by (simp add: env_depois_def env_ex_def)
  note t = ultimoAgendamento_uma_vez[of env_ex "''Ana''" "''2025-12-25''" "''09:00''" "''a@c.us''"
      bot_vazio ?s "now env_ex" env_depois "''1''" "''b@c.us''"]
  have m: "ultimoAgendamento ?s = Some (''a@c.us'', now env_ex)"
    using t h0 by blast
  have a: "processarMensagem env_depois ''1'' ''a@c.us'' ?s =
          (Texto mostrarMenu, (registrarContato env_depois ''a@c.us'' ?s)\<lparr>ultimoAgendamento := None\<rparr>)"
    using t h1 m h2 by blast
  have b: "processarMensagem env_depois ''1'' ''a@c.us''
             ((registrarContato env_depois ''a@c.us'' ?s)\<lparr>ultimoAgendamento := None\<rparr>) =
           rotear env_depois ''1'' ''a@c.us''
             (registrarContato env_depois ''a@c.us''
                ((registrarContato env_depois ''a@c.us'' ?s)\<lparr>ultimoAgendamento := None\<rparr>))"
    using t h1 m h2 by blast
  have c: "processarMensagem env_depois ''1'' ''b@c.us'' ?s =
           rotear env_depois ''1'' ''b@c.us'' (registrarContato env_depois ''b@c.us'' ?s)"
    using t h1 m by blast
  have tr: "trim ''1'' = ''1''" "minuscula CHR ''1'' = CHR ''1''" by code_simp+
  have r: "\<And>x. conversasChocolate x ''a@c.us'' = None \<Longrightarrow>
             fst (rotear env_depois ''1'' ''a@c.us'' x) = Texto txt_digite_data"
          "\<And>x. conversasChocolate x ''b@c.us'' = None \<Longrightarrow>
             fst (rotear env_depois ''1'' ''b@c.us'' x) = Texto txt_digite_data"
    by (simp_all add: rotear_def Let_def tr)
  have cc: "conversasChocolate ?s ''a@c.us'' = None" "conversasChocolate ?s ''b@c.us'' = None"
    by (simp_all add: agendarServico_conversas bot_vazio_def)
  show ?thesis
    using h0 h1 m h2 a b c r[of "registrarContato env_depois ''a@c.us''
                ((registrarContato env_depois ''a@c.us'' ?s)\<lparr>ultimoAgendamento := None\<rparr>)"]
      r(2)[of "registrarContato env_depois ''b@c.us'' ?s"] cc
    by simp
qed

section \<open>Properties of the listing\<close>

lemma find_filter: "find P (filter Q xs) = find (\<lambda>a. Q a \<and> P a) xs"
  by (induction xs) auto

text \<open>Without the name, the status of a slot says only whether some row has its time.\<close>

lemma statusHorario_sem_nome:
  "statusHorario rows False horaStr =
     (if horaStr \<in> ag_hora ` set rows then emoji_despertador @ '' (agendado)''
      else emoji_check @ '' (dispon'' @ i_agudo @ ''vel)'')"
proof (cases "find (\<lambda>a. ag_hora a = horaStr) rows")
  case None
  then have "horaStr \<notin> ag_hora ` set rows" by (auto simp: find_None_iff)
  then show ?thesis using None by (simp add: statusHorario_def)
next
  case (Some a)
  then have "horaStr \<in> ag_hora ` set rows" by (auto simp: find_Some_iff)
  then show ?thesis using Some by (simp add: statusHorario_def)
qed

text \<open>The times of the lines of a listing do not depend on the rows.\<close>

lemma horariosLoop_horas:
  "\<exists>horas. \<forall>rows isAdmin.
      horariosLoop e rows isAdmin currentTime fimTime =
        map (\<lambda>h. h @ '' '' @ statusHorario rows isAdmin h) horas"
proof (induction e "[] :: agendamento list" False currentTime fimTime rule: horariosLoop.induct)
  case (1 e currentTime fimTime)
  show ?case
  proof (cases "date_lt currentTime fimTime")
    case False
    then have "\<forall>rows isAdmin. horariosLoop e rows isAdmin currentTime fimTime =
        map (\<lambda>h. h @ '' '' @ statusHorario rows isAdmin h) []"
      by (simp add: horariosLoop.simps[of e _ _ currentTime fimTime])
    then show ?thesis by blast
  next
    case True
    then obtain horas where h: "\<forall>rows isAdmin.
      horariosLoop e rows isAdmin (setMinutes30 currentTime) fimTime =
        map (\<lambda>h. h @ '' '' @ statusHorario rows isAdmin h) horas"
      using 1 by blast
    have "\<forall>rows isAdmin. horariosLoop e rows isAdmin currentTime fimTime =
        map (\<lambda>h. h @ '' '' @ statusHorario rows isAdmin h) (toTimeString5 e currentTime # horas)"
      using True h by (simp add: horariosLoop.simps[of e _ _ currentTime fimTime] Let_def)
    then show ?thesis by blast
  qed
qed


lemma listarAgendamentosDia_forma:
  fixes e :: env and dia :: "string option"
  defines "hoje \<equiv> (case dia of None \<Rightarrow> isoDia (now e)
                     | Some d \<Rightarrow> if d = [] then isoDia (now e) else d)"
  shows "\<exists>horas.
      (\<forall>s. listarAgendamentosDia e (ADMIN_PHONE e) dia s =
            join nl (map (\<lambda>h. h @ '' '' @
                (case find (\<lambda>a. ag_data a = hoje \<and> ag_hora a = h) (agendamentos s) of
                   Some a \<Rightarrow> emoji_despertador @ '' (agendado - '' @ ag_nome a @ '')''
                 | None \<Rightarrow> emoji_check @ '' (dispon'' @ i_agudo @ ''vel)'')) horas)
            @ nl @ nl @ mostrarMenu)
      \<and> (\<forall>s sender. sender \<noteq> ADMIN_PHONE e \<longrightarrow>
            listarAgendamentosDia e sender dia s =
            join nl (map (\<lambda>h. h @ '' '' @
                (if \<exists>a\<in>set (agendamentos s). ag_data a = hoje \<and> ag_hora a = h
                 then emoji_despertador @ '' (agendado)''
                 else emoji_check @ '' (dispon'' @ i_agudo @ ''vel)'')) horas)
            @ nl @ nl @ mostrarMenu)"
proof -
  obtain horas where h: "\<And>rows isAdmin.
      horariosLoop e rows isAdmin
        (Date_parse e (hoje @ ''T'' @ padStart 2 (CHR ''0'')
           (numStr (fst (expediente (getDay e (Date_parse e hoje))))) @ '':00:00''))
        (Date_parse e (hoje @ ''T'' @ padStart 2 (CHR ''0'')
           (numStr (snd (expediente (getDay e (Date_parse e hoje))))) @ '':00:00'')) =
        map (\<lambda>h. h @ '' '' @ statusHorario rows isAdmin h) horas"
    using horariosLoop_horas[of e
        "Date_parse e (hoje @ ''T'' @ padStart 2 (CHR ''0'')
           (numStr (fst (expediente (getDay e (Date_parse e hoje))))) @ '':00:00'')"
        "Date_parse e (hoje @ ''T'' @ padStart 2 (CHR ''0'')
           (numStr (snd (expediente (getDay e (Date_parse e hoje))))) @ '':00:00'')"]
    by auto
  have l: "\<And>sender s. listarAgendamentosDia e sender dia s =
     join nl (map (\<lambda>h. h @ '' '' @
        statusHorario (filter (\<lambda>a. ag_data a = hoje) (agendamentos s)) (sender = ADMIN_PHONE e) h)
        horas) @ nl @ nl @ mostrarMenu"
    unfolding listarAgendamentosDia_def Let_def case_prod_beta hoje_def[symmetric]
    by (simp only: h)
  have a: "\<And>s h. statusHorario (filter (\<lambda>a. ag_data a = hoje) (agendamentos s)) True h =
       (case find (\<lambda>a. ag_data a = hoje \<and> ag_hora a = h) (agendamentos s) of
                   Some a \<Rightarrow> emoji_despertador @ '' (agendado - '' @ ag_nome a @ '')''
                 | None \<Rightarrow> emoji_check @ '' (dispon'' @ i_agudo @ ''vel)'')"
    by (simp add: statusHorario_def find_filter split: option.splits)
  have b: "\<And>s h. statusHorario (filter (\<lambda>a. ag_data a = hoje) (agendamentos s)) False h =
       (if \<exists>a\<in>set (agendamentos s). ag_data a = hoje \<and> ag_hora a = h
                 then emoji_despertador @ '' (agendado)''
                 else emoji_check @ '' (dispon'' @ i_agudo @ ''vel)'')"
    unfolding statusHorario_sem_nome by auto
  have "(\<forall>s. listarAgendamentosDia e (ADMIN_PHONE e) dia s =
            join nl (map (\<lambda>h. h @ '' '' @
                (case find (\<lambda>a. ag_data a = hoje \<and> ag_hora a = h) (agendamentos s) of
                   Some a \<Rightarrow> emoji_despertador @ '' (agendado - '' @ ag_nome a @ '')''
                 | None \<Rightarrow> emoji_check @ '' (dispon'' @ i_agudo @ ''vel)'')) horas)
            @ nl @ nl @ mostrarMenu)"
    by (simp add: l a)
  moreover have "(\<forall>s sender. sender \<noteq> ADMIN_PHONE e \<longrightarrow>
            listarAgendamentosDia e sender dia s =
            join nl (map (\<lambda>h. h @ '' '' @
                (if \<exists>a\<in>set (agendamentos s). ag_data a = hoje \<and> ag_hora a = h
                 then emoji_despertador @ '' (agendado)''
                 else emoji_check @ '' (dispon'' @ i_agudo @ ''vel)'')) horas)
            @ nl @ nl @ mostrarMenu)"
    by (simp add: l b)
  ultimately show ?thesis by blast
qed

lemma sem_nome_existe:
  assumes "map (ag_nome_update (\<lambda>_. [])) xs = map (ag_nome_update (\<lambda>_. [])) ys"
  shows "(\<exists>a\<in>set xs. ag_data a = d \<and> ag_hora a = h) = (\<exists>a\<in>set ys. ag_data a = d \<and> ag_hora a = h)"
proof -
  have "\<And>zs. (\<exists>a\<in>set zs. ag_data a = d \<and> ag_hora a = h)
          = (\<exists>a\<in>set (map (ag_nome_update (\<lambda>_. [])) zs). ag_data a = d \<and> ag_hora a = h)"
    by simp
  then show ?thesis using assms by metis
qed

text \<open>The clock of a half hour of a day.\<close>

lemma relogio_meia_hora:
  fixes d k :: int
  assumes "0 \<le> k" "k < 48"
  shows "HourFromTime (d * msPerDay + k * 1800000) = k div 2"
    and "MinFromTime (d * msPerDay + k * 1800000) = 30 * (k mod 2)"
proof -
  define q r where "q = k div 2" and "r = k mod 2"
  have k: "k = 2 * q + r" by (simp add: q_def r_def)
  have r: "r = 0 \<or> r = 1" unfolding r_def by auto
  have q: "0 \<le> q" "q < 24" using assms by (simp_all add: q_def)
  have h: "d * msPerDay + k * 1800000 = (24 * d + q) * 3600000 + r * 1800000"
    by (simp add: k msPerDay_def algebra_simps)
  have "(d * msPerDay + k * 1800000) div 3600000 = 24 * d + q"
    unfolding h using r by (elim disjE) simp_all
  moreover have "(24 * d + q) mod 24 = q" using q by simp
  ultimately show "HourFromTime (d * msPerDay + k * 1800000) = k div 2"
    by (simp add: HourFromTime_def q_def)
  have m: "d * msPerDay + k * 1800000 = (1440 * d + 60 * q + 30 * r) * 60000"
    by (simp add: k msPerDay_def algebra_simps)
  have "(d * msPerDay + k * 1800000) div 60000 = (24 * d + q) * 60 + 30 * r"
    unfolding m by (simp add: algebra_simps)
  moreover have "((24 * d + q) * 60 + 30 * r) mod 60 = (30 * r) mod 60"
    by (rule mod_mult_self3)
  moreover have "(30 * r) mod 60 = 30 * r"
    using r by (elim disjE) simp_all
  ultimately show "MinFromTime (d * msPerDay + k * 1800000) = 30 * (k mod 2)"
    by (simp add: MinFromTime_def r_def)
qed

lemma toTimeString5_meia_hora:
  fixes d k :: int
  assumes "0 \<le> k" "k < 48"
  shows "toTimeString5 e (Some (UTC e (d * msPerDay + k * 1800000)))
         = pad 2 (k div 2) @ '':'' @ pad 2 (30 * (k mod 2))"
  using relogio_meia_hora[OF assms, of d]
  by (simp add: toTimeString5_def LocalTime_def UTC_def)

lemma setMinutes30_meia_hora:
  fixes d k :: int
  assumes "\<bar>tza e\<bar> \<le> msPerDay" "\<bar>d\<bar> \<le> 99999998" "0 \<le> k" "k < 48"
  shows "setMinutes30 (Some (UTC e (d * msPerDay + k * 1800000)))
         = Some (UTC e (d * msPerDay + (k + 1) * 1800000))"
proof -
  have "\<bar>d * msPerDay\<bar> \<le> 99999998 * msPerDay"
    using assms(2) by (simp add: msPerDay_def abs_mult)
  then have "\<bar>d * msPerDay + (k + 1) * 1800000 - tza e\<bar> \<le> 8640000000000000"
    using assms by (simp add: msPerDay_def abs_le_iff)
  then show ?thesis
    by (simp add: setMinutes30_def TimeClip_def UTC_def algebra_simps)
qed

lemma horariosLoop_grade:
  fixes d a b :: int
  assumes "\<bar>tza e\<bar> \<le> msPerDay" "\<bar>d\<bar> \<le> 99999998" "0 \<le> a" "a \<le> b" "b \<le> 48"
  shows "horariosLoop e rows adm (Some (UTC e (d * msPerDay + a * 1800000)))
           (Some (UTC e (d * msPerDay + b * 1800000)))
         = map (\<lambda>h. h @ '' '' @ statusHorario rows adm h)
             (map (\<lambda>k. pad 2 (k div 2) @ '':'' @ pad 2 (30 * (k mod 2))) [a..b - 1])"
  using assms(3,4)
proof (induction "nat (b - a)" arbitrary: a)
  case 0
  then have "a = b" by simp
  then show ?case
    by (simp add: horariosLoop.simps[of e rows adm "Some (UTC e (d * msPerDay + b * 1800000))"]
        date_lt_def)
next
  case (Suc n)
  then have ab: "a < b" "0 \<le> a" "a < 48" using assms(5) by simp_all
  have lt: "date_lt (Some (UTC e (d * msPerDay + a * 1800000)))
              (Some (UTC e (d * msPerDay + b * 1800000)))"
    using ab(1) by (simp add: date_lt_def UTC_def)
  have ih: "horariosLoop e rows adm (Some (UTC e (d * msPerDay + (a + 1) * 1800000)))
              (Some (UTC e (d * msPerDay + b * 1800000)))
            = map (\<lambda>h. h @ '' '' @ statusHorario rows adm h)
                (map (\<lambda>k. pad 2 (k div 2) @ '':'' @ pad 2 (30 * (k mod 2))) [a + 1..b - 1])"
    using Suc.hyps(1)[of "a + 1"] Suc.hyps(2) ab by simp
  have u: "[a..b - 1] = a # [a + 1..b - 1]" using ab(1) by (simp add: upto_rec1)
  have passo: "horariosLoop e rows adm (Some (UTC e (d * msPerDay + a * 1800000)))
                 (Some (UTC e (d * msPerDay + b * 1800000)))
         = (let horaStr = toTimeString5 e (Some (UTC e (d * msPerDay + a * 1800000)))
            in (horaStr @ '' '' @ statusHorario rows adm horaStr)
               # horariosLoop e rows adm
                   (setMinutes30 (Some (UTC e (d * msPerDay + a * 1800000))))
                   (Some (UTC e (d * msPerDay + b * 1800000))))"
    by (subst horariosLoop.simps) (simp only: lt if_True)
  show ?case
    unfolding passo Let_def toTimeString5_meia_hora[OF ab(2,3)]
      setMinutes30_meia_hora[OF assms(1,2) ab(2,3)] ih u
    by simp
qed


lemma listarAgendamentosDia_grade:
  fixes e :: env and dia :: "string option" and d hi hf :: int
  defines "hoje \<equiv> (case dia of None \<Rightarrow> isoDia (now e)
                     | Some d \<Rightarrow> if d = [] then isoDia (now e) else d)"
  assumes x: "expediente (getDay e (Date_parse e hoje)) = (hi, hf)"
    and z: "\<bar>tza e\<bar> \<le> msPerDay" and dd: "\<bar>d\<bar> \<le> 99999998"
    and ini: "Date_parse e (hoje @ ''T'' @ pad 2 hi @ '':00:00'')
              = Some (UTC e (MakeDate d (MakeTime hi 0 0 0)))"
    and fim: "Date_parse e (hoje @ ''T'' @ pad 2 hf @ '':00:00'')
              = Some (UTC e (MakeDate d (MakeTime hf 0 0 0)))"
  shows "listarAgendamentosDia e sender dia s =
           join nl (map (\<lambda>h. h @ '' '' @
               statusHorario (filter (\<lambda>a. ag_data a = hoje) (agendamentos s))
                 (sender = ADMIN_PHONE e) h)
             (map (\<lambda>k. pad 2 (k div 2) @ '':'' @ pad 2 (30 * (k mod 2))) [2 * hi..2 * hf - 1]))
           @ nl @ nl @ mostrarMenu"
proof -
  have c: "hi = 10 \<and> hf = 16 \<or> hi = 9 \<and> hf = 20"
    using x by (auto simp: expediente_def split: if_splits)
  then have r: "0 \<le> 2 * hi" "2 * hi \<le> 2 * hf" "2 * hf \<le> 48" "0 \<le> hi" "0 \<le> hf" by auto
  have pp: "padStart 2 (CHR ''0'') (numStr hi) = pad 2 hi" "padStart 2 (CHR ''0'') (numStr hf) = pad 2 hf"
    using r(4,5) by (simp_all add: pad_def numStr_def)
  have mk: "MakeDate d (MakeTime hi 0 0 0) = d * msPerDay + (2 * hi) * 1800000"
           "MakeDate d (MakeTime hf 0 0 0) = d * msPerDay + (2 * hf) * 1800000"
    by (simp_all add: MakeDate_def MakeTime_def)
  have f: "fst (expediente (getDay e (Date_parse e hoje))) = hi"
          "snd (expediente (getDay e (Date_parse e hoje))) = hf"
    using x by simp_all
  show ?thesis
    unfolding listarAgendamentosDia_def Let_def case_prod_beta hoje_def[symmetric] f pp ini fim mk
      horariosLoop_grade[OF z dd r(1,2,3)]
    by (rule refl)
qed

text \<open>
  C7. For a caller other than the administrator, two states of the table that differ
  only in the names of the bookings give the same listing, for every date. Where the
  engine reads the opening and the closing hour of the date as those hours of a day in
  local time, the listing has one line for every half hour from the opening hour up to
  the closing hour: for the administrator the line of a booked slot carries the name of
  the (first) row booked for it, for every other caller it says only that the slot is
  booked, and a free slot is marked as free. For every date at all, the two listings have
  the same slots.
\<close>

theorem listarAgendamentosDia_nomes:
  fixes e :: env and dia :: "string option"
  defines "hoje \<equiv> (case dia of None \<Rightarrow> isoDia (now e)
                     | Some d \<Rightarrow> if d = [] then isoDia (now e) else d)"
  shows "(sender \<noteq> ADMIN_PHONE e
          \<and> map (ag_nome_update (\<lambda>_. [])) (agendamentos s)
              = map (ag_nome_update (\<lambda>_. [])) (agendamentos s') \<longrightarrow>
          listarAgendamentosDia e sender dia s = listarAgendamentosDia e sender dia s')
   \<and> (\<forall>d hi hf.
        expediente (getDay e (Date_parse e hoje)) = (hi, hf)
        \<and> \<bar>tza e\<bar> \<le> msPerDay \<and> \<bar>d\<bar> \<le> 99999998
        \<and> Date_parse e (hoje @ ''T'' @ pad 2 hi @ '':00:00'')
            = Some (UTC e (MakeDate d (MakeTime hi 0 0 0)))
        \<and> Date_parse e (hoje @ ''T'' @ pad 2 hf @ '':00:00'')
            = Some (UTC e (MakeDate d (MakeTime hf 0 0 0))) \<longrightarrow>
        (\<forall>s. listarAgendamentosDia e (ADMIN_PHONE e) dia s =
            join nl (map (\<lambda>h. h @ '' '' @
                (case find (\<lambda>a. ag_data a = hoje \<and> ag_hora a = h) (agendamentos s) of
                   Some a \<Rightarrow> emoji_despertador @ '' (agendado - '' @ ag_nome a @ '')''
                 | None \<Rightarrow> emoji_check @ '' (dispon'' @ i_agudo @ ''vel)''))
              (map (\<lambda>k. pad 2 (k div 2) @ '':'' @ pad 2 (30 * (k mod 2))) [2 * hi..2 * hf - 1]))
            @ nl @ nl @ mostrarMenu)
        \<and> (\<forall>s sender. sender \<noteq> ADMIN_PHONE e \<longrightarrow>
            listarAgendamentosDia e sender dia s =
            join nl (map (\<lambda>h. h @ '' '' @
                (if \<exists>a\<in>set (agendamentos s). ag_data a = hoje \<and> ag_hora a = h
                 then emoji_despertador @ '' (agendado)''
                 else emoji_check @ '' (dispon'' @ i_agudo @ ''vel)''))
              (map (\<lambda>k. pad 2 (k div 2) @ '':'' @ pad 2 (30 * (k mod 2))) [2 * hi..2 * hf - 1]))
            @ nl @ nl @ mostrarMenu))
   \<and> (\<exists>horas.
      (\<forall>s. listarAgendamentosDia e (ADMIN_PHONE e) dia s =
            join nl (map (\<lambda>h. h @ '' '' @
                (case find (\<lambda>a. ag_data a = hoje \<and> ag_hora a = h) (agendamentos s) of
                   Some a \<Rightarrow> emoji_despertador @ '' (agendado - '' @ ag_nome a @ '')''
                 | None \<Rightarrow> emoji_check @ '' (dispon'' @ i_agudo @ ''vel)'')) horas)
            @ nl @ nl @ mostrarMenu)
      \<and> (\<forall>s sender. sender \<noteq> ADMIN_PHONE e \<longrightarrow>
            listarAgendamentosDia e sender dia s =
            join nl (map (\<lambda>h. h @ '' '' @
                (if \<exists>a\<in>set (agendamentos s). ag_data a = hoje \<and> ag_hora a = h
                 then emoji_despertador @ '' (agendado)''
                 else emoji_check @ '' (dispon'' @ i_agudo @ ''vel)'')) horas)
            @ nl @ nl @ mostrarMenu))"
proof (intro conjI impI allI)
  obtain horas where f: "\<forall>s sender. sender \<noteq> ADMIN_PHONE e \<longrightarrow>
            listarAgendamentosDia e sender dia s =
            join nl (map (\<lambda>h. h @ '' '' @
                (if \<exists>a\<in>set (agendamentos s). ag_data a = hoje \<and> ag_hora a = h
                 then emoji_despertador @ '' (agendado)''
                 else emoji_check @ '' (dispon'' @ i_agudo @ ''vel)'')) horas)
            @ nl @ nl @ mostrarMenu"
    using listarAgendamentosDia_forma[of e dia] unfolding hoje_def by blast
  assume a: "sender \<noteq> ADMIN_PHONE e
          \<and> map (ag_nome_update (\<lambda>_. [])) (agendamentos s)
              = map (ag_nome_update (\<lambda>_. [])) (agendamentos s')"
  then have "\<And>h. (\<exists>a\<in>set (agendamentos s). ag_data a = hoje \<and> ag_hora a = h)
               = (\<exists>a\<in>set (agendamentos s'). ag_data a = hoje \<and> ag_hora a = h)"
    using sem_nome_existe by blast
  then show "listarAgendamentosDia e sender dia s = listarAgendamentosDia e sender dia s'"
    using f a by simp
next
  fix d hi hf :: int and s :: bot
  assume h: "expediente (getDay e (Date_parse e hoje)) = (hi, hf)
        \<and> \<bar>tza e\<bar> \<le> msPerDay \<and> \<bar>d\<bar> \<le> 99999998
        \<and> Date_parse e (hoje @ ''T'' @ pad 2 hi @ '':00:00'')
            = Some (UTC e (MakeDate d (MakeTime hi 0 0 0)))
        \<and> Date_parse e (hoje @ ''T'' @ pad 2 hf @ '':00:00'')
            = Some (UTC e (MakeDate d (MakeTime hf 0 0 0)))"
  have a: "\<And>h. statusHorario (filter (\<lambda>a. ag_data a = hoje) (agendamentos s)) True h =
       (case find (\<lambda>a. ag_data a = hoje \<and> ag_hora a = h) (agendamentos s) of
                   Some a \<Rightarrow> emoji_despertador @ '' (agendado - '' @ ag_nome a @ '')''
                 | None \<Rightarrow> emoji_check @ '' (dispon'' @ i_agudo @ ''vel)'')"
    by (simp add: statusHorario_def find_filter split: option.splits)
  show "listarAgendamentosDia e (ADMIN_PHONE e) dia s =
            join nl (map (\<lambda>h. h @ '' '' @
                (case find (\<lambda>a. ag_data a = hoje \<and> ag_hora a = h) (agendamentos s) of
                   Some a \<Rightarrow> emoji_despertador @ '' (agendado - '' @ ag_nome a @ '')''
                 | None \<Rightarrow> emoji_check @ '' (dispon'' @ i_agudo @ ''vel)''))
              (map (\<lambda>k. pad 2 (k div 2) @ '':'' @ pad 2 (30 * (k mod 2))) [2 * hi..2 * hf - 1]))
            @ nl @ nl @ mostrarMenu"
    using listarAgendamentosDia_grade[of e dia hi hf d "ADMIN_PHONE e" s] h
    unfolding hoje_def[symmetric] by (simp add: a)
next
  fix d hi hf :: int and s :: bot and sender :: string
  assume h: "expediente (getDay e (Date_parse e hoje)) = (hi, hf)
        \<and> \<bar>tza e\<bar> \<le> msPerDay \<and> \<bar>d\<bar> \<le> 99999998
        \<and> Date_parse e (hoje @ ''T'' @ pad 2 hi @ '':00:00'')
            = Some (UTC e (MakeDate d (MakeTime hi 0 0 0)))
        \<and> Date_parse e (hoje @ ''T'' @ pad 2 hf @ '':00:00'')
            = Some (UTC e (MakeDate d (MakeTime hf 0 0 0)))"
    and n: "sender \<noteq> ADMIN_PHONE e"
  have b: "\<And>h. statusHorario (filter (\<lambda>a. ag_data a = hoje) (agendamentos s)) False h =
       (if \<exists>a\<in>set (agendamentos s). ag_data a = hoje \<and> ag_hora a = h
                 then emoji_despertador @ '' (agendado)''
                 else emoji_check @ '' (dispon'' @ i_agudo @ ''vel)'')"
    unfolding statusHorario_sem_nome by auto
  show "listarAgendamentosDia e sender dia s =
            join nl (map (\<lambda>h. h @ '' '' @
                (if \<exists>a\<in>set (agendamentos s). ag_data a = hoje \<and> ag_hora a = h
                 then emoji_despertador @ '' (agendado)''
                 else emoji_check @ '' (dispon'' @ i_agudo @ ''vel)''))
              (map (\<lambda>k. pad 2 (k div 2) @ '':'' @ pad 2 (30 * (k mod 2))) [2 * hi..2 * hf - 1]))
            @ nl @ nl @ mostrarMenu"
    using listarAgendamentosDia_grade[of e dia hi hf d sender s] h n
    unfolding hoje_def[symmetric] by (simp add: b)
next
  show "\<exists>horas.
      (\<forall>s. listarAgendamentosDia e (ADMIN_PHONE e) dia s =
            join nl (map (\<lambda>h. h @ '' '' @
                (case find (\<lambda>a. ag_data a = hoje \<and> ag_hora a = h) (agendamentos s) of
                   Some a \<Rightarrow> emoji_despertador @ '' (agendado - '' @ ag_nome a @ '')''
                 | None \<Rightarrow> emoji_check @ '' (dispon'' @ i_agudo @ ''vel)'')) horas)
            @ nl @ nl @ mostrarMenu)
      \<and> (\<forall>s sender. sender \<noteq> ADMIN_PHONE e \<longrightarrow>
            listarAgendamentosDia e sender dia s =
            join nl (map (\<lambda>h. h @ '' '' @
                (if \<exists>a\<in>set (agendamentos s). ag_data a = hoje \<and> ag_hora a = h
                 then emoji_despertador @ '' (agendado)''
                 else emoji_check @ '' (dispon'' @ i_agudo @ ''vel)'')) horas)
            @ nl @ nl @ mostrarMenu)"
    using listarAgendamentosDia_forma[of e dia] unfolding hoje_def by blast
qed


theorem listarAgendamentosDia_nomes_witness:
  "''a@c.us'' \<noteq> ADMIN_PHONE env_ex
   \<and> map (ag_nome_update (\<lambda>_. [])) (agendamentos bot_ocupado)
       = map (ag_nome_update (\<lambda>_. [])) (agendamentos bot_ocupado_zeca)
   \<and> agendamentos bot_ocupado \<noteq> agendamentos bot_ocupado_zeca
   \<and> listarAgendamentosDia env_ex ''a@c.us'' (Some ''2025-12-25'') bot_ocupado
       = listarAgendamentosDia env_ex ''a@c.us'' (Some ''2025-12-25'') bot_ocupado_zeca
   \<and> includes_str (listarAgendamentosDia env_ex ''a@c.us'' (Some ''2025-12-25'') bot_ocupado)
        (''09:00 '' @ emoji_despertador @ '' (agendado)'')
   \<and> includes_str (listarAgendamentosDia env_ex (ADMIN_PHONE env_ex) (Some ''2025-12-25'') bot_ocupado)
        (''09:00 '' @ emoji_despertador @ '' (agendado - Carlos)'')
   \<and> expediente (getDay env_ex (Date_parse env_ex ''2025-12-01'')) = (9, 20)
   \<and> Date_parse env_ex (''2025-12-01'' @ ''T'' @ pad 2 9 @ '':00:00'')
       = Some (UTC env_ex (MakeDate 20423 (MakeTime 9 0 0 0)))
   \<and> Date_parse env_ex (''2025-12-01'' @ ''T'' @ pad 2 20 @ '':00:00'')
       = Some (UTC env_ex (MakeDate 20423 (MakeTime 20 0 0 0)))
   \<and> listarAgendamentosDia env_ex (ADMIN_PHONE env_ex) (Some ''2025-12-01'') bot_tres =
        join nl (map (\<lambda>h. h @ '' '' @
            (case find (\<lambda>a. ag_data a = ''2025-12-01'' \<and> ag_hora a = h) (agendamentos bot_tres) of
               Some a \<Rightarrow> emoji_despertador @ '' (agendado - '' @ ag_nome a @ '')''
             | None \<Rightarrow> emoji_check @ '' (dispon'' @ i_agudo @ ''vel)''))
          (map (\<lambda>k. pad 2 (k div 2) @ '':'' @ pad 2 (30 * (k mod 2))) [2 * 9..2 * 20 - 1]))
        @ nl @ nl @ mostrarMenu
   \<and> map (\<lambda>k. pad 2 (k div 2) @ '':'' @ pad 2 (30 * (k mod 2))) [2 * 9..2 * 10]
       = [''09:00'', ''09:30'', ''10:00'']
   \<and> includes_str (listarAgendamentosDia env_ex (ADMIN_PHONE env_ex) (Some ''2025-12-01'') bot_tres)
        (''10:00 '' @ emoji_despertador @ '' (agendado - Ana)'')"
proof -
  have h1: "''a@c.us'' \<noteq> ADMIN_PHONE env_ex" by (simp add: env_ex_def)
  have h2: "map (ag_nome_update (\<lambda>_. [])) (agendamentos bot_ocupado)
       = map (ag_nome_update (\<lambda>_. [])) (agendamentos bot_ocupado_zeca)"
    by (simp add: bot_ocupado_def bot_ocupado_zeca_def linha_def)
  have h3: "agendamentos bot_ocupado \<noteq> agendamentos bot_ocupado_zeca"
    by (simp add: bot_ocupado_def bot_ocupado_zeca_def linha_def)
  have c1: "listarAgendamentosDia env_ex ''a@c.us'' (Some ''2025-12-25'') bot_ocupado
       = listarAgendamentosDia env_ex ''a@c.us'' (Some ''2025-12-25'') bot_ocupado_zeca"
    using listarAgendamentosDia_nomes[THEN conjunct1, rule_format, of "''a@c.us''" env_ex bot_ocupado
        bot_ocupado_zeca "Some ''2025-12-25''"] h1 h2
    by simp
  have c2: "includes_str (listarAgendamentosDia env_ex ''a@c.us'' (Some ''2025-12-25'') bot_ocupado)
        (''09:00 '' @ emoji_despertador @ '' (agendado)'')"
    by code_simp
  have c3: "includes_str (listarAgendamentosDia env_ex (ADMIN_PHONE env_ex) (Some ''2025-12-25'') bot_ocupado)
        (''09:00 '' @ emoji_despertador @ '' (agendado - Carlos)'')"
    by code_simp
  have x: "expediente (getDay env_ex (Date_parse env_ex ''2025-12-01'')) = (9, 20)" by code_simp
  have z: "\<bar>tza env_ex\<bar> \<le> msPerDay" "\<bar>20423 :: int\<bar> \<le> 99999998"
    by (simp_all add: env_ex_def msPerDay_def)
  have p1: "Date_parse env_ex (''2025-12-01'' @ ''T'' @ pad 2 9 @ '':00:00'')
       = Some (UTC env_ex (MakeDate 20423 (MakeTime 9 0 0 0)))" by code_simp
  have p2: "Date_parse env_ex (''2025-12-01'' @ ''T'' @ pad 2 20 @ '':00:00'')
       = Some (UTC env_ex (MakeDate 20423 (MakeTime 20 0 0 0)))" by code_simp
  have hj: "(case Some ''2025-12-01'' of None \<Rightarrow> isoDia (now env_ex)
             | Some d \<Rightarrow> if d = [] then isoDia (now env_ex) else d) = ''2025-12-01''"
    by simp
  note t = listarAgendamentosDia_nomes[where e = env_ex and dia = "Some ''2025-12-01''",
      unfolded hj, THEN conjunct2, THEN conjunct1, rule_format, of 9 20 20423,
      OF conjI[OF x conjI[OF z(1) conjI[OF z(2) conjI[OF p1 p2]]]], THEN conjunct1, rule_format,
      of bot_tres]
  have g: "map (\<lambda>k. pad 2 (k div 2) @ '':'' @ pad 2 (30 * (k mod 2))) [2 * 9..2 * 10]
       = [''09:00'', ''09:30'', ''10:00'']" by code_simp
  have c4: "includes_str (listarAgendamentosDia env_ex (ADMIN_PHONE env_ex) (Some ''2025-12-01'') bot_tres)
        (''10:00 '' @ emoji_despertador @ '' (agendado - Ana)'')"
    by code_simp
  show ?thesis using h1 h2 h3 c1 c2 c3 x p1 p2 t g c4 by (intro conjI)
qed

section \<open>Properties of the retention job\<close>

lemma T_fora_isoDate: "CHR ''T'' \<notin> set (isoDate d)"
proof -
  have "\<And>n k. CHR ''T'' \<notin> set (pad n k)" using set_pad by fastforce
  then show ?thesis by (simp add: isoDate_def Let_def)
qed

lemma isoDia_isoDate: "isoDia t = isoDate (Day t)"
  using split_sem_separador[OF T_fora_isoDate, of "Day t"]
  by (simp add: isoDia_def toISOString_def)

lemma MakeDay_civil:
  "MakeDay (YearFromDay d) (MonthFromDay d) (DateFromDay d + k) = d + k"
proof -
  have m: "MonthFromDay d div 12 = 0" "MonthFromDay d mod 12 = MonthFromDay d"
    using MonthFromDay_spec(1,2)[of d] by simp_all
  show ?thesis by (simp add: MakeDay_def Let_def m DateFromDay_def)
qed

lemma setDate_dias:
  "setDate e t (getDate e t + k) = TimeClip (t + k * msPerDay)"
proof -
  have d: "Day (LocalTime e t) * msPerDay + TimeWithinDay (LocalTime e t) = LocalTime e t"
    by (simp add: Day_def TimeWithinDay_def)
  have "MakeDate (Day (LocalTime e t) + k) (TimeWithinDay (LocalTime e t)) = LocalTime e t + k * msPerDay"
    using d by (simp add: MakeDate_def algebra_simps)
  then show ?thesis
    by (simp add: setDate_def getDate_def Let_def MakeDay_civil UTC_def LocalTime_def)
qed

lemma Day_menos: "Day (t + k * msPerDay) = Day t + k"
  by (simp add: Day_def msPerDay_def)

text \<open>
  The ISO text of a day with a four-digit year: the order of the texts is the order of
  the days.
\<close>

lemma iso_lex:
  assumes "length Y1 = length Y2" "length M1 = length M2"
  shows "str_lt (Y1 @ ''-'' @ M1 @ ''-'' @ D1) (Y2 @ ''-'' @ M2 @ ''-'' @ D2) =
         (str_lt Y1 Y2 \<or> (Y1 = Y2 \<and> (str_lt M1 M2 \<or> (M1 = M2 \<and> str_lt D1 D2))))"
proof -
  have a: "str_lt (M1 @ ''-'' @ D1) (M2 @ ''-'' @ D2) = (str_lt M1 M2 \<or> (M1 = M2 \<and> str_lt D1 D2))"
    using str_lt_append[OF assms(2), of "''-'' @ D1" "''-'' @ D2"] by simp
  have b: "str_lt (''-'' @ M1 @ ''-'' @ D1) (''-'' @ M2 @ ''-'' @ D2)
           = str_lt (M1 @ ''-'' @ D1) (M2 @ ''-'' @ D2)" by simp
  show ?thesis
    using str_lt_append[OF assms(1), of "''-'' @ M1 @ ''-'' @ D1" "''-'' @ M2 @ ''-'' @ D2"]
    unfolding b a by simp
qed

lemma isoDate_menor:
  assumes a: "0 \<le> YearFromDay a" "YearFromDay a \<le> 9999"
    and b: "0 \<le> YearFromDay b" "YearFromDay b \<le> 9999"
    and ab: "a < b"
  shows "str_lt (isoDate a) (isoDate b)"
proof -
  have ya: "0 \<le> YearFromDay a" "YearFromDay a < 10000" using a by simp_all
  have yb: "0 \<le> YearFromDay b" "YearFromDay b < 10000" using b by simp_all
  have ma: "0 \<le> MonthFromDay a + 1" "MonthFromDay a + 1 < 100"
    using MonthFromDay_spec(1,2)[of a] by simp_all
  have mb: "0 \<le> MonthFromDay b + 1" "MonthFromDay b + 1 < 100"
    using MonthFromDay_spec(1,2)[of b] by simp_all
  have da: "0 \<le> DateFromDay a" "DateFromDay a < 100" using DateFromDay_bounds[of a] by simp_all
  have db: "0 \<le> DateFromDay b" "DateFromDay b < 100" using DateFromDay_bounds[of b] by simp_all
  define Ya Ma Da where "Ya = pad 4 (YearFromDay a)" and "Ma = pad 2 (MonthFromDay a + 1)"
    and "Da = pad 2 (DateFromDay a)"
  define Yb Mb Db where "Yb = pad 4 (YearFromDay b)" and "Mb = pad 2 (MonthFromDay b + 1)"
    and "Db = pad 2 (DateFromDay b)"
  have ia: "isoDate a = Ya @ ''-'' @ Ma @ ''-'' @ Da"
    using a by (simp add: isoDate_def Let_def Ya_def Ma_def Da_def)
  have ib: "isoDate b = Yb @ ''-'' @ Mb @ ''-'' @ Db"
    using b by (simp add: isoDate_def Let_def Yb_def Mb_def Db_def)
  have l4: "length Ya = length Yb"
    unfolding Ya_def Yb_def by (simp add: pad4[OF ya] pad4[OF yb])
  have l2: "length Ma = length Mb"
    unfolding Ma_def Mb_def by (simp add: length_pad2[OF ma] length_pad2[OF mb])
  have y: "str_lt Ya Yb = (YearFromDay a < YearFromDay b)" "(Ya = Yb) = (YearFromDay a = YearFromDay b)"
    unfolding Ya_def Yb_def by (rule str_lt_pad4[OF ya yb])+
  have m: "str_lt Ma Mb = (MonthFromDay a + 1 < MonthFromDay b + 1)"
          "(Ma = Mb) = (MonthFromDay a + 1 = MonthFromDay b + 1)"
    unfolding Ma_def Mb_def by (rule str_lt_pad2[OF ma mb])+
  have d: "str_lt Da Db = (DateFromDay a < DateFromDay b)"
    unfolding Da_def Db_def by (rule str_lt_pad2[OF da db])
  show ?thesis
    unfolding ia ib iso_lex[OF l4 l2] y m d using date_order[OF ab] by auto
qed

lemma isoDate_ordem:
  assumes "0 \<le> YearFromDay d1" "YearFromDay d1 \<le> 9999" "0 \<le> YearFromDay d2" "YearFromDay d2 \<le> 9999"
  shows "str_lt (isoDate d1) (isoDate d2) = (d1 < d2)"
proof (cases "d1 < d2")
  case True
  then show ?thesis using isoDate_menor[OF assms] by simp
next
  case False
  show ?thesis
  proof (cases "d1 = d2")
    case True
    then show ?thesis by (simp add: str_lt_irrefl)
  next
    case ne: False
    then have "d2 < d1" using False by simp
    then have "str_lt (isoDate d2) (isoDate d1)"
      using isoDate_menor[OF assms(3,4) assms(1,2)] by simp
    then show ?thesis using False str_lt_asym by blast
  qed
qed

lemma dia_quatro_digitos:
  assumes "0 \<le> YearFromDay d" "YearFromDay d \<le> 9999"
  shows "- 719528 \<le> d" "d < 2932897"
proof -
  have "DayFromYear 0 \<le> DayFromYear (YearFromDay d)" using assms(1) by (rule DayFromYear_mono)
  then show "- 719528 \<le> d" using YearFromDay_spec(1)[of d] by (simp add: DayFromYear_def)
  have "YearFromDay d + 1 \<le> 10000" using assms(2) by simp
  then have "DayFromYear (YearFromDay d + 1) \<le> DayFromYear 10000" by (rule DayFromYear_mono)
  then show "d < 2932897" using YearFromDay_spec(2)[of d] by (simp add: DayFromYear_def)
qed

lemma dataLimite_valida:
  assumes "0 \<le> YearFromDay (Day (now e) - 30)" "YearFromDay (Day (now e) - 30) \<le> 9999"
  shows "setDate e (now e) (getDate e (now e) - 30) = Some (now e - 30 * msPerDay)"
proof -
  define t where "t = now e - 30 * msPerDay"
  have D: "Day t = Day (now e) - 30"
    using Day_menos[of "now e" "- 30"] by (simp add: t_def)
  have q: "msPerDay * Day t \<le> t" "t < msPerDay * Day t + msPerDay"
    unfolding Day_def using div_bounds[of msPerDay t] by (simp_all add: msPerDay_def)
  have r: "- 719528 \<le> Day t" "Day t < 2932897"
    using dia_quatro_digitos[OF assms[folded D]] by simp_all
  have "- 8640000000000000 \<le> t" "t \<le> 8640000000000000"
    using q r by (simp_all add: msPerDay_def)
  then have "TimeClip t = Some t" by (simp add: TimeClip_def)
  then show ?thesis
    using setDate_dias[of e "now e" "- 30"] by (simp add: t_def)
qed

text \<open>
  C8. At a moment whose date thirty days earlier has a four-digit year, the retention
  job keeps the rows whose text of the date is not below the ISO text of that day, in
  their order, and changes nothing else: the cancellations and the feedbacks are the
  same. Today is the date that the program reads off \<open>toISOString\<close> everywhere, the
  UTC date of the moment. A row dated on a calendar day \<open>d\<close> (with a four-digit year)
  is in the table afterwards exactly when it was there before and \<open>d\<close> is no more than
  30 days before today: one dated 31 days before is deleted, one dated 30 or 29 days
  before is kept.
\<close>

theorem limpezaAgendamentosAntigos_trinta_dias:
  assumes "0 \<le> YearFromDay (Day (now e) - 30)" "YearFromDay (Day (now e) - 30) \<le> 9999"
  shows "limpezaAgendamentosAntigos e s =
           s\<lparr>agendamentos :=
                filter (\<lambda>a. \<not> str_lt (ag_data a) (isoDate (Day (now e) - 30))) (agendamentos s)\<rparr>
         \<and> cancelamentos (limpezaAgendamentosAntigos e s) = cancelamentos s
         \<and> feedbacks (limpezaAgendamentosAntigos e s) = feedbacks s
         \<and> isoDia (now e) = isoDate (Day (now e))
         \<and> (\<forall>a d. ag_data a = isoDate d \<and> 0 \<le> YearFromDay d \<and> YearFromDay d \<le> 9999 \<longrightarrow>
               (a \<in> set (agendamentos (limpezaAgendamentosAntigos e s)))
               = (a \<in> set (agendamentos s) \<and> \<not> 30 < Day (now e) - d))"
proof -
  have D: "Day (now e - 30 * msPerDay) = Day (now e) - 30"
    using Day_menos[of "now e" "- 30"] by simp
  have l: "limpezaAgendamentosAntigos e s =
           s\<lparr>agendamentos :=
                filter (\<lambda>a. \<not> str_lt (ag_data a) (isoDate (Day (now e) - 30))) (agendamentos s)\<rparr>"
    by (simp add: limpezaAgendamentosAntigos_def dataLimite_valida[OF assms] isoDia_isoDate D)
  have o: "str_lt (isoDate d) (isoDate (Day (now e) - 30)) = (30 < Day (now e) - d)"
    if "0 \<le> YearFromDay d" "YearFromDay d \<le> 9999" for d
    using isoDate_ordem[OF that assms] by (simp add: algebra_simps)
  show ?thesis
    unfolding l by (auto simp: isoDia_isoDate o)
qed

theorem limpezaAgendamentosAntigos_trinta_dias_witness:
  "map ag_data (agendamentos (limpezaAgendamentosAntigos env_ex bot_antigos))
     = [''2025-10-03'', ''2025-10-04'']
   \<and> map ag_data (agendamentos bot_antigos) = [''2025-10-02'', ''2025-10-03'', ''2025-10-04'']
   \<and> isoDia (now env_ex) = ''2025-11-02''
   \<and> cancelamentos (limpezaAgendamentosAntigos env_ex bot_antigos) = cancelamentos bot_antigos
   \<and> feedbacks (limpezaAgendamentosAntigos env_ex bot_antigos) = feedbacks bot_antigos
   \<and> length (cancelamentos bot_antigos) = 1 \<and> length (feedbacks bot_antigos) = 1"
proof -
  have h: "0 \<le> YearFromDay (Day (now env_ex) - 30)" "YearFromDay (Day (now env_ex) - 30) \<le> 9999"
    by code_simp+
  have i: "isoDate (Day (now env_ex) - 30) = ''2025-10-03''" "isoDate (Day (now env_ex)) = ''2025-11-02''"
    by code_simp+
  have b: "map ag_data (agendamentos bot_antigos) = [''2025-10-02'', ''2025-10-03'', ''2025-10-04'']"
          "length (cancelamentos bot_antigos) = 1" "length (feedbacks bot_antigos) = 1"
    by code_simp+
  have f: "map ag_data (filter (\<lambda>a. \<not> str_lt (ag_data a) ''2025-10-03'') (agendamentos bot_antigos))
           = [''2025-10-03'', ''2025-10-04'']"
    by code_simp
  note t = limpezaAgendamentosAntigos_trinta_dias[OF h, of bot_antigos]
  have a: "map ag_data (agendamentos (limpezaAgendamentosAntigos env_ex bot_antigos))
           = [''2025-10-03'', ''2025-10-04'']"
    using t[THEN conjunct1] f by (simp add: i)
  have c: "cancelamentos (limpezaAgendamentosAntigos env_ex bot_antigos) = cancelamentos bot_antigos"
    by (rule t[THEN conjunct2, THEN conjunct1])
  have g: "feedbacks (limpezaAgendamentosAntigos env_ex bot_antigos) = feedbacks bot_antigos"
    by (rule t[THEN conjunct2, THEN conjunct2, THEN conjunct1])
  have n: "isoDia (now env_ex) = ''2025-11-02''"
    using t[THEN conjunct2, THEN conjunct2, THEN conjunct2, THEN conjunct1] by (simp add: i)
  show ?thesis using a b c g n by (intro conjI)
qed

end
